theory Spec2Isabelle
  imports
    Complex_Main
    "HOL-Library.List_Lexorder"
    "HOL-Library.Multiset"
    "HOL-Library.Product_Lexorder"
    "HOL-Library.Sublist"
begin

section \<open>Python strings\<close>

text \<open>
  A Python \<open>str\<close> is a sequence of Unicode code points, and the source contains
  code points above 255 (in the alias table), so a string is modelled as a list of
  code points (\<open>nat\<close>) rather than of 8-bit characters. \<open>py\<close> reads an ASCII
  literal. \<open>len\<close> is \<open>length\<close>, slicing \<open>s[:n]\<close> is \<open>take n s\<close>, \<open>+\<close> is \<open>@\<close>,
  and the order of strings is the lexicographic order of code points.

  \<open>str.lower\<close>, \<open>str.upper\<close> and \<open>str.title\<close> follow the Unicode Character Database,
  here in version 14.0.0, the one that CPython 3.11 carries. For the code points up to
  U+00FF the mappings are written as formulas; for the others, the tables below list every
  code point that a mapping changes, with the code points it becomes. \<open>cased_ranges\<close> and
  \<open>case_ignorable_ranges\<close> are the code points above U+00FF with the properties Cased and
  Case_Ignorable, as inclusive ranges. \<open>str_strip\<close> removes exactly the code points for
  which Python's \<open>str.isspace\<close> holds.
\<close>

type_synonym pychar = nat
type_synonym pystr = "pychar list"

definition py :: "string \<Rightarrow> pystr" where
  "py s = map of_char s"

text \<open>The lower-case forms of the code points above U+00FF that have one.\<close>

definition lower_table_1 :: "(pychar \<times> pystr) list" where
  "lower_table_1 =
    [(0x100, [0x101]), (0x102, [0x103]), (0x104, [0x105]), (0x106, [0x107]), (0x108, [0x109]),
     (0x10A, [0x10B]), (0x10C, [0x10D]), (0x10E, [0x10F]), (0x110, [0x111]), (0x112, [0x113]),
     (0x114, [0x115]), (0x116, [0x117]), (0x118, [0x119]), (0x11A, [0x11B]), (0x11C, [0x11D]),
     (0x11E, [0x11F]), (0x120, [0x121]), (0x122, [0x123]), (0x124, [0x125]), (0x126, [0x127]),
     (0x128, [0x129]), (0x12A, [0x12B]), (0x12C, [0x12D]), (0x12E, [0x12F]),
     (0x130, [0x69, 0x307]), (0x132, [0x133]), (0x134, [0x135]), (0x136, [0x137]),
     (0x139, [0x13A]), (0x13B, [0x13C]), (0x13D, [0x13E]), (0x13F, [0x140]), (0x141, [0x142]),
     (0x143, [0x144]), (0x145, [0x146]), (0x147, [0x148]), (0x14A, [0x14B]), (0x14C, [0x14D]),
     (0x14E, [0x14F]), (0x150, [0x151]), (0x152, [0x153]), (0x154, [0x155]), (0x156, [0x157]),
     (0x158, [0x159]), (0x15A, [0x15B]), (0x15C, [0x15D]), (0x15E, [0x15F]), (0x160, [0x161]),
     (0x162, [0x163]), (0x164, [0x165]), (0x166, [0x167]), (0x168, [0x169]), (0x16A, [0x16B]),
     (0x16C, [0x16D]), (0x16E, [0x16F]), (0x170, [0x171]), (0x172, [0x173]), (0x174, [0x175]),
     (0x176, [0x177]), (0x178, [0xFF]), (0x179, [0x17A]), (0x17B, [0x17C]), (0x17D, [0x17E]),
     (0x181, [0x253])]"

definition lower_table_2 :: "(pychar \<times> pystr) list" where
  "lower_table_2 =
    [(0x182, [0x183]), (0x184, [0x185]), (0x186, [0x254]), (0x187, [0x188]), (0x189, [0x256]),
     (0x18A, [0x257]), (0x18B, [0x18C]), (0x18E, [0x1DD]), (0x18F, [0x259]), (0x190, [0x25B]),
     (0x191, [0x192]), (0x193, [0x260]), (0x194, [0x263]), (0x196, [0x269]), (0x197, [0x268]),
     (0x198, [0x199]), (0x19C, [0x26F]), (0x19D, [0x272]), (0x19F, [0x275]), (0x1A0, [0x1A1]),
     (0x1A2, [0x1A3]), (0x1A4, [0x1A5]), (0x1A6, [0x280]), (0x1A7, [0x1A8]), (0x1A9, [0x283]),
     (0x1AC, [0x1AD]), (0x1AE, [0x288]), (0x1AF, [0x1B0]), (0x1B1, [0x28A]), (0x1B2, [0x28B]),
     (0x1B3, [0x1B4]), (0x1B5, [0x1B6]), (0x1B7, [0x292]), (0x1B8, [0x1B9]), (0x1BC, [0x1BD]),
     (0x1C4, [0x1C6]), (0x1C5, [0x1C6]), (0x1C7, [0x1C9]), (0x1C8, [0x1C9]), (0x1CA, [0x1CC]),
     (0x1CB, [0x1CC]), (0x1CD, [0x1CE]), (0x1CF, [0x1D0]), (0x1D1, [0x1D2]), (0x1D3, [0x1D4]),
     (0x1D5, [0x1D6]), (0x1D7, [0x1D8]), (0x1D9, [0x1DA]), (0x1DB, [0x1DC]), (0x1DE, [0x1DF]),
     (0x1E0, [0x1E1]), (0x1E2, [0x1E3]), (0x1E4, [0x1E5]), (0x1E6, [0x1E7]), (0x1E8, [0x1E9]),
     (0x1EA, [0x1EB]), (0x1EC, [0x1ED]), (0x1EE, [0x1EF]), (0x1F1, [0x1F3]), (0x1F2, [0x1F3]),
     (0x1F4, [0x1F5]), (0x1F6, [0x195]), (0x1F7, [0x1BF]), (0x1F8, [0x1F9])]"

definition lower_table_3 :: "(pychar \<times> pystr) list" where
  "lower_table_3 =
    [(0x1FA, [0x1FB]), (0x1FC, [0x1FD]), (0x1FE, [0x1FF]), (0x200, [0x201]), (0x202, [0x203]),
     (0x204, [0x205]), (0x206, [0x207]), (0x208, [0x209]), (0x20A, [0x20B]), (0x20C, [0x20D]),
     (0x20E, [0x20F]), (0x210, [0x211]), (0x212, [0x213]), (0x214, [0x215]), (0x216, [0x217]),
     (0x218, [0x219]), (0x21A, [0x21B]), (0x21C, [0x21D]), (0x21E, [0x21F]), (0x220, [0x19E]),
     (0x222, [0x223]), (0x224, [0x225]), (0x226, [0x227]), (0x228, [0x229]), (0x22A, [0x22B]),
     (0x22C, [0x22D]), (0x22E, [0x22F]), (0x230, [0x231]), (0x232, [0x233]), (0x23A, [0x2C65]),
     (0x23B, [0x23C]), (0x23D, [0x19A]), (0x23E, [0x2C66]), (0x241, [0x242]), (0x243, [0x180]),
     (0x244, [0x289]), (0x245, [0x28C]), (0x246, [0x247]), (0x248, [0x249]), (0x24A, [0x24B]),
     (0x24C, [0x24D]), (0x24E, [0x24F]), (0x370, [0x371]), (0x372, [0x373]), (0x376, [0x377]),
     (0x37F, [0x3F3]), (0x386, [0x3AC]), (0x388, [0x3AD]), (0x389, [0x3AE]), (0x38A, [0x3AF]),
     (0x38C, [0x3CC]), (0x38E, [0x3CD]), (0x38F, [0x3CE]), (0x391, [0x3B1]), (0x392, [0x3B2]),
     (0x393, [0x3B3]), (0x394, [0x3B4]), (0x395, [0x3B5]), (0x396, [0x3B6]), (0x397, [0x3B7]),
     (0x398, [0x3B8]), (0x399, [0x3B9]), (0x39A, [0x3BA]), (0x39B, [0x3BB])]"

definition lower_table_4 :: "(pychar \<times> pystr) list" where
  "lower_table_4 =
    [(0x39C, [0x3BC]), (0x39D, [0x3BD]), (0x39E, [0x3BE]), (0x39F, [0x3BF]), (0x3A0, [0x3C0]),
     (0x3A1, [0x3C1]), (0x3A3, [0x3C3]), (0x3A4, [0x3C4]), (0x3A5, [0x3C5]), (0x3A6, [0x3C6]),
     (0x3A7, [0x3C7]), (0x3A8, [0x3C8]), (0x3A9, [0x3C9]), (0x3AA, [0x3CA]), (0x3AB, [0x3CB]),
     (0x3CF, [0x3D7]), (0x3D8, [0x3D9]), (0x3DA, [0x3DB]), (0x3DC, [0x3DD]), (0x3DE, [0x3DF]),
     (0x3E0, [0x3E1]), (0x3E2, [0x3E3]), (0x3E4, [0x3E5]), (0x3E6, [0x3E7]), (0x3E8, [0x3E9]),
     (0x3EA, [0x3EB]), (0x3EC, [0x3ED]), (0x3EE, [0x3EF]), (0x3F4, [0x3B8]), (0x3F7, [0x3F8]),
     (0x3F9, [0x3F2]), (0x3FA, [0x3FB]), (0x3FD, [0x37B]), (0x3FE, [0x37C]), (0x3FF, [0x37D]),
     (0x400, [0x450]), (0x401, [0x451]), (0x402, [0x452]), (0x403, [0x453]), (0x404, [0x454]),
     (0x405, [0x455]), (0x406, [0x456]), (0x407, [0x457]), (0x408, [0x458]), (0x409, [0x459]),
     (0x40A, [0x45A]), (0x40B, [0x45B]), (0x40C, [0x45C]), (0x40D, [0x45D]), (0x40E, [0x45E]),
     (0x40F, [0x45F]), (0x410, [0x430]), (0x411, [0x431]), (0x412, [0x432]), (0x413, [0x433]),
     (0x414, [0x434]), (0x415, [0x435]), (0x416, [0x436]), (0x417, [0x437]), (0x418, [0x438]),
     (0x419, [0x439]), (0x41A, [0x43A]), (0x41B, [0x43B]), (0x41C, [0x43C])]"

definition lower_table_5 :: "(pychar \<times> pystr) list" where
  "lower_table_5 =
    [(0x41D, [0x43D]), (0x41E, [0x43E]), (0x41F, [0x43F]), (0x420, [0x440]), (0x421, [0x441]),
     (0x422, [0x442]), (0x423, [0x443]), (0x424, [0x444]), (0x425, [0x445]), (0x426, [0x446]),
     (0x427, [0x447]), (0x428, [0x448]), (0x429, [0x449]), (0x42A, [0x44A]), (0x42B, [0x44B]),
     (0x42C, [0x44C]), (0x42D, [0x44D]), (0x42E, [0x44E]), (0x42F, [0x44F]), (0x460, [0x461]),
     (0x462, [0x463]), (0x464, [0x465]), (0x466, [0x467]), (0x468, [0x469]), (0x46A, [0x46B]),
     (0x46C, [0x46D]), (0x46E, [0x46F]), (0x470, [0x471]), (0x472, [0x473]), (0x474, [0x475]),
     (0x476, [0x477]), (0x478, [0x479]), (0x47A, [0x47B]), (0x47C, [0x47D]), (0x47E, [0x47F]),
     (0x480, [0x481]), (0x48A, [0x48B]), (0x48C, [0x48D]), (0x48E, [0x48F]), (0x490, [0x491]),
     (0x492, [0x493]), (0x494, [0x495]), (0x496, [0x497]), (0x498, [0x499]), (0x49A, [0x49B]),
     (0x49C, [0x49D]), (0x49E, [0x49F]), (0x4A0, [0x4A1]), (0x4A2, [0x4A3]), (0x4A4, [0x4A5]),
     (0x4A6, [0x4A7]), (0x4A8, [0x4A9]), (0x4AA, [0x4AB]), (0x4AC, [0x4AD]), (0x4AE, [0x4AF]),
     (0x4B0, [0x4B1]), (0x4B2, [0x4B3]), (0x4B4, [0x4B5]), (0x4B6, [0x4B7]), (0x4B8, [0x4B9]),
     (0x4BA, [0x4BB]), (0x4BC, [0x4BD]), (0x4BE, [0x4BF]), (0x4C0, [0x4CF])]"

definition lower_table_6 :: "(pychar \<times> pystr) list" where
  "lower_table_6 =
    [(0x4C1, [0x4C2]), (0x4C3, [0x4C4]), (0x4C5, [0x4C6]), (0x4C7, [0x4C8]), (0x4C9, [0x4CA]),
     (0x4CB, [0x4CC]), (0x4CD, [0x4CE]), (0x4D0, [0x4D1]), (0x4D2, [0x4D3]), (0x4D4, [0x4D5]),
     (0x4D6, [0x4D7]), (0x4D8, [0x4D9]), (0x4DA, [0x4DB]), (0x4DC, [0x4DD]), (0x4DE, [0x4DF]),
     (0x4E0, [0x4E1]), (0x4E2, [0x4E3]), (0x4E4, [0x4E5]), (0x4E6, [0x4E7]), (0x4E8, [0x4E9]),
     (0x4EA, [0x4EB]), (0x4EC, [0x4ED]), (0x4EE, [0x4EF]), (0x4F0, [0x4F1]), (0x4F2, [0x4F3]),
     (0x4F4, [0x4F5]), (0x4F6, [0x4F7]), (0x4F8, [0x4F9]), (0x4FA, [0x4FB]), (0x4FC, [0x4FD]),
     (0x4FE, [0x4FF]), (0x500, [0x501]), (0x502, [0x503]), (0x504, [0x505]), (0x506, [0x507]),
     (0x508, [0x509]), (0x50A, [0x50B]), (0x50C, [0x50D]), (0x50E, [0x50F]), (0x510, [0x511]),
     (0x512, [0x513]), (0x514, [0x515]), (0x516, [0x517]), (0x518, [0x519]), (0x51A, [0x51B]),
     (0x51C, [0x51D]), (0x51E, [0x51F]), (0x520, [0x521]), (0x522, [0x523]), (0x524, [0x525]),
     (0x526, [0x527]), (0x528, [0x529]), (0x52A, [0x52B]), (0x52C, [0x52D]), (0x52E, [0x52F]),
     (0x531, [0x561]), (0x532, [0x562]), (0x533, [0x563]), (0x534, [0x564]), (0x535, [0x565]),
     (0x536, [0x566]), (0x537, [0x567]), (0x538, [0x568]), (0x539, [0x569])]"

definition lower_table_7 :: "(pychar \<times> pystr) list" where
  "lower_table_7 =
    [(0x53A, [0x56A]), (0x53B, [0x56B]), (0x53C, [0x56C]), (0x53D, [0x56D]), (0x53E, [0x56E]),
     (0x53F, [0x56F]), (0x540, [0x570]), (0x541, [0x571]), (0x542, [0x572]), (0x543, [0x573]),
     (0x544, [0x574]), (0x545, [0x575]), (0x546, [0x576]), (0x547, [0x577]), (0x548, [0x578]),
     (0x549, [0x579]), (0x54A, [0x57A]), (0x54B, [0x57B]), (0x54C, [0x57C]), (0x54D, [0x57D]),
     (0x54E, [0x57E]), (0x54F, [0x57F]), (0x550, [0x580]), (0x551, [0x581]), (0x552, [0x582]),
     (0x553, [0x583]), (0x554, [0x584]), (0x555, [0x585]), (0x556, [0x586]), (0x10A0, [0x2D00]),
     (0x10A1, [0x2D01]), (0x10A2, [0x2D02]), (0x10A3, [0x2D03]), (0x10A4, [0x2D04]),
     (0x10A5, [0x2D05]), (0x10A6, [0x2D06]), (0x10A7, [0x2D07]), (0x10A8, [0x2D08]),
     (0x10A9, [0x2D09]), (0x10AA, [0x2D0A]), (0x10AB, [0x2D0B]), (0x10AC, [0x2D0C]),
     (0x10AD, [0x2D0D]), (0x10AE, [0x2D0E]), (0x10AF, [0x2D0F]), (0x10B0, [0x2D10]),
     (0x10B1, [0x2D11]), (0x10B2, [0x2D12]), (0x10B3, [0x2D13]), (0x10B4, [0x2D14]),
     (0x10B5, [0x2D15]), (0x10B6, [0x2D16]), (0x10B7, [0x2D17]), (0x10B8, [0x2D18]),
     (0x10B9, [0x2D19]), (0x10BA, [0x2D1A]), (0x10BB, [0x2D1B]), (0x10BC, [0x2D1C]),
     (0x10BD, [0x2D1D]), (0x10BE, [0x2D1E]), (0x10BF, [0x2D1F]), (0x10C0, [0x2D20]),
     (0x10C1, [0x2D21]), (0x10C2, [0x2D22])]"

definition lower_table_8 :: "(pychar \<times> pystr) list" where
  "lower_table_8 =
    [(0x10C3, [0x2D23]), (0x10C4, [0x2D24]), (0x10C5, [0x2D25]), (0x10C7, [0x2D27]),
     (0x10CD, [0x2D2D]), (0x13A0, [0xAB70]), (0x13A1, [0xAB71]), (0x13A2, [0xAB72]),
     (0x13A3, [0xAB73]), (0x13A4, [0xAB74]), (0x13A5, [0xAB75]), (0x13A6, [0xAB76]),
     (0x13A7, [0xAB77]), (0x13A8, [0xAB78]), (0x13A9, [0xAB79]), (0x13AA, [0xAB7A]),
     (0x13AB, [0xAB7B]), (0x13AC, [0xAB7C]), (0x13AD, [0xAB7D]), (0x13AE, [0xAB7E]),
     (0x13AF, [0xAB7F]), (0x13B0, [0xAB80]), (0x13B1, [0xAB81]), (0x13B2, [0xAB82]),
     (0x13B3, [0xAB83]), (0x13B4, [0xAB84]), (0x13B5, [0xAB85]), (0x13B6, [0xAB86]),
     (0x13B7, [0xAB87]), (0x13B8, [0xAB88]), (0x13B9, [0xAB89]), (0x13BA, [0xAB8A]),
     (0x13BB, [0xAB8B]), (0x13BC, [0xAB8C]), (0x13BD, [0xAB8D]), (0x13BE, [0xAB8E]),
     (0x13BF, [0xAB8F]), (0x13C0, [0xAB90]), (0x13C1, [0xAB91]), (0x13C2, [0xAB92]),
     (0x13C3, [0xAB93]), (0x13C4, [0xAB94]), (0x13C5, [0xAB95]), (0x13C6, [0xAB96]),
     (0x13C7, [0xAB97]), (0x13C8, [0xAB98]), (0x13C9, [0xAB99]), (0x13CA, [0xAB9A]),
     (0x13CB, [0xAB9B]), (0x13CC, [0xAB9C]), (0x13CD, [0xAB9D]), (0x13CE, [0xAB9E]),
     (0x13CF, [0xAB9F]), (0x13D0, [0xABA0]), (0x13D1, [0xABA1]), (0x13D2, [0xABA2]),
     (0x13D3, [0xABA3]), (0x13D4, [0xABA4]), (0x13D5, [0xABA5]), (0x13D6, [0xABA6]),
     (0x13D7, [0xABA7]), (0x13D8, [0xABA8]), (0x13D9, [0xABA9]), (0x13DA, [0xABAA])]"

definition lower_table_9 :: "(pychar \<times> pystr) list" where
  "lower_table_9 =
    [(0x13DB, [0xABAB]), (0x13DC, [0xABAC]), (0x13DD, [0xABAD]), (0x13DE, [0xABAE]),
     (0x13DF, [0xABAF]), (0x13E0, [0xABB0]), (0x13E1, [0xABB1]), (0x13E2, [0xABB2]),
     (0x13E3, [0xABB3]), (0x13E4, [0xABB4]), (0x13E5, [0xABB5]), (0x13E6, [0xABB6]),
     (0x13E7, [0xABB7]), (0x13E8, [0xABB8]), (0x13E9, [0xABB9]), (0x13EA, [0xABBA]),
     (0x13EB, [0xABBB]), (0x13EC, [0xABBC]), (0x13ED, [0xABBD]), (0x13EE, [0xABBE]),
     (0x13EF, [0xABBF]), (0x13F0, [0x13F8]), (0x13F1, [0x13F9]), (0x13F2, [0x13FA]),
     (0x13F3, [0x13FB]), (0x13F4, [0x13FC]), (0x13F5, [0x13FD]), (0x1C90, [0x10D0]),
     (0x1C91, [0x10D1]), (0x1C92, [0x10D2]), (0x1C93, [0x10D3]), (0x1C94, [0x10D4]),
     (0x1C95, [0x10D5]), (0x1C96, [0x10D6]), (0x1C97, [0x10D7]), (0x1C98, [0x10D8]),
     (0x1C99, [0x10D9]), (0x1C9A, [0x10DA]), (0x1C9B, [0x10DB]), (0x1C9C, [0x10DC]),
     (0x1C9D, [0x10DD]), (0x1C9E, [0x10DE]), (0x1C9F, [0x10DF]), (0x1CA0, [0x10E0]),
     (0x1CA1, [0x10E1]), (0x1CA2, [0x10E2]), (0x1CA3, [0x10E3]), (0x1CA4, [0x10E4]),
     (0x1CA5, [0x10E5]), (0x1CA6, [0x10E6]), (0x1CA7, [0x10E7]), (0x1CA8, [0x10E8]),
     (0x1CA9, [0x10E9]), (0x1CAA, [0x10EA]), (0x1CAB, [0x10EB]), (0x1CAC, [0x10EC]),
     (0x1CAD, [0x10ED]), (0x1CAE, [0x10EE]), (0x1CAF, [0x10EF]), (0x1CB0, [0x10F0]),
     (0x1CB1, [0x10F1]), (0x1CB2, [0x10F2]), (0x1CB3, [0x10F3]), (0x1CB4, [0x10F4])]"

definition lower_table_10 :: "(pychar \<times> pystr) list" where
  "lower_table_10 =
    [(0x1CB5, [0x10F5]), (0x1CB6, [0x10F6]), (0x1CB7, [0x10F7]), (0x1CB8, [0x10F8]),
     (0x1CB9, [0x10F9]), (0x1CBA, [0x10FA]), (0x1CBD, [0x10FD]), (0x1CBE, [0x10FE]),
     (0x1CBF, [0x10FF]), (0x1E00, [0x1E01]), (0x1E02, [0x1E03]), (0x1E04, [0x1E05]),
     (0x1E06, [0x1E07]), (0x1E08, [0x1E09]), (0x1E0A, [0x1E0B]), (0x1E0C, [0x1E0D]),
     (0x1E0E, [0x1E0F]), (0x1E10, [0x1E11]), (0x1E12, [0x1E13]), (0x1E14, [0x1E15]),
     (0x1E16, [0x1E17]), (0x1E18, [0x1E19]), (0x1E1A, [0x1E1B]), (0x1E1C, [0x1E1D]),
     (0x1E1E, [0x1E1F]), (0x1E20, [0x1E21]), (0x1E22, [0x1E23]), (0x1E24, [0x1E25]),
     (0x1E26, [0x1E27]), (0x1E28, [0x1E29]), (0x1E2A, [0x1E2B]), (0x1E2C, [0x1E2D]),
     (0x1E2E, [0x1E2F]), (0x1E30, [0x1E31]), (0x1E32, [0x1E33]), (0x1E34, [0x1E35]),
     (0x1E36, [0x1E37]), (0x1E38, [0x1E39]), (0x1E3A, [0x1E3B]), (0x1E3C, [0x1E3D]),
     (0x1E3E, [0x1E3F]), (0x1E40, [0x1E41]), (0x1E42, [0x1E43]), (0x1E44, [0x1E45]),
     (0x1E46, [0x1E47]), (0x1E48, [0x1E49]), (0x1E4A, [0x1E4B]), (0x1E4C, [0x1E4D]),
     (0x1E4E, [0x1E4F]), (0x1E50, [0x1E51]), (0x1E52, [0x1E53]), (0x1E54, [0x1E55]),
     (0x1E56, [0x1E57]), (0x1E58, [0x1E59]), (0x1E5A, [0x1E5B]), (0x1E5C, [0x1E5D]),
     (0x1E5E, [0x1E5F]), (0x1E60, [0x1E61]), (0x1E62, [0x1E63]), (0x1E64, [0x1E65]),
     (0x1E66, [0x1E67]), (0x1E68, [0x1E69]), (0x1E6A, [0x1E6B]), (0x1E6C, [0x1E6D])]"

definition lower_table_11 :: "(pychar \<times> pystr) list" where
  "lower_table_11 =
    [(0x1E6E, [0x1E6F]), (0x1E70, [0x1E71]), (0x1E72, [0x1E73]), (0x1E74, [0x1E75]),
     (0x1E76, [0x1E77]), (0x1E78, [0x1E79]), (0x1E7A, [0x1E7B]), (0x1E7C, [0x1E7D]),
     (0x1E7E, [0x1E7F]), (0x1E80, [0x1E81]), (0x1E82, [0x1E83]), (0x1E84, [0x1E85]),
     (0x1E86, [0x1E87]), (0x1E88, [0x1E89]), (0x1E8A, [0x1E8B]), (0x1E8C, [0x1E8D]),
     (0x1E8E, [0x1E8F]), (0x1E90, [0x1E91]), (0x1E92, [0x1E93]), (0x1E94, [0x1E95]),
     (0x1E9E, [0xDF]), (0x1EA0, [0x1EA1]), (0x1EA2, [0x1EA3]), (0x1EA4, [0x1EA5]),
     (0x1EA6, [0x1EA7]), (0x1EA8, [0x1EA9]), (0x1EAA, [0x1EAB]), (0x1EAC, [0x1EAD]),
     (0x1EAE, [0x1EAF]), (0x1EB0, [0x1EB1]), (0x1EB2, [0x1EB3]), (0x1EB4, [0x1EB5]),
     (0x1EB6, [0x1EB7]), (0x1EB8, [0x1EB9]), (0x1EBA, [0x1EBB]), (0x1EBC, [0x1EBD]),
     (0x1EBE, [0x1EBF]), (0x1EC0, [0x1EC1]), (0x1EC2, [0x1EC3]), (0x1EC4, [0x1EC5]),
     (0x1EC6, [0x1EC7]), (0x1EC8, [0x1EC9]), (0x1ECA, [0x1ECB]), (0x1ECC, [0x1ECD]),
     (0x1ECE, [0x1ECF]), (0x1ED0, [0x1ED1]), (0x1ED2, [0x1ED3]), (0x1ED4, [0x1ED5]),
     (0x1ED6, [0x1ED7]), (0x1ED8, [0x1ED9]), (0x1EDA, [0x1EDB]), (0x1EDC, [0x1EDD]),
     (0x1EDE, [0x1EDF]), (0x1EE0, [0x1EE1]), (0x1EE2, [0x1EE3]), (0x1EE4, [0x1EE5]),
     (0x1EE6, [0x1EE7]), (0x1EE8, [0x1EE9]), (0x1EEA, [0x1EEB]), (0x1EEC, [0x1EED]),
     (0x1EEE, [0x1EEF]), (0x1EF0, [0x1EF1]), (0x1EF2, [0x1EF3]), (0x1EF4, [0x1EF5])]"

definition lower_table_12 :: "(pychar \<times> pystr) list" where
  "lower_table_12 =
    [(0x1EF6, [0x1EF7]), (0x1EF8, [0x1EF9]), (0x1EFA, [0x1EFB]), (0x1EFC, [0x1EFD]),
     (0x1EFE, [0x1EFF]), (0x1F08, [0x1F00]), (0x1F09, [0x1F01]), (0x1F0A, [0x1F02]),
     (0x1F0B, [0x1F03]), (0x1F0C, [0x1F04]), (0x1F0D, [0x1F05]), (0x1F0E, [0x1F06]),
     (0x1F0F, [0x1F07]), (0x1F18, [0x1F10]), (0x1F19, [0x1F11]), (0x1F1A, [0x1F12]),
     (0x1F1B, [0x1F13]), (0x1F1C, [0x1F14]), (0x1F1D, [0x1F15]), (0x1F28, [0x1F20]),
     (0x1F29, [0x1F21]), (0x1F2A, [0x1F22]), (0x1F2B, [0x1F23]), (0x1F2C, [0x1F24]),
     (0x1F2D, [0x1F25]), (0x1F2E, [0x1F26]), (0x1F2F, [0x1F27]), (0x1F38, [0x1F30]),
     (0x1F39, [0x1F31]), (0x1F3A, [0x1F32]), (0x1F3B, [0x1F33]), (0x1F3C, [0x1F34]),
     (0x1F3D, [0x1F35]), (0x1F3E, [0x1F36]), (0x1F3F, [0x1F37]), (0x1F48, [0x1F40]),
     (0x1F49, [0x1F41]), (0x1F4A, [0x1F42]), (0x1F4B, [0x1F43]), (0x1F4C, [0x1F44]),
     (0x1F4D, [0x1F45]), (0x1F59, [0x1F51]), (0x1F5B, [0x1F53]), (0x1F5D, [0x1F55]),
     (0x1F5F, [0x1F57]), (0x1F68, [0x1F60]), (0x1F69, [0x1F61]), (0x1F6A, [0x1F62]),
     (0x1F6B, [0x1F63]), (0x1F6C, [0x1F64]), (0x1F6D, [0x1F65]), (0x1F6E, [0x1F66]),
     (0x1F6F, [0x1F67]), (0x1F88, [0x1F80]), (0x1F89, [0x1F81]), (0x1F8A, [0x1F82]),
     (0x1F8B, [0x1F83]), (0x1F8C, [0x1F84]), (0x1F8D, [0x1F85]), (0x1F8E, [0x1F86]),
     (0x1F8F, [0x1F87]), (0x1F98, [0x1F90]), (0x1F99, [0x1F91]), (0x1F9A, [0x1F92])]"

definition lower_table_13 :: "(pychar \<times> pystr) list" where
  "lower_table_13 =
    [(0x1F9B, [0x1F93]), (0x1F9C, [0x1F94]), (0x1F9D, [0x1F95]), (0x1F9E, [0x1F96]),
     (0x1F9F, [0x1F97]), (0x1FA8, [0x1FA0]), (0x1FA9, [0x1FA1]), (0x1FAA, [0x1FA2]),
     (0x1FAB, [0x1FA3]), (0x1FAC, [0x1FA4]), (0x1FAD, [0x1FA5]), (0x1FAE, [0x1FA6]),
     (0x1FAF, [0x1FA7]), (0x1FB8, [0x1FB0]), (0x1FB9, [0x1FB1]), (0x1FBA, [0x1F70]),
     (0x1FBB, [0x1F71]), (0x1FBC, [0x1FB3]), (0x1FC8, [0x1F72]), (0x1FC9, [0x1F73]),
     (0x1FCA, [0x1F74]), (0x1FCB, [0x1F75]), (0x1FCC, [0x1FC3]), (0x1FD8, [0x1FD0]),
     (0x1FD9, [0x1FD1]), (0x1FDA, [0x1F76]), (0x1FDB, [0x1F77]), (0x1FE8, [0x1FE0]),
     (0x1FE9, [0x1FE1]), (0x1FEA, [0x1F7A]), (0x1FEB, [0x1F7B]), (0x1FEC, [0x1FE5]),
     (0x1FF8, [0x1F78]), (0x1FF9, [0x1F79]), (0x1FFA, [0x1F7C]), (0x1FFB, [0x1F7D]),
     (0x1FFC, [0x1FF3]), (0x2126, [0x3C9]), (0x212A, [0x6B]), (0x212B, [0xE5]),
     (0x2132, [0x214E]), (0x2160, [0x2170]), (0x2161, [0x2171]), (0x2162, [0x2172]),
     (0x2163, [0x2173]), (0x2164, [0x2174]), (0x2165, [0x2175]), (0x2166, [0x2176]),
     (0x2167, [0x2177]), (0x2168, [0x2178]), (0x2169, [0x2179]), (0x216A, [0x217A]),
     (0x216B, [0x217B]), (0x216C, [0x217C]), (0x216D, [0x217D]), (0x216E, [0x217E]),
     (0x216F, [0x217F]), (0x2183, [0x2184]), (0x24B6, [0x24D0]), (0x24B7, [0x24D1]),
     (0x24B8, [0x24D2]), (0x24B9, [0x24D3]), (0x24BA, [0x24D4]), (0x24BB, [0x24D5])]"

definition lower_table_14 :: "(pychar \<times> pystr) list" where
  "lower_table_14 =
    [(0x24BC, [0x24D6]), (0x24BD, [0x24D7]), (0x24BE, [0x24D8]), (0x24BF, [0x24D9]),
     (0x24C0, [0x24DA]), (0x24C1, [0x24DB]), (0x24C2, [0x24DC]), (0x24C3, [0x24DD]),
     (0x24C4, [0x24DE]), (0x24C5, [0x24DF]), (0x24C6, [0x24E0]), (0x24C7, [0x24E1]),
     (0x24C8, [0x24E2]), (0x24C9, [0x24E3]), (0x24CA, [0x24E4]), (0x24CB, [0x24E5]),
     (0x24CC, [0x24E6]), (0x24CD, [0x24E7]), (0x24CE, [0x24E8]), (0x24CF, [0x24E9]),
     (0x2C00, [0x2C30]), (0x2C01, [0x2C31]), (0x2C02, [0x2C32]), (0x2C03, [0x2C33]),
     (0x2C04, [0x2C34]), (0x2C05, [0x2C35]), (0x2C06, [0x2C36]), (0x2C07, [0x2C37]),
     (0x2C08, [0x2C38]), (0x2C09, [0x2C39]), (0x2C0A, [0x2C3A]), (0x2C0B, [0x2C3B]),
     (0x2C0C, [0x2C3C]), (0x2C0D, [0x2C3D]), (0x2C0E, [0x2C3E]), (0x2C0F, [0x2C3F]),
     (0x2C10, [0x2C40]), (0x2C11, [0x2C41]), (0x2C12, [0x2C42]), (0x2C13, [0x2C43]),
     (0x2C14, [0x2C44]), (0x2C15, [0x2C45]), (0x2C16, [0x2C46]), (0x2C17, [0x2C47]),
     (0x2C18, [0x2C48]), (0x2C19, [0x2C49]), (0x2C1A, [0x2C4A]), (0x2C1B, [0x2C4B]),
     (0x2C1C, [0x2C4C]), (0x2C1D, [0x2C4D]), (0x2C1E, [0x2C4E]), (0x2C1F, [0x2C4F]),
     (0x2C20, [0x2C50]), (0x2C21, [0x2C51]), (0x2C22, [0x2C52]), (0x2C23, [0x2C53]),
     (0x2C24, [0x2C54]), (0x2C25, [0x2C55]), (0x2C26, [0x2C56]), (0x2C27, [0x2C57]),
     (0x2C28, [0x2C58]), (0x2C29, [0x2C59]), (0x2C2A, [0x2C5A]), (0x2C2B, [0x2C5B])]"

definition lower_table_15 :: "(pychar \<times> pystr) list" where
  "lower_table_15 =
    [(0x2C2C, [0x2C5C]), (0x2C2D, [0x2C5D]), (0x2C2E, [0x2C5E]), (0x2C2F, [0x2C5F]),
     (0x2C60, [0x2C61]), (0x2C62, [0x26B]), (0x2C63, [0x1D7D]), (0x2C64, [0x27D]),
     (0x2C67, [0x2C68]), (0x2C69, [0x2C6A]), (0x2C6B, [0x2C6C]), (0x2C6D, [0x251]),
     (0x2C6E, [0x271]), (0x2C6F, [0x250]), (0x2C70, [0x252]), (0x2C72, [0x2C73]),
     (0x2C75, [0x2C76]), (0x2C7E, [0x23F]), (0x2C7F, [0x240]), (0x2C80, [0x2C81]),
     (0x2C82, [0x2C83]), (0x2C84, [0x2C85]), (0x2C86, [0x2C87]), (0x2C88, [0x2C89]),
     (0x2C8A, [0x2C8B]), (0x2C8C, [0x2C8D]), (0x2C8E, [0x2C8F]), (0x2C90, [0x2C91]),
     (0x2C92, [0x2C93]), (0x2C94, [0x2C95]), (0x2C96, [0x2C97]), (0x2C98, [0x2C99]),
     (0x2C9A, [0x2C9B]), (0x2C9C, [0x2C9D]), (0x2C9E, [0x2C9F]), (0x2CA0, [0x2CA1]),
     (0x2CA2, [0x2CA3]), (0x2CA4, [0x2CA5]), (0x2CA6, [0x2CA7]), (0x2CA8, [0x2CA9]),
     (0x2CAA, [0x2CAB]), (0x2CAC, [0x2CAD]), (0x2CAE, [0x2CAF]), (0x2CB0, [0x2CB1]),
     (0x2CB2, [0x2CB3]), (0x2CB4, [0x2CB5]), (0x2CB6, [0x2CB7]), (0x2CB8, [0x2CB9]),
     (0x2CBA, [0x2CBB]), (0x2CBC, [0x2CBD]), (0x2CBE, [0x2CBF]), (0x2CC0, [0x2CC1]),
     (0x2CC2, [0x2CC3]), (0x2CC4, [0x2CC5]), (0x2CC6, [0x2CC7]), (0x2CC8, [0x2CC9]),
     (0x2CCA, [0x2CCB]), (0x2CCC, [0x2CCD]), (0x2CCE, [0x2CCF]), (0x2CD0, [0x2CD1]),
     (0x2CD2, [0x2CD3]), (0x2CD4, [0x2CD5]), (0x2CD6, [0x2CD7]), (0x2CD8, [0x2CD9])]"

definition lower_table_16 :: "(pychar \<times> pystr) list" where
  "lower_table_16 =
    [(0x2CDA, [0x2CDB]), (0x2CDC, [0x2CDD]), (0x2CDE, [0x2CDF]), (0x2CE0, [0x2CE1]),
     (0x2CE2, [0x2CE3]), (0x2CEB, [0x2CEC]), (0x2CED, [0x2CEE]), (0x2CF2, [0x2CF3]),
     (0xA640, [0xA641]), (0xA642, [0xA643]), (0xA644, [0xA645]), (0xA646, [0xA647]),
     (0xA648, [0xA649]), (0xA64A, [0xA64B]), (0xA64C, [0xA64D]), (0xA64E, [0xA64F]),
     (0xA650, [0xA651]), (0xA652, [0xA653]), (0xA654, [0xA655]), (0xA656, [0xA657]),
     (0xA658, [0xA659]), (0xA65A, [0xA65B]), (0xA65C, [0xA65D]), (0xA65E, [0xA65F]),
     (0xA660, [0xA661]), (0xA662, [0xA663]), (0xA664, [0xA665]), (0xA666, [0xA667]),
     (0xA668, [0xA669]), (0xA66A, [0xA66B]), (0xA66C, [0xA66D]), (0xA680, [0xA681]),
     (0xA682, [0xA683]), (0xA684, [0xA685]), (0xA686, [0xA687]), (0xA688, [0xA689]),
     (0xA68A, [0xA68B]), (0xA68C, [0xA68D]), (0xA68E, [0xA68F]), (0xA690, [0xA691]),
     (0xA692, [0xA693]), (0xA694, [0xA695]), (0xA696, [0xA697]), (0xA698, [0xA699]),
     (0xA69A, [0xA69B]), (0xA722, [0xA723]), (0xA724, [0xA725]), (0xA726, [0xA727]),
     (0xA728, [0xA729]), (0xA72A, [0xA72B]), (0xA72C, [0xA72D]), (0xA72E, [0xA72F]),
     (0xA732, [0xA733]), (0xA734, [0xA735]), (0xA736, [0xA737]), (0xA738, [0xA739]),
     (0xA73A, [0xA73B]), (0xA73C, [0xA73D]), (0xA73E, [0xA73F]), (0xA740, [0xA741]),
     (0xA742, [0xA743]), (0xA744, [0xA745]), (0xA746, [0xA747]), (0xA748, [0xA749])]"

definition lower_table_17 :: "(pychar \<times> pystr) list" where
  "lower_table_17 =
    [(0xA74A, [0xA74B]), (0xA74C, [0xA74D]), (0xA74E, [0xA74F]), (0xA750, [0xA751]),
     (0xA752, [0xA753]), (0xA754, [0xA755]), (0xA756, [0xA757]), (0xA758, [0xA759]),
     (0xA75A, [0xA75B]), (0xA75C, [0xA75D]), (0xA75E, [0xA75F]), (0xA760, [0xA761]),
     (0xA762, [0xA763]), (0xA764, [0xA765]), (0xA766, [0xA767]), (0xA768, [0xA769]),
     (0xA76A, [0xA76B]), (0xA76C, [0xA76D]), (0xA76E, [0xA76F]), (0xA779, [0xA77A]),
     (0xA77B, [0xA77C]), (0xA77D, [0x1D79]), (0xA77E, [0xA77F]), (0xA780, [0xA781]),
     (0xA782, [0xA783]), (0xA784, [0xA785]), (0xA786, [0xA787]), (0xA78B, [0xA78C]),
     (0xA78D, [0x265]), (0xA790, [0xA791]), (0xA792, [0xA793]), (0xA796, [0xA797]),
     (0xA798, [0xA799]), (0xA79A, [0xA79B]), (0xA79C, [0xA79D]), (0xA79E, [0xA79F]),
     (0xA7A0, [0xA7A1]), (0xA7A2, [0xA7A3]), (0xA7A4, [0xA7A5]), (0xA7A6, [0xA7A7]),
     (0xA7A8, [0xA7A9]), (0xA7AA, [0x266]), (0xA7AB, [0x25C]), (0xA7AC, [0x261]),
     (0xA7AD, [0x26C]), (0xA7AE, [0x26A]), (0xA7B0, [0x29E]), (0xA7B1, [0x287]),
     (0xA7B2, [0x29D]), (0xA7B3, [0xAB53]), (0xA7B4, [0xA7B5]), (0xA7B6, [0xA7B7]),
     (0xA7B8, [0xA7B9]), (0xA7BA, [0xA7BB]), (0xA7BC, [0xA7BD]), (0xA7BE, [0xA7BF]),
     (0xA7C0, [0xA7C1]), (0xA7C2, [0xA7C3]), (0xA7C4, [0xA794]), (0xA7C5, [0x282]),
     (0xA7C6, [0x1D8E]), (0xA7C7, [0xA7C8]), (0xA7C9, [0xA7CA]), (0xA7D0, [0xA7D1])]"

definition lower_table_18 :: "(pychar \<times> pystr) list" where
  "lower_table_18 =
    [(0xA7D6, [0xA7D7]), (0xA7D8, [0xA7D9]), (0xA7F5, [0xA7F6]), (0xFF21, [0xFF41]),
     (0xFF22, [0xFF42]), (0xFF23, [0xFF43]), (0xFF24, [0xFF44]), (0xFF25, [0xFF45]),
     (0xFF26, [0xFF46]), (0xFF27, [0xFF47]), (0xFF28, [0xFF48]), (0xFF29, [0xFF49]),
     (0xFF2A, [0xFF4A]), (0xFF2B, [0xFF4B]), (0xFF2C, [0xFF4C]), (0xFF2D, [0xFF4D]),
     (0xFF2E, [0xFF4E]), (0xFF2F, [0xFF4F]), (0xFF30, [0xFF50]), (0xFF31, [0xFF51]),
     (0xFF32, [0xFF52]), (0xFF33, [0xFF53]), (0xFF34, [0xFF54]), (0xFF35, [0xFF55]),
     (0xFF36, [0xFF56]), (0xFF37, [0xFF57]), (0xFF38, [0xFF58]), (0xFF39, [0xFF59]),
     (0xFF3A, [0xFF5A]), (0x10400, [0x10428]), (0x10401, [0x10429]), (0x10402, [0x1042A]),
     (0x10403, [0x1042B]), (0x10404, [0x1042C]), (0x10405, [0x1042D]), (0x10406, [0x1042E]),
     (0x10407, [0x1042F]), (0x10408, [0x10430]), (0x10409, [0x10431]), (0x1040A, [0x10432]),
     (0x1040B, [0x10433]), (0x1040C, [0x10434]), (0x1040D, [0x10435]), (0x1040E, [0x10436]),
     (0x1040F, [0x10437]), (0x10410, [0x10438]), (0x10411, [0x10439]), (0x10412, [0x1043A]),
     (0x10413, [0x1043B]), (0x10414, [0x1043C]), (0x10415, [0x1043D]), (0x10416, [0x1043E]),
     (0x10417, [0x1043F]), (0x10418, [0x10440]), (0x10419, [0x10441]), (0x1041A, [0x10442]),
     (0x1041B, [0x10443]), (0x1041C, [0x10444]), (0x1041D, [0x10445]), (0x1041E, [0x10446]),
     (0x1041F, [0x10447]), (0x10420, [0x10448]), (0x10421, [0x10449]), (0x10422, [0x1044A])]"

definition lower_table_19 :: "(pychar \<times> pystr) list" where
  "lower_table_19 =
    [(0x10423, [0x1044B]), (0x10424, [0x1044C]), (0x10425, [0x1044D]), (0x10426, [0x1044E]),
     (0x10427, [0x1044F]), (0x104B0, [0x104D8]), (0x104B1, [0x104D9]), (0x104B2, [0x104DA]),
     (0x104B3, [0x104DB]), (0x104B4, [0x104DC]), (0x104B5, [0x104DD]), (0x104B6, [0x104DE]),
     (0x104B7, [0x104DF]), (0x104B8, [0x104E0]), (0x104B9, [0x104E1]), (0x104BA, [0x104E2]),
     (0x104BB, [0x104E3]), (0x104BC, [0x104E4]), (0x104BD, [0x104E5]), (0x104BE, [0x104E6]),
     (0x104BF, [0x104E7]), (0x104C0, [0x104E8]), (0x104C1, [0x104E9]), (0x104C2, [0x104EA]),
     (0x104C3, [0x104EB]), (0x104C4, [0x104EC]), (0x104C5, [0x104ED]), (0x104C6, [0x104EE]),
     (0x104C7, [0x104EF]), (0x104C8, [0x104F0]), (0x104C9, [0x104F1]), (0x104CA, [0x104F2]),
     (0x104CB, [0x104F3]), (0x104CC, [0x104F4]), (0x104CD, [0x104F5]), (0x104CE, [0x104F6]),
     (0x104CF, [0x104F7]), (0x104D0, [0x104F8]), (0x104D1, [0x104F9]), (0x104D2, [0x104FA]),
     (0x104D3, [0x104FB]), (0x10570, [0x10597]), (0x10571, [0x10598]), (0x10572, [0x10599]),
     (0x10573, [0x1059A]), (0x10574, [0x1059B]), (0x10575, [0x1059C]), (0x10576, [0x1059D]),
     (0x10577, [0x1059E]), (0x10578, [0x1059F]), (0x10579, [0x105A0]), (0x1057A, [0x105A1]),
     (0x1057C, [0x105A3]), (0x1057D, [0x105A4]), (0x1057E, [0x105A5]), (0x1057F, [0x105A6]),
     (0x10580, [0x105A7]), (0x10581, [0x105A8]), (0x10582, [0x105A9]), (0x10583, [0x105AA]),
     (0x10584, [0x105AB]), (0x10585, [0x105AC]), (0x10586, [0x105AD]), (0x10587, [0x105AE])]"

definition lower_table_20 :: "(pychar \<times> pystr) list" where
  "lower_table_20 =
    [(0x10588, [0x105AF]), (0x10589, [0x105B0]), (0x1058A, [0x105B1]), (0x1058C, [0x105B3]),
     (0x1058D, [0x105B4]), (0x1058E, [0x105B5]), (0x1058F, [0x105B6]), (0x10590, [0x105B7]),
     (0x10591, [0x105B8]), (0x10592, [0x105B9]), (0x10594, [0x105BB]), (0x10595, [0x105BC]),
     (0x10C80, [0x10CC0]), (0x10C81, [0x10CC1]), (0x10C82, [0x10CC2]), (0x10C83, [0x10CC3]),
     (0x10C84, [0x10CC4]), (0x10C85, [0x10CC5]), (0x10C86, [0x10CC6]), (0x10C87, [0x10CC7]),
     (0x10C88, [0x10CC8]), (0x10C89, [0x10CC9]), (0x10C8A, [0x10CCA]), (0x10C8B, [0x10CCB]),
     (0x10C8C, [0x10CCC]), (0x10C8D, [0x10CCD]), (0x10C8E, [0x10CCE]), (0x10C8F, [0x10CCF]),
     (0x10C90, [0x10CD0]), (0x10C91, [0x10CD1]), (0x10C92, [0x10CD2]), (0x10C93, [0x10CD3]),
     (0x10C94, [0x10CD4]), (0x10C95, [0x10CD5]), (0x10C96, [0x10CD6]), (0x10C97, [0x10CD7]),
     (0x10C98, [0x10CD8]), (0x10C99, [0x10CD9]), (0x10C9A, [0x10CDA]), (0x10C9B, [0x10CDB]),
     (0x10C9C, [0x10CDC]), (0x10C9D, [0x10CDD]), (0x10C9E, [0x10CDE]), (0x10C9F, [0x10CDF]),
     (0x10CA0, [0x10CE0]), (0x10CA1, [0x10CE1]), (0x10CA2, [0x10CE2]), (0x10CA3, [0x10CE3]),
     (0x10CA4, [0x10CE4]), (0x10CA5, [0x10CE5]), (0x10CA6, [0x10CE6]), (0x10CA7, [0x10CE7]),
     (0x10CA8, [0x10CE8]), (0x10CA9, [0x10CE9]), (0x10CAA, [0x10CEA]), (0x10CAB, [0x10CEB]),
     (0x10CAC, [0x10CEC]), (0x10CAD, [0x10CED]), (0x10CAE, [0x10CEE]), (0x10CAF, [0x10CEF]),
     (0x10CB0, [0x10CF0]), (0x10CB1, [0x10CF1]), (0x10CB2, [0x10CF2]), (0x118A0, [0x118C0])]"

definition lower_table_21 :: "(pychar \<times> pystr) list" where
  "lower_table_21 =
    [(0x118A1, [0x118C1]), (0x118A2, [0x118C2]), (0x118A3, [0x118C3]), (0x118A4, [0x118C4]),
     (0x118A5, [0x118C5]), (0x118A6, [0x118C6]), (0x118A7, [0x118C7]), (0x118A8, [0x118C8]),
     (0x118A9, [0x118C9]), (0x118AA, [0x118CA]), (0x118AB, [0x118CB]), (0x118AC, [0x118CC]),
     (0x118AD, [0x118CD]), (0x118AE, [0x118CE]), (0x118AF, [0x118CF]), (0x118B0, [0x118D0]),
     (0x118B1, [0x118D1]), (0x118B2, [0x118D2]), (0x118B3, [0x118D3]), (0x118B4, [0x118D4]),
     (0x118B5, [0x118D5]), (0x118B6, [0x118D6]), (0x118B7, [0x118D7]), (0x118B8, [0x118D8]),
     (0x118B9, [0x118D9]), (0x118BA, [0x118DA]), (0x118BB, [0x118DB]), (0x118BC, [0x118DC]),
     (0x118BD, [0x118DD]), (0x118BE, [0x118DE]), (0x118BF, [0x118DF]), (0x16E40, [0x16E60]),
     (0x16E41, [0x16E61]), (0x16E42, [0x16E62]), (0x16E43, [0x16E63]), (0x16E44, [0x16E64]),
     (0x16E45, [0x16E65]), (0x16E46, [0x16E66]), (0x16E47, [0x16E67]), (0x16E48, [0x16E68]),
     (0x16E49, [0x16E69]), (0x16E4A, [0x16E6A]), (0x16E4B, [0x16E6B]), (0x16E4C, [0x16E6C]),
     (0x16E4D, [0x16E6D]), (0x16E4E, [0x16E6E]), (0x16E4F, [0x16E6F]), (0x16E50, [0x16E70]),
     (0x16E51, [0x16E71]), (0x16E52, [0x16E72]), (0x16E53, [0x16E73]), (0x16E54, [0x16E74]),
     (0x16E55, [0x16E75]), (0x16E56, [0x16E76]), (0x16E57, [0x16E77]), (0x16E58, [0x16E78]),
     (0x16E59, [0x16E79]), (0x16E5A, [0x16E7A]), (0x16E5B, [0x16E7B]), (0x16E5C, [0x16E7C]),
     (0x16E5D, [0x16E7D]), (0x16E5E, [0x16E7E]), (0x16E5F, [0x16E7F]), (0x1E900, [0x1E922])]"

definition lower_table_22 :: "(pychar \<times> pystr) list" where
  "lower_table_22 =
    [(0x1E901, [0x1E923]), (0x1E902, [0x1E924]), (0x1E903, [0x1E925]), (0x1E904, [0x1E926]),
     (0x1E905, [0x1E927]), (0x1E906, [0x1E928]), (0x1E907, [0x1E929]), (0x1E908, [0x1E92A]),
     (0x1E909, [0x1E92B]), (0x1E90A, [0x1E92C]), (0x1E90B, [0x1E92D]), (0x1E90C, [0x1E92E]),
     (0x1E90D, [0x1E92F]), (0x1E90E, [0x1E930]), (0x1E90F, [0x1E931]), (0x1E910, [0x1E932]),
     (0x1E911, [0x1E933]), (0x1E912, [0x1E934]), (0x1E913, [0x1E935]), (0x1E914, [0x1E936]),
     (0x1E915, [0x1E937]), (0x1E916, [0x1E938]), (0x1E917, [0x1E939]), (0x1E918, [0x1E93A]),
     (0x1E919, [0x1E93B]), (0x1E91A, [0x1E93C]), (0x1E91B, [0x1E93D]), (0x1E91C, [0x1E93E]),
     (0x1E91D, [0x1E93F]), (0x1E91E, [0x1E940]), (0x1E91F, [0x1E941]), (0x1E920, [0x1E942]),
     (0x1E921, [0x1E943])]"

definition lower_table :: "(pychar \<times> pystr) list" where
  "lower_table = lower_table_1 @ lower_table_2 @ lower_table_3 @ lower_table_4 @ lower_table_5 @ lower_table_6 @ lower_table_7 @ lower_table_8 @ lower_table_9 @ lower_table_10 @ lower_table_11 @ lower_table_12 @ lower_table_13 @ lower_table_14 @ lower_table_15 @ lower_table_16 @ lower_table_17 @ lower_table_18 @ lower_table_19 @ lower_table_20 @ lower_table_21 @ lower_table_22"

text \<open>The upper-case forms of the code points above U+00FF that have one.\<close>

definition upper_table_1 :: "(pychar \<times> pystr) list" where
  "upper_table_1 =
    [(0x101, [0x100]), (0x103, [0x102]), (0x105, [0x104]), (0x107, [0x106]), (0x109, [0x108]),
     (0x10B, [0x10A]), (0x10D, [0x10C]), (0x10F, [0x10E]), (0x111, [0x110]), (0x113, [0x112]),
     (0x115, [0x114]), (0x117, [0x116]), (0x119, [0x118]), (0x11B, [0x11A]), (0x11D, [0x11C]),
     (0x11F, [0x11E]), (0x121, [0x120]), (0x123, [0x122]), (0x125, [0x124]), (0x127, [0x126]),
     (0x129, [0x128]), (0x12B, [0x12A]), (0x12D, [0x12C]), (0x12F, [0x12E]), (0x131, [0x49]),
     (0x133, [0x132]), (0x135, [0x134]), (0x137, [0x136]), (0x13A, [0x139]), (0x13C, [0x13B]),
     (0x13E, [0x13D]), (0x140, [0x13F]), (0x142, [0x141]), (0x144, [0x143]), (0x146, [0x145]),
     (0x148, [0x147]), (0x149, [0x2BC, 0x4E]), (0x14B, [0x14A]), (0x14D, [0x14C]),
     (0x14F, [0x14E]), (0x151, [0x150]), (0x153, [0x152]), (0x155, [0x154]), (0x157, [0x156]),
     (0x159, [0x158]), (0x15B, [0x15A]), (0x15D, [0x15C]), (0x15F, [0x15E]), (0x161, [0x160]),
     (0x163, [0x162]), (0x165, [0x164]), (0x167, [0x166]), (0x169, [0x168]), (0x16B, [0x16A]),
     (0x16D, [0x16C]), (0x16F, [0x16E]), (0x171, [0x170]), (0x173, [0x172]), (0x175, [0x174]),
     (0x177, [0x176]), (0x17A, [0x179]), (0x17C, [0x17B]), (0x17E, [0x17D]), (0x17F, [0x53])]"

definition upper_table_2 :: "(pychar \<times> pystr) list" where
  "upper_table_2 =
    [(0x180, [0x243]), (0x183, [0x182]), (0x185, [0x184]), (0x188, [0x187]), (0x18C, [0x18B]),
     (0x192, [0x191]), (0x195, [0x1F6]), (0x199, [0x198]), (0x19A, [0x23D]), (0x19E, [0x220]),
     (0x1A1, [0x1A0]), (0x1A3, [0x1A2]), (0x1A5, [0x1A4]), (0x1A8, [0x1A7]), (0x1AD, [0x1AC]),
     (0x1B0, [0x1AF]), (0x1B4, [0x1B3]), (0x1B6, [0x1B5]), (0x1B9, [0x1B8]), (0x1BD, [0x1BC]),
     (0x1BF, [0x1F7]), (0x1C5, [0x1C4]), (0x1C6, [0x1C4]), (0x1C8, [0x1C7]), (0x1C9, [0x1C7]),
     (0x1CB, [0x1CA]), (0x1CC, [0x1CA]), (0x1CE, [0x1CD]), (0x1D0, [0x1CF]), (0x1D2, [0x1D1]),
     (0x1D4, [0x1D3]), (0x1D6, [0x1D5]), (0x1D8, [0x1D7]), (0x1DA, [0x1D9]), (0x1DC, [0x1DB]),
     (0x1DD, [0x18E]), (0x1DF, [0x1DE]), (0x1E1, [0x1E0]), (0x1E3, [0x1E2]), (0x1E5, [0x1E4]),
     (0x1E7, [0x1E6]), (0x1E9, [0x1E8]), (0x1EB, [0x1EA]), (0x1ED, [0x1EC]), (0x1EF, [0x1EE]),
     (0x1F0, [0x4A, 0x30C]), (0x1F2, [0x1F1]), (0x1F3, [0x1F1]), (0x1F5, [0x1F4]),
     (0x1F9, [0x1F8]), (0x1FB, [0x1FA]), (0x1FD, [0x1FC]), (0x1FF, [0x1FE]), (0x201, [0x200]),
     (0x203, [0x202]), (0x205, [0x204]), (0x207, [0x206]), (0x209, [0x208]), (0x20B, [0x20A]),
     (0x20D, [0x20C]), (0x20F, [0x20E]), (0x211, [0x210]), (0x213, [0x212]), (0x215, [0x214])]"

definition upper_table_3 :: "(pychar \<times> pystr) list" where
  "upper_table_3 =
    [(0x217, [0x216]), (0x219, [0x218]), (0x21B, [0x21A]), (0x21D, [0x21C]), (0x21F, [0x21E]),
     (0x223, [0x222]), (0x225, [0x224]), (0x227, [0x226]), (0x229, [0x228]), (0x22B, [0x22A]),
     (0x22D, [0x22C]), (0x22F, [0x22E]), (0x231, [0x230]), (0x233, [0x232]), (0x23C, [0x23B]),
     (0x23F, [0x2C7E]), (0x240, [0x2C7F]), (0x242, [0x241]), (0x247, [0x246]), (0x249, [0x248]),
     (0x24B, [0x24A]), (0x24D, [0x24C]), (0x24F, [0x24E]), (0x250, [0x2C6F]), (0x251, [0x2C6D]),
     (0x252, [0x2C70]), (0x253, [0x181]), (0x254, [0x186]), (0x256, [0x189]), (0x257, [0x18A]),
     (0x259, [0x18F]), (0x25B, [0x190]), (0x25C, [0xA7AB]), (0x260, [0x193]), (0x261, [0xA7AC]),
     (0x263, [0x194]), (0x265, [0xA78D]), (0x266, [0xA7AA]), (0x268, [0x197]), (0x269, [0x196]),
     (0x26A, [0xA7AE]), (0x26B, [0x2C62]), (0x26C, [0xA7AD]), (0x26F, [0x19C]),
     (0x271, [0x2C6E]), (0x272, [0x19D]), (0x275, [0x19F]), (0x27D, [0x2C64]), (0x280, [0x1A6]),
     (0x282, [0xA7C5]), (0x283, [0x1A9]), (0x287, [0xA7B1]), (0x288, [0x1AE]), (0x289, [0x244]),
     (0x28A, [0x1B1]), (0x28B, [0x1B2]), (0x28C, [0x245]), (0x292, [0x1B7]), (0x29D, [0xA7B2]),
     (0x29E, [0xA7B0]), (0x345, [0x399]), (0x371, [0x370]), (0x373, [0x372]), (0x377, [0x376])]"

definition upper_table_4 :: "(pychar \<times> pystr) list" where
  "upper_table_4 =
    [(0x37B, [0x3FD]), (0x37C, [0x3FE]), (0x37D, [0x3FF]), (0x390, [0x399, 0x308, 0x301]),
     (0x3AC, [0x386]), (0x3AD, [0x388]), (0x3AE, [0x389]), (0x3AF, [0x38A]),
     (0x3B0, [0x3A5, 0x308, 0x301]), (0x3B1, [0x391]), (0x3B2, [0x392]), (0x3B3, [0x393]),
     (0x3B4, [0x394]), (0x3B5, [0x395]), (0x3B6, [0x396]), (0x3B7, [0x397]), (0x3B8, [0x398]),
     (0x3B9, [0x399]), (0x3BA, [0x39A]), (0x3BB, [0x39B]), (0x3BC, [0x39C]), (0x3BD, [0x39D]),
     (0x3BE, [0x39E]), (0x3BF, [0x39F]), (0x3C0, [0x3A0]), (0x3C1, [0x3A1]), (0x3C2, [0x3A3]),
     (0x3C3, [0x3A3]), (0x3C4, [0x3A4]), (0x3C5, [0x3A5]), (0x3C6, [0x3A6]), (0x3C7, [0x3A7]),
     (0x3C8, [0x3A8]), (0x3C9, [0x3A9]), (0x3CA, [0x3AA]), (0x3CB, [0x3AB]), (0x3CC, [0x38C]),
     (0x3CD, [0x38E]), (0x3CE, [0x38F]), (0x3D0, [0x392]), (0x3D1, [0x398]), (0x3D5, [0x3A6]),
     (0x3D6, [0x3A0]), (0x3D7, [0x3CF]), (0x3D9, [0x3D8]), (0x3DB, [0x3DA]), (0x3DD, [0x3DC]),
     (0x3DF, [0x3DE]), (0x3E1, [0x3E0]), (0x3E3, [0x3E2]), (0x3E5, [0x3E4]), (0x3E7, [0x3E6]),
     (0x3E9, [0x3E8]), (0x3EB, [0x3EA]), (0x3ED, [0x3EC]), (0x3EF, [0x3EE]), (0x3F0, [0x39A]),
     (0x3F1, [0x3A1]), (0x3F2, [0x3F9]), (0x3F3, [0x37F]), (0x3F5, [0x395]), (0x3F8, [0x3F7]),
     (0x3FB, [0x3FA]), (0x430, [0x410])]"

definition upper_table_5 :: "(pychar \<times> pystr) list" where
  "upper_table_5 =
    [(0x431, [0x411]), (0x432, [0x412]), (0x433, [0x413]), (0x434, [0x414]), (0x435, [0x415]),
     (0x436, [0x416]), (0x437, [0x417]), (0x438, [0x418]), (0x439, [0x419]), (0x43A, [0x41A]),
     (0x43B, [0x41B]), (0x43C, [0x41C]), (0x43D, [0x41D]), (0x43E, [0x41E]), (0x43F, [0x41F]),
     (0x440, [0x420]), (0x441, [0x421]), (0x442, [0x422]), (0x443, [0x423]), (0x444, [0x424]),
     (0x445, [0x425]), (0x446, [0x426]), (0x447, [0x427]), (0x448, [0x428]), (0x449, [0x429]),
     (0x44A, [0x42A]), (0x44B, [0x42B]), (0x44C, [0x42C]), (0x44D, [0x42D]), (0x44E, [0x42E]),
     (0x44F, [0x42F]), (0x450, [0x400]), (0x451, [0x401]), (0x452, [0x402]), (0x453, [0x403]),
     (0x454, [0x404]), (0x455, [0x405]), (0x456, [0x406]), (0x457, [0x407]), (0x458, [0x408]),
     (0x459, [0x409]), (0x45A, [0x40A]), (0x45B, [0x40B]), (0x45C, [0x40C]), (0x45D, [0x40D]),
     (0x45E, [0x40E]), (0x45F, [0x40F]), (0x461, [0x460]), (0x463, [0x462]), (0x465, [0x464]),
     (0x467, [0x466]), (0x469, [0x468]), (0x46B, [0x46A]), (0x46D, [0x46C]), (0x46F, [0x46E]),
     (0x471, [0x470]), (0x473, [0x472]), (0x475, [0x474]), (0x477, [0x476]), (0x479, [0x478]),
     (0x47B, [0x47A]), (0x47D, [0x47C]), (0x47F, [0x47E]), (0x481, [0x480])]"

definition upper_table_6 :: "(pychar \<times> pystr) list" where
  "upper_table_6 =
    [(0x48B, [0x48A]), (0x48D, [0x48C]), (0x48F, [0x48E]), (0x491, [0x490]), (0x493, [0x492]),
     (0x495, [0x494]), (0x497, [0x496]), (0x499, [0x498]), (0x49B, [0x49A]), (0x49D, [0x49C]),
     (0x49F, [0x49E]), (0x4A1, [0x4A0]), (0x4A3, [0x4A2]), (0x4A5, [0x4A4]), (0x4A7, [0x4A6]),
     (0x4A9, [0x4A8]), (0x4AB, [0x4AA]), (0x4AD, [0x4AC]), (0x4AF, [0x4AE]), (0x4B1, [0x4B0]),
     (0x4B3, [0x4B2]), (0x4B5, [0x4B4]), (0x4B7, [0x4B6]), (0x4B9, [0x4B8]), (0x4BB, [0x4BA]),
     (0x4BD, [0x4BC]), (0x4BF, [0x4BE]), (0x4C2, [0x4C1]), (0x4C4, [0x4C3]), (0x4C6, [0x4C5]),
     (0x4C8, [0x4C7]), (0x4CA, [0x4C9]), (0x4CC, [0x4CB]), (0x4CE, [0x4CD]), (0x4CF, [0x4C0]),
     (0x4D1, [0x4D0]), (0x4D3, [0x4D2]), (0x4D5, [0x4D4]), (0x4D7, [0x4D6]), (0x4D9, [0x4D8]),
     (0x4DB, [0x4DA]), (0x4DD, [0x4DC]), (0x4DF, [0x4DE]), (0x4E1, [0x4E0]), (0x4E3, [0x4E2]),
     (0x4E5, [0x4E4]), (0x4E7, [0x4E6]), (0x4E9, [0x4E8]), (0x4EB, [0x4EA]), (0x4ED, [0x4EC]),
     (0x4EF, [0x4EE]), (0x4F1, [0x4F0]), (0x4F3, [0x4F2]), (0x4F5, [0x4F4]), (0x4F7, [0x4F6]),
     (0x4F9, [0x4F8]), (0x4FB, [0x4FA]), (0x4FD, [0x4FC]), (0x4FF, [0x4FE]), (0x501, [0x500]),
     (0x503, [0x502]), (0x505, [0x504]), (0x507, [0x506]), (0x509, [0x508])]"

definition upper_table_7 :: "(pychar \<times> pystr) list" where
  "upper_table_7 =
    [(0x50B, [0x50A]), (0x50D, [0x50C]), (0x50F, [0x50E]), (0x511, [0x510]), (0x513, [0x512]),
     (0x515, [0x514]), (0x517, [0x516]), (0x519, [0x518]), (0x51B, [0x51A]), (0x51D, [0x51C]),
     (0x51F, [0x51E]), (0x521, [0x520]), (0x523, [0x522]), (0x525, [0x524]), (0x527, [0x526]),
     (0x529, [0x528]), (0x52B, [0x52A]), (0x52D, [0x52C]), (0x52F, [0x52E]), (0x561, [0x531]),
     (0x562, [0x532]), (0x563, [0x533]), (0x564, [0x534]), (0x565, [0x535]), (0x566, [0x536]),
     (0x567, [0x537]), (0x568, [0x538]), (0x569, [0x539]), (0x56A, [0x53A]), (0x56B, [0x53B]),
     (0x56C, [0x53C]), (0x56D, [0x53D]), (0x56E, [0x53E]), (0x56F, [0x53F]), (0x570, [0x540]),
     (0x571, [0x541]), (0x572, [0x542]), (0x573, [0x543]), (0x574, [0x544]), (0x575, [0x545]),
     (0x576, [0x546]), (0x577, [0x547]), (0x578, [0x548]), (0x579, [0x549]), (0x57A, [0x54A]),
     (0x57B, [0x54B]), (0x57C, [0x54C]), (0x57D, [0x54D]), (0x57E, [0x54E]), (0x57F, [0x54F]),
     (0x580, [0x550]), (0x581, [0x551]), (0x582, [0x552]), (0x583, [0x553]), (0x584, [0x554]),
     (0x585, [0x555]), (0x586, [0x556]), (0x587, [0x535, 0x552]), (0x10D0, [0x1C90]),
     (0x10D1, [0x1C91]), (0x10D2, [0x1C92]), (0x10D3, [0x1C93]), (0x10D4, [0x1C94]),
     (0x10D5, [0x1C95])]"

definition upper_table_8 :: "(pychar \<times> pystr) list" where
  "upper_table_8 =
    [(0x10D6, [0x1C96]), (0x10D7, [0x1C97]), (0x10D8, [0x1C98]), (0x10D9, [0x1C99]),
     (0x10DA, [0x1C9A]), (0x10DB, [0x1C9B]), (0x10DC, [0x1C9C]), (0x10DD, [0x1C9D]),
     (0x10DE, [0x1C9E]), (0x10DF, [0x1C9F]), (0x10E0, [0x1CA0]), (0x10E1, [0x1CA1]),
     (0x10E2, [0x1CA2]), (0x10E3, [0x1CA3]), (0x10E4, [0x1CA4]), (0x10E5, [0x1CA5]),
     (0x10E6, [0x1CA6]), (0x10E7, [0x1CA7]), (0x10E8, [0x1CA8]), (0x10E9, [0x1CA9]),
     (0x10EA, [0x1CAA]), (0x10EB, [0x1CAB]), (0x10EC, [0x1CAC]), (0x10ED, [0x1CAD]),
     (0x10EE, [0x1CAE]), (0x10EF, [0x1CAF]), (0x10F0, [0x1CB0]), (0x10F1, [0x1CB1]),
     (0x10F2, [0x1CB2]), (0x10F3, [0x1CB3]), (0x10F4, [0x1CB4]), (0x10F5, [0x1CB5]),
     (0x10F6, [0x1CB6]), (0x10F7, [0x1CB7]), (0x10F8, [0x1CB8]), (0x10F9, [0x1CB9]),
     (0x10FA, [0x1CBA]), (0x10FD, [0x1CBD]), (0x10FE, [0x1CBE]), (0x10FF, [0x1CBF]),
     (0x13F8, [0x13F0]), (0x13F9, [0x13F1]), (0x13FA, [0x13F2]), (0x13FB, [0x13F3]),
     (0x13FC, [0x13F4]), (0x13FD, [0x13F5]), (0x1C80, [0x412]), (0x1C81, [0x414]),
     (0x1C82, [0x41E]), (0x1C83, [0x421]), (0x1C84, [0x422]), (0x1C85, [0x422]),
     (0x1C86, [0x42A]), (0x1C87, [0x462]), (0x1C88, [0xA64A]), (0x1D79, [0xA77D]),
     (0x1D7D, [0x2C63]), (0x1D8E, [0xA7C6]), (0x1E01, [0x1E00]), (0x1E03, [0x1E02]),
     (0x1E05, [0x1E04]), (0x1E07, [0x1E06]), (0x1E09, [0x1E08]), (0x1E0B, [0x1E0A])]"

definition upper_table_9 :: "(pychar \<times> pystr) list" where
  "upper_table_9 =
    [(0x1E0D, [0x1E0C]), (0x1E0F, [0x1E0E]), (0x1E11, [0x1E10]), (0x1E13, [0x1E12]),
     (0x1E15, [0x1E14]), (0x1E17, [0x1E16]), (0x1E19, [0x1E18]), (0x1E1B, [0x1E1A]),
     (0x1E1D, [0x1E1C]), (0x1E1F, [0x1E1E]), (0x1E21, [0x1E20]), (0x1E23, [0x1E22]),
     (0x1E25, [0x1E24]), (0x1E27, [0x1E26]), (0x1E29, [0x1E28]), (0x1E2B, [0x1E2A]),
     (0x1E2D, [0x1E2C]), (0x1E2F, [0x1E2E]), (0x1E31, [0x1E30]), (0x1E33, [0x1E32]),
     (0x1E35, [0x1E34]), (0x1E37, [0x1E36]), (0x1E39, [0x1E38]), (0x1E3B, [0x1E3A]),
     (0x1E3D, [0x1E3C]), (0x1E3F, [0x1E3E]), (0x1E41, [0x1E40]), (0x1E43, [0x1E42]),
     (0x1E45, [0x1E44]), (0x1E47, [0x1E46]), (0x1E49, [0x1E48]), (0x1E4B, [0x1E4A]),
     (0x1E4D, [0x1E4C]), (0x1E4F, [0x1E4E]), (0x1E51, [0x1E50]), (0x1E53, [0x1E52]),
     (0x1E55, [0x1E54]), (0x1E57, [0x1E56]), (0x1E59, [0x1E58]), (0x1E5B, [0x1E5A]),
     (0x1E5D, [0x1E5C]), (0x1E5F, [0x1E5E]), (0x1E61, [0x1E60]), (0x1E63, [0x1E62]),
     (0x1E65, [0x1E64]), (0x1E67, [0x1E66]), (0x1E69, [0x1E68]), (0x1E6B, [0x1E6A]),
     (0x1E6D, [0x1E6C]), (0x1E6F, [0x1E6E]), (0x1E71, [0x1E70]), (0x1E73, [0x1E72]),
     (0x1E75, [0x1E74]), (0x1E77, [0x1E76]), (0x1E79, [0x1E78]), (0x1E7B, [0x1E7A]),
     (0x1E7D, [0x1E7C]), (0x1E7F, [0x1E7E]), (0x1E81, [0x1E80]), (0x1E83, [0x1E82]),
     (0x1E85, [0x1E84]), (0x1E87, [0x1E86]), (0x1E89, [0x1E88]), (0x1E8B, [0x1E8A])]"

definition upper_table_10 :: "(pychar \<times> pystr) list" where
  "upper_table_10 =
    [(0x1E8D, [0x1E8C]), (0x1E8F, [0x1E8E]), (0x1E91, [0x1E90]), (0x1E93, [0x1E92]),
     (0x1E95, [0x1E94]), (0x1E96, [0x48, 0x331]), (0x1E97, [0x54, 0x308]),
     (0x1E98, [0x57, 0x30A]), (0x1E99, [0x59, 0x30A]), (0x1E9A, [0x41, 0x2BE]),
     (0x1E9B, [0x1E60]), (0x1EA1, [0x1EA0]), (0x1EA3, [0x1EA2]), (0x1EA5, [0x1EA4]),
     (0x1EA7, [0x1EA6]), (0x1EA9, [0x1EA8]), (0x1EAB, [0x1EAA]), (0x1EAD, [0x1EAC]),
     (0x1EAF, [0x1EAE]), (0x1EB1, [0x1EB0]), (0x1EB3, [0x1EB2]), (0x1EB5, [0x1EB4]),
     (0x1EB7, [0x1EB6]), (0x1EB9, [0x1EB8]), (0x1EBB, [0x1EBA]), (0x1EBD, [0x1EBC]),
     (0x1EBF, [0x1EBE]), (0x1EC1, [0x1EC0]), (0x1EC3, [0x1EC2]), (0x1EC5, [0x1EC4]),
     (0x1EC7, [0x1EC6]), (0x1EC9, [0x1EC8]), (0x1ECB, [0x1ECA]), (0x1ECD, [0x1ECC]),
     (0x1ECF, [0x1ECE]), (0x1ED1, [0x1ED0]), (0x1ED3, [0x1ED2]), (0x1ED5, [0x1ED4]),
     (0x1ED7, [0x1ED6]), (0x1ED9, [0x1ED8]), (0x1EDB, [0x1EDA]), (0x1EDD, [0x1EDC]),
     (0x1EDF, [0x1EDE]), (0x1EE1, [0x1EE0]), (0x1EE3, [0x1EE2]), (0x1EE5, [0x1EE4]),
     (0x1EE7, [0x1EE6]), (0x1EE9, [0x1EE8]), (0x1EEB, [0x1EEA]), (0x1EED, [0x1EEC]),
     (0x1EEF, [0x1EEE]), (0x1EF1, [0x1EF0]), (0x1EF3, [0x1EF2]), (0x1EF5, [0x1EF4]),
     (0x1EF7, [0x1EF6]), (0x1EF9, [0x1EF8]), (0x1EFB, [0x1EFA]), (0x1EFD, [0x1EFC]),
     (0x1EFF, [0x1EFE]), (0x1F00, [0x1F08]), (0x1F01, [0x1F09]), (0x1F02, [0x1F0A]),
     (0x1F03, [0x1F0B]), (0x1F04, [0x1F0C])]"

definition upper_table_11 :: "(pychar \<times> pystr) list" where
  "upper_table_11 =
    [(0x1F05, [0x1F0D]), (0x1F06, [0x1F0E]), (0x1F07, [0x1F0F]), (0x1F10, [0x1F18]),
     (0x1F11, [0x1F19]), (0x1F12, [0x1F1A]), (0x1F13, [0x1F1B]), (0x1F14, [0x1F1C]),
     (0x1F15, [0x1F1D]), (0x1F20, [0x1F28]), (0x1F21, [0x1F29]), (0x1F22, [0x1F2A]),
     (0x1F23, [0x1F2B]), (0x1F24, [0x1F2C]), (0x1F25, [0x1F2D]), (0x1F26, [0x1F2E]),
     (0x1F27, [0x1F2F]), (0x1F30, [0x1F38]), (0x1F31, [0x1F39]), (0x1F32, [0x1F3A]),
     (0x1F33, [0x1F3B]), (0x1F34, [0x1F3C]), (0x1F35, [0x1F3D]), (0x1F36, [0x1F3E]),
     (0x1F37, [0x1F3F]), (0x1F40, [0x1F48]), (0x1F41, [0x1F49]), (0x1F42, [0x1F4A]),
     (0x1F43, [0x1F4B]), (0x1F44, [0x1F4C]), (0x1F45, [0x1F4D]), (0x1F50, [0x3A5, 0x313]),
     (0x1F51, [0x1F59]), (0x1F52, [0x3A5, 0x313, 0x300]), (0x1F53, [0x1F5B]),
     (0x1F54, [0x3A5, 0x313, 0x301]), (0x1F55, [0x1F5D]), (0x1F56, [0x3A5, 0x313, 0x342]),
     (0x1F57, [0x1F5F]), (0x1F60, [0x1F68]), (0x1F61, [0x1F69]), (0x1F62, [0x1F6A]),
     (0x1F63, [0x1F6B]), (0x1F64, [0x1F6C]), (0x1F65, [0x1F6D]), (0x1F66, [0x1F6E]),
     (0x1F67, [0x1F6F]), (0x1F70, [0x1FBA]), (0x1F71, [0x1FBB]), (0x1F72, [0x1FC8]),
     (0x1F73, [0x1FC9]), (0x1F74, [0x1FCA]), (0x1F75, [0x1FCB]), (0x1F76, [0x1FDA]),
     (0x1F77, [0x1FDB]), (0x1F78, [0x1FF8]), (0x1F79, [0x1FF9]), (0x1F7A, [0x1FEA]),
     (0x1F7B, [0x1FEB]), (0x1F7C, [0x1FFA]), (0x1F7D, [0x1FFB]), (0x1F80, [0x1F08, 0x399]),
     (0x1F81, [0x1F09, 0x399]), (0x1F82, [0x1F0A, 0x399])]"

definition upper_table_12 :: "(pychar \<times> pystr) list" where
  "upper_table_12 =
    [(0x1F83, [0x1F0B, 0x399]), (0x1F84, [0x1F0C, 0x399]), (0x1F85, [0x1F0D, 0x399]),
     (0x1F86, [0x1F0E, 0x399]), (0x1F87, [0x1F0F, 0x399]), (0x1F88, [0x1F08, 0x399]),
     (0x1F89, [0x1F09, 0x399]), (0x1F8A, [0x1F0A, 0x399]), (0x1F8B, [0x1F0B, 0x399]),
     (0x1F8C, [0x1F0C, 0x399]), (0x1F8D, [0x1F0D, 0x399]), (0x1F8E, [0x1F0E, 0x399]),
     (0x1F8F, [0x1F0F, 0x399]), (0x1F90, [0x1F28, 0x399]), (0x1F91, [0x1F29, 0x399]),
     (0x1F92, [0x1F2A, 0x399]), (0x1F93, [0x1F2B, 0x399]), (0x1F94, [0x1F2C, 0x399]),
     (0x1F95, [0x1F2D, 0x399]), (0x1F96, [0x1F2E, 0x399]), (0x1F97, [0x1F2F, 0x399]),
     (0x1F98, [0x1F28, 0x399]), (0x1F99, [0x1F29, 0x399]), (0x1F9A, [0x1F2A, 0x399]),
     (0x1F9B, [0x1F2B, 0x399]), (0x1F9C, [0x1F2C, 0x399]), (0x1F9D, [0x1F2D, 0x399]),
     (0x1F9E, [0x1F2E, 0x399]), (0x1F9F, [0x1F2F, 0x399]), (0x1FA0, [0x1F68, 0x399]),
     (0x1FA1, [0x1F69, 0x399]), (0x1FA2, [0x1F6A, 0x399]), (0x1FA3, [0x1F6B, 0x399]),
     (0x1FA4, [0x1F6C, 0x399]), (0x1FA5, [0x1F6D, 0x399]), (0x1FA6, [0x1F6E, 0x399]),
     (0x1FA7, [0x1F6F, 0x399]), (0x1FA8, [0x1F68, 0x399]), (0x1FA9, [0x1F69, 0x399]),
     (0x1FAA, [0x1F6A, 0x399]), (0x1FAB, [0x1F6B, 0x399]), (0x1FAC, [0x1F6C, 0x399]),
     (0x1FAD, [0x1F6D, 0x399]), (0x1FAE, [0x1F6E, 0x399]), (0x1FAF, [0x1F6F, 0x399]),
     (0x1FB0, [0x1FB8]), (0x1FB1, [0x1FB9]), (0x1FB2, [0x1FBA, 0x399]), (0x1FB3, [0x391, 0x399]),
     (0x1FB4, [0x386, 0x399]), (0x1FB6, [0x391, 0x342]), (0x1FB7, [0x391, 0x342, 0x399]),
     (0x1FBC, [0x391, 0x399]), (0x1FBE, [0x399]), (0x1FC2, [0x1FCA, 0x399]),
     (0x1FC3, [0x397, 0x399]), (0x1FC4, [0x389, 0x399]), (0x1FC6, [0x397, 0x342]),
     (0x1FC7, [0x397, 0x342, 0x399]), (0x1FCC, [0x397, 0x399]), (0x1FD0, [0x1FD8]),
     (0x1FD1, [0x1FD9]), (0x1FD2, [0x399, 0x308, 0x300]), (0x1FD3, [0x399, 0x308, 0x301])]"

definition upper_table_13 :: "(pychar \<times> pystr) list" where
  "upper_table_13 =
    [(0x1FD6, [0x399, 0x342]), (0x1FD7, [0x399, 0x308, 0x342]), (0x1FE0, [0x1FE8]),
     (0x1FE1, [0x1FE9]), (0x1FE2, [0x3A5, 0x308, 0x300]), (0x1FE3, [0x3A5, 0x308, 0x301]),
     (0x1FE4, [0x3A1, 0x313]), (0x1FE5, [0x1FEC]), (0x1FE6, [0x3A5, 0x342]),
     (0x1FE7, [0x3A5, 0x308, 0x342]), (0x1FF2, [0x1FFA, 0x399]), (0x1FF3, [0x3A9, 0x399]),
     (0x1FF4, [0x38F, 0x399]), (0x1FF6, [0x3A9, 0x342]), (0x1FF7, [0x3A9, 0x342, 0x399]),
     (0x1FFC, [0x3A9, 0x399]), (0x214E, [0x2132]), (0x2170, [0x2160]), (0x2171, [0x2161]),
     (0x2172, [0x2162]), (0x2173, [0x2163]), (0x2174, [0x2164]), (0x2175, [0x2165]),
     (0x2176, [0x2166]), (0x2177, [0x2167]), (0x2178, [0x2168]), (0x2179, [0x2169]),
     (0x217A, [0x216A]), (0x217B, [0x216B]), (0x217C, [0x216C]), (0x217D, [0x216D]),
     (0x217E, [0x216E]), (0x217F, [0x216F]), (0x2184, [0x2183]), (0x24D0, [0x24B6]),
     (0x24D1, [0x24B7]), (0x24D2, [0x24B8]), (0x24D3, [0x24B9]), (0x24D4, [0x24BA]),
     (0x24D5, [0x24BB]), (0x24D6, [0x24BC]), (0x24D7, [0x24BD]), (0x24D8, [0x24BE]),
     (0x24D9, [0x24BF]), (0x24DA, [0x24C0]), (0x24DB, [0x24C1]), (0x24DC, [0x24C2]),
     (0x24DD, [0x24C3]), (0x24DE, [0x24C4]), (0x24DF, [0x24C5]), (0x24E0, [0x24C6]),
     (0x24E1, [0x24C7]), (0x24E2, [0x24C8]), (0x24E3, [0x24C9]), (0x24E4, [0x24CA]),
     (0x24E5, [0x24CB]), (0x24E6, [0x24CC]), (0x24E7, [0x24CD]), (0x24E8, [0x24CE]),
     (0x24E9, [0x24CF]), (0x2C30, [0x2C00]), (0x2C31, [0x2C01]), (0x2C32, [0x2C02]),
     (0x2C33, [0x2C03])]"

definition upper_table_14 :: "(pychar \<times> pystr) list" where
  "upper_table_14 =
    [(0x2C34, [0x2C04]), (0x2C35, [0x2C05]), (0x2C36, [0x2C06]), (0x2C37, [0x2C07]),
     (0x2C38, [0x2C08]), (0x2C39, [0x2C09]), (0x2C3A, [0x2C0A]), (0x2C3B, [0x2C0B]),
     (0x2C3C, [0x2C0C]), (0x2C3D, [0x2C0D]), (0x2C3E, [0x2C0E]), (0x2C3F, [0x2C0F]),
     (0x2C40, [0x2C10]), (0x2C41, [0x2C11]), (0x2C42, [0x2C12]), (0x2C43, [0x2C13]),
     (0x2C44, [0x2C14]), (0x2C45, [0x2C15]), (0x2C46, [0x2C16]), (0x2C47, [0x2C17]),
     (0x2C48, [0x2C18]), (0x2C49, [0x2C19]), (0x2C4A, [0x2C1A]), (0x2C4B, [0x2C1B]),
     (0x2C4C, [0x2C1C]), (0x2C4D, [0x2C1D]), (0x2C4E, [0x2C1E]), (0x2C4F, [0x2C1F]),
     (0x2C50, [0x2C20]), (0x2C51, [0x2C21]), (0x2C52, [0x2C22]), (0x2C53, [0x2C23]),
     (0x2C54, [0x2C24]), (0x2C55, [0x2C25]), (0x2C56, [0x2C26]), (0x2C57, [0x2C27]),
     (0x2C58, [0x2C28]), (0x2C59, [0x2C29]), (0x2C5A, [0x2C2A]), (0x2C5B, [0x2C2B]),
     (0x2C5C, [0x2C2C]), (0x2C5D, [0x2C2D]), (0x2C5E, [0x2C2E]), (0x2C5F, [0x2C2F]),
     (0x2C61, [0x2C60]), (0x2C65, [0x23A]), (0x2C66, [0x23E]), (0x2C68, [0x2C67]),
     (0x2C6A, [0x2C69]), (0x2C6C, [0x2C6B]), (0x2C73, [0x2C72]), (0x2C76, [0x2C75]),
     (0x2C81, [0x2C80]), (0x2C83, [0x2C82]), (0x2C85, [0x2C84]), (0x2C87, [0x2C86]),
     (0x2C89, [0x2C88]), (0x2C8B, [0x2C8A]), (0x2C8D, [0x2C8C]), (0x2C8F, [0x2C8E]),
     (0x2C91, [0x2C90]), (0x2C93, [0x2C92]), (0x2C95, [0x2C94]), (0x2C97, [0x2C96])]"

definition upper_table_15 :: "(pychar \<times> pystr) list" where
  "upper_table_15 =
    [(0x2C99, [0x2C98]), (0x2C9B, [0x2C9A]), (0x2C9D, [0x2C9C]), (0x2C9F, [0x2C9E]),
     (0x2CA1, [0x2CA0]), (0x2CA3, [0x2CA2]), (0x2CA5, [0x2CA4]), (0x2CA7, [0x2CA6]),
     (0x2CA9, [0x2CA8]), (0x2CAB, [0x2CAA]), (0x2CAD, [0x2CAC]), (0x2CAF, [0x2CAE]),
     (0x2CB1, [0x2CB0]), (0x2CB3, [0x2CB2]), (0x2CB5, [0x2CB4]), (0x2CB7, [0x2CB6]),
     (0x2CB9, [0x2CB8]), (0x2CBB, [0x2CBA]), (0x2CBD, [0x2CBC]), (0x2CBF, [0x2CBE]),
     (0x2CC1, [0x2CC0]), (0x2CC3, [0x2CC2]), (0x2CC5, [0x2CC4]), (0x2CC7, [0x2CC6]),
     (0x2CC9, [0x2CC8]), (0x2CCB, [0x2CCA]), (0x2CCD, [0x2CCC]), (0x2CCF, [0x2CCE]),
     (0x2CD1, [0x2CD0]), (0x2CD3, [0x2CD2]), (0x2CD5, [0x2CD4]), (0x2CD7, [0x2CD6]),
     (0x2CD9, [0x2CD8]), (0x2CDB, [0x2CDA]), (0x2CDD, [0x2CDC]), (0x2CDF, [0x2CDE]),
     (0x2CE1, [0x2CE0]), (0x2CE3, [0x2CE2]), (0x2CEC, [0x2CEB]), (0x2CEE, [0x2CED]),
     (0x2CF3, [0x2CF2]), (0x2D00, [0x10A0]), (0x2D01, [0x10A1]), (0x2D02, [0x10A2]),
     (0x2D03, [0x10A3]), (0x2D04, [0x10A4]), (0x2D05, [0x10A5]), (0x2D06, [0x10A6]),
     (0x2D07, [0x10A7]), (0x2D08, [0x10A8]), (0x2D09, [0x10A9]), (0x2D0A, [0x10AA]),
     (0x2D0B, [0x10AB]), (0x2D0C, [0x10AC]), (0x2D0D, [0x10AD]), (0x2D0E, [0x10AE]),
     (0x2D0F, [0x10AF]), (0x2D10, [0x10B0]), (0x2D11, [0x10B1]), (0x2D12, [0x10B2]),
     (0x2D13, [0x10B3]), (0x2D14, [0x10B4]), (0x2D15, [0x10B5]), (0x2D16, [0x10B6])]"

definition upper_table_16 :: "(pychar \<times> pystr) list" where
  "upper_table_16 =
    [(0x2D17, [0x10B7]), (0x2D18, [0x10B8]), (0x2D19, [0x10B9]), (0x2D1A, [0x10BA]),
     (0x2D1B, [0x10BB]), (0x2D1C, [0x10BC]), (0x2D1D, [0x10BD]), (0x2D1E, [0x10BE]),
     (0x2D1F, [0x10BF]), (0x2D20, [0x10C0]), (0x2D21, [0x10C1]), (0x2D22, [0x10C2]),
     (0x2D23, [0x10C3]), (0x2D24, [0x10C4]), (0x2D25, [0x10C5]), (0x2D27, [0x10C7]),
     (0x2D2D, [0x10CD]), (0xA641, [0xA640]), (0xA643, [0xA642]), (0xA645, [0xA644]),
     (0xA647, [0xA646]), (0xA649, [0xA648]), (0xA64B, [0xA64A]), (0xA64D, [0xA64C]),
     (0xA64F, [0xA64E]), (0xA651, [0xA650]), (0xA653, [0xA652]), (0xA655, [0xA654]),
     (0xA657, [0xA656]), (0xA659, [0xA658]), (0xA65B, [0xA65A]), (0xA65D, [0xA65C]),
     (0xA65F, [0xA65E]), (0xA661, [0xA660]), (0xA663, [0xA662]), (0xA665, [0xA664]),
     (0xA667, [0xA666]), (0xA669, [0xA668]), (0xA66B, [0xA66A]), (0xA66D, [0xA66C]),
     (0xA681, [0xA680]), (0xA683, [0xA682]), (0xA685, [0xA684]), (0xA687, [0xA686]),
     (0xA689, [0xA688]), (0xA68B, [0xA68A]), (0xA68D, [0xA68C]), (0xA68F, [0xA68E]),
     (0xA691, [0xA690]), (0xA693, [0xA692]), (0xA695, [0xA694]), (0xA697, [0xA696]),
     (0xA699, [0xA698]), (0xA69B, [0xA69A]), (0xA723, [0xA722]), (0xA725, [0xA724]),
     (0xA727, [0xA726]), (0xA729, [0xA728]), (0xA72B, [0xA72A]), (0xA72D, [0xA72C]),
     (0xA72F, [0xA72E]), (0xA733, [0xA732]), (0xA735, [0xA734]), (0xA737, [0xA736])]"

definition upper_table_17 :: "(pychar \<times> pystr) list" where
  "upper_table_17 =
    [(0xA739, [0xA738]), (0xA73B, [0xA73A]), (0xA73D, [0xA73C]), (0xA73F, [0xA73E]),
     (0xA741, [0xA740]), (0xA743, [0xA742]), (0xA745, [0xA744]), (0xA747, [0xA746]),
     (0xA749, [0xA748]), (0xA74B, [0xA74A]), (0xA74D, [0xA74C]), (0xA74F, [0xA74E]),
     (0xA751, [0xA750]), (0xA753, [0xA752]), (0xA755, [0xA754]), (0xA757, [0xA756]),
     (0xA759, [0xA758]), (0xA75B, [0xA75A]), (0xA75D, [0xA75C]), (0xA75F, [0xA75E]),
     (0xA761, [0xA760]), (0xA763, [0xA762]), (0xA765, [0xA764]), (0xA767, [0xA766]),
     (0xA769, [0xA768]), (0xA76B, [0xA76A]), (0xA76D, [0xA76C]), (0xA76F, [0xA76E]),
     (0xA77A, [0xA779]), (0xA77C, [0xA77B]), (0xA77F, [0xA77E]), (0xA781, [0xA780]),
     (0xA783, [0xA782]), (0xA785, [0xA784]), (0xA787, [0xA786]), (0xA78C, [0xA78B]),
     (0xA791, [0xA790]), (0xA793, [0xA792]), (0xA794, [0xA7C4]), (0xA797, [0xA796]),
     (0xA799, [0xA798]), (0xA79B, [0xA79A]), (0xA79D, [0xA79C]), (0xA79F, [0xA79E]),
     (0xA7A1, [0xA7A0]), (0xA7A3, [0xA7A2]), (0xA7A5, [0xA7A4]), (0xA7A7, [0xA7A6]),
     (0xA7A9, [0xA7A8]), (0xA7B5, [0xA7B4]), (0xA7B7, [0xA7B6]), (0xA7B9, [0xA7B8]),
     (0xA7BB, [0xA7BA]), (0xA7BD, [0xA7BC]), (0xA7BF, [0xA7BE]), (0xA7C1, [0xA7C0]),
     (0xA7C3, [0xA7C2]), (0xA7C8, [0xA7C7]), (0xA7CA, [0xA7C9]), (0xA7D1, [0xA7D0]),
     (0xA7D7, [0xA7D6]), (0xA7D9, [0xA7D8]), (0xA7F6, [0xA7F5]), (0xAB53, [0xA7B3])]"

definition upper_table_18 :: "(pychar \<times> pystr) list" where
  "upper_table_18 =
    [(0xAB70, [0x13A0]), (0xAB71, [0x13A1]), (0xAB72, [0x13A2]), (0xAB73, [0x13A3]),
     (0xAB74, [0x13A4]), (0xAB75, [0x13A5]), (0xAB76, [0x13A6]), (0xAB77, [0x13A7]),
     (0xAB78, [0x13A8]), (0xAB79, [0x13A9]), (0xAB7A, [0x13AA]), (0xAB7B, [0x13AB]),
     (0xAB7C, [0x13AC]), (0xAB7D, [0x13AD]), (0xAB7E, [0x13AE]), (0xAB7F, [0x13AF]),
     (0xAB80, [0x13B0]), (0xAB81, [0x13B1]), (0xAB82, [0x13B2]), (0xAB83, [0x13B3]),
     (0xAB84, [0x13B4]), (0xAB85, [0x13B5]), (0xAB86, [0x13B6]), (0xAB87, [0x13B7]),
     (0xAB88, [0x13B8]), (0xAB89, [0x13B9]), (0xAB8A, [0x13BA]), (0xAB8B, [0x13BB]),
     (0xAB8C, [0x13BC]), (0xAB8D, [0x13BD]), (0xAB8E, [0x13BE]), (0xAB8F, [0x13BF]),
     (0xAB90, [0x13C0]), (0xAB91, [0x13C1]), (0xAB92, [0x13C2]), (0xAB93, [0x13C3]),
     (0xAB94, [0x13C4]), (0xAB95, [0x13C5]), (0xAB96, [0x13C6]), (0xAB97, [0x13C7]),
     (0xAB98, [0x13C8]), (0xAB99, [0x13C9]), (0xAB9A, [0x13CA]), (0xAB9B, [0x13CB]),
     (0xAB9C, [0x13CC]), (0xAB9D, [0x13CD]), (0xAB9E, [0x13CE]), (0xAB9F, [0x13CF]),
     (0xABA0, [0x13D0]), (0xABA1, [0x13D1]), (0xABA2, [0x13D2]), (0xABA3, [0x13D3]),
     (0xABA4, [0x13D4]), (0xABA5, [0x13D5]), (0xABA6, [0x13D6]), (0xABA7, [0x13D7]),
     (0xABA8, [0x13D8]), (0xABA9, [0x13D9]), (0xABAA, [0x13DA]), (0xABAB, [0x13DB]),
     (0xABAC, [0x13DC]), (0xABAD, [0x13DD]), (0xABAE, [0x13DE]), (0xABAF, [0x13DF])]"

definition upper_table_19 :: "(pychar \<times> pystr) list" where
  "upper_table_19 =
    [(0xABB0, [0x13E0]), (0xABB1, [0x13E1]), (0xABB2, [0x13E2]), (0xABB3, [0x13E3]),
     (0xABB4, [0x13E4]), (0xABB5, [0x13E5]), (0xABB6, [0x13E6]), (0xABB7, [0x13E7]),
     (0xABB8, [0x13E8]), (0xABB9, [0x13E9]), (0xABBA, [0x13EA]), (0xABBB, [0x13EB]),
     (0xABBC, [0x13EC]), (0xABBD, [0x13ED]), (0xABBE, [0x13EE]), (0xABBF, [0x13EF]),
     (0xFB00, [0x46, 0x46]), (0xFB01, [0x46, 0x49]), (0xFB02, [0x46, 0x4C]),
     (0xFB03, [0x46, 0x46, 0x49]), (0xFB04, [0x46, 0x46, 0x4C]), (0xFB05, [0x53, 0x54]),
     (0xFB06, [0x53, 0x54]), (0xFB13, [0x544, 0x546]), (0xFB14, [0x544, 0x535]),
     (0xFB15, [0x544, 0x53B]), (0xFB16, [0x54E, 0x546]), (0xFB17, [0x544, 0x53D]),
     (0xFF41, [0xFF21]), (0xFF42, [0xFF22]), (0xFF43, [0xFF23]), (0xFF44, [0xFF24]),
     (0xFF45, [0xFF25]), (0xFF46, [0xFF26]), (0xFF47, [0xFF27]), (0xFF48, [0xFF28]),
     (0xFF49, [0xFF29]), (0xFF4A, [0xFF2A]), (0xFF4B, [0xFF2B]), (0xFF4C, [0xFF2C]),
     (0xFF4D, [0xFF2D]), (0xFF4E, [0xFF2E]), (0xFF4F, [0xFF2F]), (0xFF50, [0xFF30]),
     (0xFF51, [0xFF31]), (0xFF52, [0xFF32]), (0xFF53, [0xFF33]), (0xFF54, [0xFF34]),
     (0xFF55, [0xFF35]), (0xFF56, [0xFF36]), (0xFF57, [0xFF37]), (0xFF58, [0xFF38]),
     (0xFF59, [0xFF39]), (0xFF5A, [0xFF3A]), (0x10428, [0x10400]), (0x10429, [0x10401]),
     (0x1042A, [0x10402]), (0x1042B, [0x10403]), (0x1042C, [0x10404]), (0x1042D, [0x10405]),
     (0x1042E, [0x10406]), (0x1042F, [0x10407]), (0x10430, [0x10408]), (0x10431, [0x10409])]"

definition upper_table_20 :: "(pychar \<times> pystr) list" where
  "upper_table_20 =
    [(0x10432, [0x1040A]), (0x10433, [0x1040B]), (0x10434, [0x1040C]), (0x10435, [0x1040D]),
     (0x10436, [0x1040E]), (0x10437, [0x1040F]), (0x10438, [0x10410]), (0x10439, [0x10411]),
     (0x1043A, [0x10412]), (0x1043B, [0x10413]), (0x1043C, [0x10414]), (0x1043D, [0x10415]),
     (0x1043E, [0x10416]), (0x1043F, [0x10417]), (0x10440, [0x10418]), (0x10441, [0x10419]),
     (0x10442, [0x1041A]), (0x10443, [0x1041B]), (0x10444, [0x1041C]), (0x10445, [0x1041D]),
     (0x10446, [0x1041E]), (0x10447, [0x1041F]), (0x10448, [0x10420]), (0x10449, [0x10421]),
     (0x1044A, [0x10422]), (0x1044B, [0x10423]), (0x1044C, [0x10424]), (0x1044D, [0x10425]),
     (0x1044E, [0x10426]), (0x1044F, [0x10427]), (0x104D8, [0x104B0]), (0x104D9, [0x104B1]),
     (0x104DA, [0x104B2]), (0x104DB, [0x104B3]), (0x104DC, [0x104B4]), (0x104DD, [0x104B5]),
     (0x104DE, [0x104B6]), (0x104DF, [0x104B7]), (0x104E0, [0x104B8]), (0x104E1, [0x104B9]),
     (0x104E2, [0x104BA]), (0x104E3, [0x104BB]), (0x104E4, [0x104BC]), (0x104E5, [0x104BD]),
     (0x104E6, [0x104BE]), (0x104E7, [0x104BF]), (0x104E8, [0x104C0]), (0x104E9, [0x104C1]),
     (0x104EA, [0x104C2]), (0x104EB, [0x104C3]), (0x104EC, [0x104C4]), (0x104ED, [0x104C5]),
     (0x104EE, [0x104C6]), (0x104EF, [0x104C7]), (0x104F0, [0x104C8]), (0x104F1, [0x104C9]),
     (0x104F2, [0x104CA]), (0x104F3, [0x104CB]), (0x104F4, [0x104CC]), (0x104F5, [0x104CD]),
     (0x104F6, [0x104CE]), (0x104F7, [0x104CF]), (0x104F8, [0x104D0]), (0x104F9, [0x104D1])]"

definition upper_table_21 :: "(pychar \<times> pystr) list" where
  "upper_table_21 =
    [(0x104FA, [0x104D2]), (0x104FB, [0x104D3]), (0x10597, [0x10570]), (0x10598, [0x10571]),
     (0x10599, [0x10572]), (0x1059A, [0x10573]), (0x1059B, [0x10574]), (0x1059C, [0x10575]),
     (0x1059D, [0x10576]), (0x1059E, [0x10577]), (0x1059F, [0x10578]), (0x105A0, [0x10579]),
     (0x105A1, [0x1057A]), (0x105A3, [0x1057C]), (0x105A4, [0x1057D]), (0x105A5, [0x1057E]),
     (0x105A6, [0x1057F]), (0x105A7, [0x10580]), (0x105A8, [0x10581]), (0x105A9, [0x10582]),
     (0x105AA, [0x10583]), (0x105AB, [0x10584]), (0x105AC, [0x10585]), (0x105AD, [0x10586]),
     (0x105AE, [0x10587]), (0x105AF, [0x10588]), (0x105B0, [0x10589]), (0x105B1, [0x1058A]),
     (0x105B3, [0x1058C]), (0x105B4, [0x1058D]), (0x105B5, [0x1058E]), (0x105B6, [0x1058F]),
     (0x105B7, [0x10590]), (0x105B8, [0x10591]), (0x105B9, [0x10592]), (0x105BB, [0x10594]),
     (0x105BC, [0x10595]), (0x10CC0, [0x10C80]), (0x10CC1, [0x10C81]), (0x10CC2, [0x10C82]),
     (0x10CC3, [0x10C83]), (0x10CC4, [0x10C84]), (0x10CC5, [0x10C85]), (0x10CC6, [0x10C86]),
     (0x10CC7, [0x10C87]), (0x10CC8, [0x10C88]), (0x10CC9, [0x10C89]), (0x10CCA, [0x10C8A]),
     (0x10CCB, [0x10C8B]), (0x10CCC, [0x10C8C]), (0x10CCD, [0x10C8D]), (0x10CCE, [0x10C8E]),
     (0x10CCF, [0x10C8F]), (0x10CD0, [0x10C90]), (0x10CD1, [0x10C91]), (0x10CD2, [0x10C92]),
     (0x10CD3, [0x10C93]), (0x10CD4, [0x10C94]), (0x10CD5, [0x10C95]), (0x10CD6, [0x10C96]),
     (0x10CD7, [0x10C97]), (0x10CD8, [0x10C98]), (0x10CD9, [0x10C99]), (0x10CDA, [0x10C9A])]"

definition upper_table_22 :: "(pychar \<times> pystr) list" where
  "upper_table_22 =
    [(0x10CDB, [0x10C9B]), (0x10CDC, [0x10C9C]), (0x10CDD, [0x10C9D]), (0x10CDE, [0x10C9E]),
     (0x10CDF, [0x10C9F]), (0x10CE0, [0x10CA0]), (0x10CE1, [0x10CA1]), (0x10CE2, [0x10CA2]),
     (0x10CE3, [0x10CA3]), (0x10CE4, [0x10CA4]), (0x10CE5, [0x10CA5]), (0x10CE6, [0x10CA6]),
     (0x10CE7, [0x10CA7]), (0x10CE8, [0x10CA8]), (0x10CE9, [0x10CA9]), (0x10CEA, [0x10CAA]),
     (0x10CEB, [0x10CAB]), (0x10CEC, [0x10CAC]), (0x10CED, [0x10CAD]), (0x10CEE, [0x10CAE]),
     (0x10CEF, [0x10CAF]), (0x10CF0, [0x10CB0]), (0x10CF1, [0x10CB1]), (0x10CF2, [0x10CB2]),
     (0x118C0, [0x118A0]), (0x118C1, [0x118A1]), (0x118C2, [0x118A2]), (0x118C3, [0x118A3]),
     (0x118C4, [0x118A4]), (0x118C5, [0x118A5]), (0x118C6, [0x118A6]), (0x118C7, [0x118A7]),
     (0x118C8, [0x118A8]), (0x118C9, [0x118A9]), (0x118CA, [0x118AA]), (0x118CB, [0x118AB]),
     (0x118CC, [0x118AC]), (0x118CD, [0x118AD]), (0x118CE, [0x118AE]), (0x118CF, [0x118AF]),
     (0x118D0, [0x118B0]), (0x118D1, [0x118B1]), (0x118D2, [0x118B2]), (0x118D3, [0x118B3]),
     (0x118D4, [0x118B4]), (0x118D5, [0x118B5]), (0x118D6, [0x118B6]), (0x118D7, [0x118B7]),
     (0x118D8, [0x118B8]), (0x118D9, [0x118B9]), (0x118DA, [0x118BA]), (0x118DB, [0x118BB]),
     (0x118DC, [0x118BC]), (0x118DD, [0x118BD]), (0x118DE, [0x118BE]), (0x118DF, [0x118BF]),
     (0x16E60, [0x16E40]), (0x16E61, [0x16E41]), (0x16E62, [0x16E42]), (0x16E63, [0x16E43]),
     (0x16E64, [0x16E44]), (0x16E65, [0x16E45]), (0x16E66, [0x16E46]), (0x16E67, [0x16E47])]"

definition upper_table_23 :: "(pychar \<times> pystr) list" where
  "upper_table_23 =
    [(0x16E68, [0x16E48]), (0x16E69, [0x16E49]), (0x16E6A, [0x16E4A]), (0x16E6B, [0x16E4B]),
     (0x16E6C, [0x16E4C]), (0x16E6D, [0x16E4D]), (0x16E6E, [0x16E4E]), (0x16E6F, [0x16E4F]),
     (0x16E70, [0x16E50]), (0x16E71, [0x16E51]), (0x16E72, [0x16E52]), (0x16E73, [0x16E53]),
     (0x16E74, [0x16E54]), (0x16E75, [0x16E55]), (0x16E76, [0x16E56]), (0x16E77, [0x16E57]),
     (0x16E78, [0x16E58]), (0x16E79, [0x16E59]), (0x16E7A, [0x16E5A]), (0x16E7B, [0x16E5B]),
     (0x16E7C, [0x16E5C]), (0x16E7D, [0x16E5D]), (0x16E7E, [0x16E5E]), (0x16E7F, [0x16E5F]),
     (0x1E922, [0x1E900]), (0x1E923, [0x1E901]), (0x1E924, [0x1E902]), (0x1E925, [0x1E903]),
     (0x1E926, [0x1E904]), (0x1E927, [0x1E905]), (0x1E928, [0x1E906]), (0x1E929, [0x1E907]),
     (0x1E92A, [0x1E908]), (0x1E92B, [0x1E909]), (0x1E92C, [0x1E90A]), (0x1E92D, [0x1E90B]),
     (0x1E92E, [0x1E90C]), (0x1E92F, [0x1E90D]), (0x1E930, [0x1E90E]), (0x1E931, [0x1E90F]),
     (0x1E932, [0x1E910]), (0x1E933, [0x1E911]), (0x1E934, [0x1E912]), (0x1E935, [0x1E913]),
     (0x1E936, [0x1E914]), (0x1E937, [0x1E915]), (0x1E938, [0x1E916]), (0x1E939, [0x1E917]),
     (0x1E93A, [0x1E918]), (0x1E93B, [0x1E919]), (0x1E93C, [0x1E91A]), (0x1E93D, [0x1E91B]),
     (0x1E93E, [0x1E91C]), (0x1E93F, [0x1E91D]), (0x1E940, [0x1E91E]), (0x1E941, [0x1E91F]),
     (0x1E942, [0x1E920]), (0x1E943, [0x1E921])]"

definition upper_table :: "(pychar \<times> pystr) list" where
  "upper_table = upper_table_1 @ upper_table_2 @ upper_table_3 @ upper_table_4 @ upper_table_5 @ upper_table_6 @ upper_table_7 @ upper_table_8 @ upper_table_9 @ upper_table_10 @ upper_table_11 @ upper_table_12 @ upper_table_13 @ upper_table_14 @ upper_table_15 @ upper_table_16 @ upper_table_17 @ upper_table_18 @ upper_table_19 @ upper_table_20 @ upper_table_21 @ upper_table_22 @ upper_table_23"

text \<open>The code points above U+00FF whose title-case form is not their upper-case form.\<close>

definition title_table_1 :: "(pychar \<times> pystr) list" where
  "title_table_1 =
    [(0x1C4, [0x1C5]), (0x1C5, [0x1C5]), (0x1C6, [0x1C5]), (0x1C7, [0x1C8]), (0x1C8, [0x1C8]),
     (0x1C9, [0x1C8]), (0x1CA, [0x1CB]), (0x1CB, [0x1CB]), (0x1CC, [0x1CB]), (0x1F1, [0x1F2]),
     (0x1F2, [0x1F2]), (0x1F3, [0x1F2]), (0x587, [0x535, 0x582]), (0x10D0, [0x10D0]),
     (0x10D1, [0x10D1]), (0x10D2, [0x10D2]), (0x10D3, [0x10D3]), (0x10D4, [0x10D4]),
     (0x10D5, [0x10D5]), (0x10D6, [0x10D6]), (0x10D7, [0x10D7]), (0x10D8, [0x10D8]),
     (0x10D9, [0x10D9]), (0x10DA, [0x10DA]), (0x10DB, [0x10DB]), (0x10DC, [0x10DC]),
     (0x10DD, [0x10DD]), (0x10DE, [0x10DE]), (0x10DF, [0x10DF]), (0x10E0, [0x10E0]),
     (0x10E1, [0x10E1]), (0x10E2, [0x10E2]), (0x10E3, [0x10E3]), (0x10E4, [0x10E4]),
     (0x10E5, [0x10E5]), (0x10E6, [0x10E6]), (0x10E7, [0x10E7]), (0x10E8, [0x10E8]),
     (0x10E9, [0x10E9]), (0x10EA, [0x10EA]), (0x10EB, [0x10EB]), (0x10EC, [0x10EC]),
     (0x10ED, [0x10ED]), (0x10EE, [0x10EE]), (0x10EF, [0x10EF]), (0x10F0, [0x10F0]),
     (0x10F1, [0x10F1]), (0x10F2, [0x10F2]), (0x10F3, [0x10F3]), (0x10F4, [0x10F4]),
     (0x10F5, [0x10F5]), (0x10F6, [0x10F6]), (0x10F7, [0x10F7]), (0x10F8, [0x10F8]),
     (0x10F9, [0x10F9]), (0x10FA, [0x10FA]), (0x10FD, [0x10FD]), (0x10FE, [0x10FE]),
     (0x10FF, [0x10FF]), (0x1F80, [0x1F88]), (0x1F81, [0x1F89]), (0x1F82, [0x1F8A]),
     (0x1F83, [0x1F8B]), (0x1F84, [0x1F8C])]"

definition title_table_2 :: "(pychar \<times> pystr) list" where
  "title_table_2 =
    [(0x1F85, [0x1F8D]), (0x1F86, [0x1F8E]), (0x1F87, [0x1F8F]), (0x1F88, [0x1F88]),
     (0x1F89, [0x1F89]), (0x1F8A, [0x1F8A]), (0x1F8B, [0x1F8B]), (0x1F8C, [0x1F8C]),
     (0x1F8D, [0x1F8D]), (0x1F8E, [0x1F8E]), (0x1F8F, [0x1F8F]), (0x1F90, [0x1F98]),
     (0x1F91, [0x1F99]), (0x1F92, [0x1F9A]), (0x1F93, [0x1F9B]), (0x1F94, [0x1F9C]),
     (0x1F95, [0x1F9D]), (0x1F96, [0x1F9E]), (0x1F97, [0x1F9F]), (0x1F98, [0x1F98]),
     (0x1F99, [0x1F99]), (0x1F9A, [0x1F9A]), (0x1F9B, [0x1F9B]), (0x1F9C, [0x1F9C]),
     (0x1F9D, [0x1F9D]), (0x1F9E, [0x1F9E]), (0x1F9F, [0x1F9F]), (0x1FA0, [0x1FA8]),
     (0x1FA1, [0x1FA9]), (0x1FA2, [0x1FAA]), (0x1FA3, [0x1FAB]), (0x1FA4, [0x1FAC]),
     (0x1FA5, [0x1FAD]), (0x1FA6, [0x1FAE]), (0x1FA7, [0x1FAF]), (0x1FA8, [0x1FA8]),
     (0x1FA9, [0x1FA9]), (0x1FAA, [0x1FAA]), (0x1FAB, [0x1FAB]), (0x1FAC, [0x1FAC]),
     (0x1FAD, [0x1FAD]), (0x1FAE, [0x1FAE]), (0x1FAF, [0x1FAF]), (0x1FB2, [0x1FBA, 0x345]),
     (0x1FB3, [0x1FBC]), (0x1FB4, [0x386, 0x345]), (0x1FB7, [0x391, 0x342, 0x345]),
     (0x1FBC, [0x1FBC]), (0x1FC2, [0x1FCA, 0x345]), (0x1FC3, [0x1FCC]), (0x1FC4, [0x389, 0x345]),
     (0x1FC7, [0x397, 0x342, 0x345]), (0x1FCC, [0x1FCC]), (0x1FF2, [0x1FFA, 0x345]),
     (0x1FF3, [0x1FFC]), (0x1FF4, [0x38F, 0x345]), (0x1FF7, [0x3A9, 0x342, 0x345]),
     (0x1FFC, [0x1FFC]), (0xFB00, [0x46, 0x66]), (0xFB01, [0x46, 0x69]), (0xFB02, [0x46, 0x6C]),
     (0xFB03, [0x46, 0x66, 0x69]), (0xFB04, [0x46, 0x66, 0x6C]), (0xFB05, [0x53, 0x74])]"

definition title_table_3 :: "(pychar \<times> pystr) list" where
  "title_table_3 =
    [(0xFB06, [0x53, 0x74]), (0xFB13, [0x544, 0x576]), (0xFB14, [0x544, 0x565]),
     (0xFB15, [0x544, 0x56B]), (0xFB16, [0x54E, 0x576]), (0xFB17, [0x544, 0x56D])]"

definition title_table :: "(pychar \<times> pystr) list" where
  "title_table = title_table_1 @ title_table_2 @ title_table_3"

text \<open>The cased code points above U+00FF.\<close>

definition cased_ranges_1 :: "(pychar \<times> pychar) list" where
  "cased_ranges_1 =
    [(0x100, 0x1BA), (0x1BC, 0x1BF), (0x1C4, 0x293), (0x295, 0x2B8), (0x2C0, 0x2C1),
     (0x2E0, 0x2E4), (0x345, 0x345), (0x370, 0x373), (0x376, 0x377), (0x37A, 0x37D),
     (0x37F, 0x37F), (0x386, 0x386), (0x388, 0x38A), (0x38C, 0x38C), (0x38E, 0x3A1),
     (0x3A3, 0x3F5), (0x3F7, 0x481), (0x48A, 0x52F), (0x531, 0x556), (0x560, 0x588),
     (0x10A0, 0x10C5), (0x10C7, 0x10C7), (0x10CD, 0x10CD), (0x10D0, 0x10FA), (0x10FD, 0x10FF),
     (0x13A0, 0x13F5), (0x13F8, 0x13FD), (0x1C80, 0x1C88), (0x1C90, 0x1CBA), (0x1CBD, 0x1CBF),
     (0x1D00, 0x1DBF), (0x1E00, 0x1F15), (0x1F18, 0x1F1D), (0x1F20, 0x1F45), (0x1F48, 0x1F4D),
     (0x1F50, 0x1F57), (0x1F59, 0x1F59), (0x1F5B, 0x1F5B), (0x1F5D, 0x1F5D), (0x1F5F, 0x1F7D),
     (0x1F80, 0x1FB4), (0x1FB6, 0x1FBC), (0x1FBE, 0x1FBE), (0x1FC2, 0x1FC4), (0x1FC6, 0x1FCC),
     (0x1FD0, 0x1FD3), (0x1FD6, 0x1FDB), (0x1FE0, 0x1FEC), (0x1FF2, 0x1FF4), (0x1FF6, 0x1FFC),
     (0x2071, 0x2071), (0x207F, 0x207F), (0x2090, 0x209C), (0x2102, 0x2102), (0x2107, 0x2107),
     (0x210A, 0x2113), (0x2115, 0x2115), (0x2119, 0x211D), (0x2124, 0x2124), (0x2126, 0x2126),
     (0x2128, 0x2128), (0x212A, 0x212D), (0x212F, 0x2134), (0x2139, 0x2139)]"

definition cased_ranges_2 :: "(pychar \<times> pychar) list" where
  "cased_ranges_2 =
    [(0x213C, 0x213F), (0x2145, 0x2149), (0x214E, 0x214E), (0x2160, 0x217F), (0x2183, 0x2184),
     (0x24B6, 0x24E9), (0x2C00, 0x2CE4), (0x2CEB, 0x2CEE), (0x2CF2, 0x2CF3), (0x2D00, 0x2D25),
     (0x2D27, 0x2D27), (0x2D2D, 0x2D2D), (0xA640, 0xA66D), (0xA680, 0xA69D), (0xA722, 0xA787),
     (0xA78B, 0xA78E), (0xA790, 0xA7CA), (0xA7D0, 0xA7D1), (0xA7D3, 0xA7D3), (0xA7D5, 0xA7D9),
     (0xA7F5, 0xA7F6), (0xA7F8, 0xA7FA), (0xAB30, 0xAB5A), (0xAB5C, 0xAB68), (0xAB70, 0xABBF),
     (0xFB00, 0xFB06), (0xFB13, 0xFB17), (0xFF21, 0xFF3A), (0xFF41, 0xFF5A), (0x10400, 0x1044F),
     (0x104B0, 0x104D3), (0x104D8, 0x104FB), (0x10570, 0x1057A), (0x1057C, 0x1058A),
     (0x1058C, 0x10592), (0x10594, 0x10595), (0x10597, 0x105A1), (0x105A3, 0x105B1),
     (0x105B3, 0x105B9), (0x105BB, 0x105BC), (0x10780, 0x10780), (0x10783, 0x10785),
     (0x10787, 0x107B0), (0x107B2, 0x107BA), (0x10C80, 0x10CB2), (0x10CC0, 0x10CF2),
     (0x118A0, 0x118DF), (0x16E40, 0x16E7F), (0x1D400, 0x1D454), (0x1D456, 0x1D49C),
     (0x1D49E, 0x1D49F), (0x1D4A2, 0x1D4A2), (0x1D4A5, 0x1D4A6), (0x1D4A9, 0x1D4AC),
     (0x1D4AE, 0x1D4B9), (0x1D4BB, 0x1D4BB), (0x1D4BD, 0x1D4C3), (0x1D4C5, 0x1D505),
     (0x1D507, 0x1D50A), (0x1D50D, 0x1D514), (0x1D516, 0x1D51C), (0x1D51E, 0x1D539),
     (0x1D53B, 0x1D53E), (0x1D540, 0x1D544)]"

definition cased_ranges_3 :: "(pychar \<times> pychar) list" where
  "cased_ranges_3 =
    [(0x1D546, 0x1D546), (0x1D54A, 0x1D550), (0x1D552, 0x1D6A5), (0x1D6A8, 0x1D6C0),
     (0x1D6C2, 0x1D6DA), (0x1D6DC, 0x1D6FA), (0x1D6FC, 0x1D714), (0x1D716, 0x1D734),
     (0x1D736, 0x1D74E), (0x1D750, 0x1D76E), (0x1D770, 0x1D788), (0x1D78A, 0x1D7A8),
     (0x1D7AA, 0x1D7C2), (0x1D7C4, 0x1D7CB), (0x1DF00, 0x1DF09), (0x1DF0B, 0x1DF1E),
     (0x1E900, 0x1E943), (0x1F130, 0x1F149), (0x1F150, 0x1F169), (0x1F170, 0x1F189)]"

definition cased_ranges :: "(pychar \<times> pychar) list" where
  "cased_ranges = cased_ranges_1 @ cased_ranges_2 @ cased_ranges_3"

text \<open>The case-ignorable code points above U+00FF.\<close>

definition case_ignorable_ranges_1 :: "(pychar \<times> pychar) list" where
  "case_ignorable_ranges_1 =
    [(0x2B0, 0x36F), (0x374, 0x375), (0x37A, 0x37A), (0x384, 0x385), (0x387, 0x387),
     (0x483, 0x489), (0x559, 0x559), (0x55F, 0x55F), (0x591, 0x5BD), (0x5BF, 0x5BF),
     (0x5C1, 0x5C2), (0x5C4, 0x5C5), (0x5C7, 0x5C7), (0x5F4, 0x5F4), (0x600, 0x605),
     (0x610, 0x61A), (0x61C, 0x61C), (0x640, 0x640), (0x64B, 0x65F), (0x670, 0x670),
     (0x6D6, 0x6DD), (0x6DF, 0x6E8), (0x6EA, 0x6ED), (0x70F, 0x70F), (0x711, 0x711),
     (0x730, 0x74A), (0x7A6, 0x7B0), (0x7EB, 0x7F5), (0x7FA, 0x7FA), (0x7FD, 0x7FD),
     (0x816, 0x82D), (0x859, 0x85B), (0x888, 0x888), (0x890, 0x891), (0x898, 0x89F),
     (0x8C9, 0x902), (0x93A, 0x93A), (0x93C, 0x93C), (0x941, 0x948), (0x94D, 0x94D),
     (0x951, 0x957), (0x962, 0x963), (0x971, 0x971), (0x981, 0x981), (0x9BC, 0x9BC),
     (0x9C1, 0x9C4), (0x9CD, 0x9CD), (0x9E2, 0x9E3), (0x9FE, 0x9FE), (0xA01, 0xA02),
     (0xA3C, 0xA3C), (0xA41, 0xA42), (0xA47, 0xA48), (0xA4B, 0xA4D), (0xA51, 0xA51),
     (0xA70, 0xA71), (0xA75, 0xA75), (0xA81, 0xA82), (0xABC, 0xABC), (0xAC1, 0xAC5),
     (0xAC7, 0xAC8), (0xACD, 0xACD), (0xAE2, 0xAE3), (0xAFA, 0xAFF)]"

definition case_ignorable_ranges_2 :: "(pychar \<times> pychar) list" where
  "case_ignorable_ranges_2 =
    [(0xB01, 0xB01), (0xB3C, 0xB3C), (0xB3F, 0xB3F), (0xB41, 0xB44), (0xB4D, 0xB4D),
     (0xB55, 0xB56), (0xB62, 0xB63), (0xB82, 0xB82), (0xBC0, 0xBC0), (0xBCD, 0xBCD),
     (0xC00, 0xC00), (0xC04, 0xC04), (0xC3C, 0xC3C), (0xC3E, 0xC40), (0xC46, 0xC48),
     (0xC4A, 0xC4D), (0xC55, 0xC56), (0xC62, 0xC63), (0xC81, 0xC81), (0xCBC, 0xCBC),
     (0xCBF, 0xCBF), (0xCC6, 0xCC6), (0xCCC, 0xCCD), (0xCE2, 0xCE3), (0xD00, 0xD01),
     (0xD3B, 0xD3C), (0xD41, 0xD44), (0xD4D, 0xD4D), (0xD62, 0xD63), (0xD81, 0xD81),
     (0xDCA, 0xDCA), (0xDD2, 0xDD4), (0xDD6, 0xDD6), (0xE31, 0xE31), (0xE34, 0xE3A),
     (0xE46, 0xE4E), (0xEB1, 0xEB1), (0xEB4, 0xEBC), (0xEC6, 0xEC6), (0xEC8, 0xECD),
     (0xF18, 0xF19), (0xF35, 0xF35), (0xF37, 0xF37), (0xF39, 0xF39), (0xF71, 0xF7E),
     (0xF80, 0xF84), (0xF86, 0xF87), (0xF8D, 0xF97), (0xF99, 0xFBC), (0xFC6, 0xFC6),
     (0x102D, 0x1030), (0x1032, 0x1037), (0x1039, 0x103A), (0x103D, 0x103E), (0x1058, 0x1059),
     (0x105E, 0x1060), (0x1071, 0x1074), (0x1082, 0x1082), (0x1085, 0x1086), (0x108D, 0x108D),
     (0x109D, 0x109D), (0x10FC, 0x10FC), (0x135D, 0x135F), (0x1712, 0x1714)]"

definition case_ignorable_ranges_3 :: "(pychar \<times> pychar) list" where
  "case_ignorable_ranges_3 =
    [(0x1732, 0x1733), (0x1752, 0x1753), (0x1772, 0x1773), (0x17B4, 0x17B5), (0x17B7, 0x17BD),
     (0x17C6, 0x17C6), (0x17C9, 0x17D3), (0x17D7, 0x17D7), (0x17DD, 0x17DD), (0x180B, 0x180F),
     (0x1843, 0x1843), (0x1885, 0x1886), (0x18A9, 0x18A9), (0x1920, 0x1922), (0x1927, 0x1928),
     (0x1932, 0x1932), (0x1939, 0x193B), (0x1A17, 0x1A18), (0x1A1B, 0x1A1B), (0x1A56, 0x1A56),
     (0x1A58, 0x1A5E), (0x1A60, 0x1A60), (0x1A62, 0x1A62), (0x1A65, 0x1A6C), (0x1A73, 0x1A7C),
     (0x1A7F, 0x1A7F), (0x1AA7, 0x1AA7), (0x1AB0, 0x1ACE), (0x1B00, 0x1B03), (0x1B34, 0x1B34),
     (0x1B36, 0x1B3A), (0x1B3C, 0x1B3C), (0x1B42, 0x1B42), (0x1B6B, 0x1B73), (0x1B80, 0x1B81),
     (0x1BA2, 0x1BA5), (0x1BA8, 0x1BA9), (0x1BAB, 0x1BAD), (0x1BE6, 0x1BE6), (0x1BE8, 0x1BE9),
     (0x1BED, 0x1BED), (0x1BEF, 0x1BF1), (0x1C2C, 0x1C33), (0x1C36, 0x1C37), (0x1C78, 0x1C7D),
     (0x1CD0, 0x1CD2), (0x1CD4, 0x1CE0), (0x1CE2, 0x1CE8), (0x1CED, 0x1CED), (0x1CF4, 0x1CF4),
     (0x1CF8, 0x1CF9), (0x1D2C, 0x1D6A), (0x1D78, 0x1D78), (0x1D9B, 0x1DFF), (0x1FBD, 0x1FBD),
     (0x1FBF, 0x1FC1), (0x1FCD, 0x1FCF), (0x1FDD, 0x1FDF), (0x1FED, 0x1FEF), (0x1FFD, 0x1FFE),
     (0x200B, 0x200F), (0x2018, 0x2019), (0x2024, 0x2024), (0x2027, 0x2027)]"

definition case_ignorable_ranges_4 :: "(pychar \<times> pychar) list" where
  "case_ignorable_ranges_4 =
    [(0x202A, 0x202E), (0x2060, 0x2064), (0x2066, 0x206F), (0x2071, 0x2071), (0x207F, 0x207F),
     (0x2090, 0x209C), (0x20D0, 0x20F0), (0x2C7C, 0x2C7D), (0x2CEF, 0x2CF1), (0x2D6F, 0x2D6F),
     (0x2D7F, 0x2D7F), (0x2DE0, 0x2DFF), (0x2E2F, 0x2E2F), (0x3005, 0x3005), (0x302A, 0x302D),
     (0x3031, 0x3035), (0x303B, 0x303B), (0x3099, 0x309E), (0x30FC, 0x30FE), (0xA015, 0xA015),
     (0xA4F8, 0xA4FD), (0xA60C, 0xA60C), (0xA66F, 0xA672), (0xA674, 0xA67D), (0xA67F, 0xA67F),
     (0xA69C, 0xA69F), (0xA6F0, 0xA6F1), (0xA700, 0xA721), (0xA770, 0xA770), (0xA788, 0xA78A),
     (0xA7F2, 0xA7F4), (0xA7F8, 0xA7F9), (0xA802, 0xA802), (0xA806, 0xA806), (0xA80B, 0xA80B),
     (0xA825, 0xA826), (0xA82C, 0xA82C), (0xA8C4, 0xA8C5), (0xA8E0, 0xA8F1), (0xA8FF, 0xA8FF),
     (0xA926, 0xA92D), (0xA947, 0xA951), (0xA980, 0xA982), (0xA9B3, 0xA9B3), (0xA9B6, 0xA9B9),
     (0xA9BC, 0xA9BD), (0xA9CF, 0xA9CF), (0xA9E5, 0xA9E6), (0xAA29, 0xAA2E), (0xAA31, 0xAA32),
     (0xAA35, 0xAA36), (0xAA43, 0xAA43), (0xAA4C, 0xAA4C), (0xAA70, 0xAA70), (0xAA7C, 0xAA7C),
     (0xAAB0, 0xAAB0), (0xAAB2, 0xAAB4), (0xAAB7, 0xAAB8), (0xAABE, 0xAABF), (0xAAC1, 0xAAC1),
     (0xAADD, 0xAADD), (0xAAEC, 0xAAED), (0xAAF3, 0xAAF4), (0xAAF6, 0xAAF6)]"

definition case_ignorable_ranges_5 :: "(pychar \<times> pychar) list" where
  "case_ignorable_ranges_5 =
    [(0xAB5B, 0xAB5F), (0xAB69, 0xAB6B), (0xABE5, 0xABE5), (0xABE8, 0xABE8), (0xABED, 0xABED),
     (0xFB1E, 0xFB1E), (0xFBB2, 0xFBC2), (0xFE00, 0xFE0F), (0xFE13, 0xFE13), (0xFE20, 0xFE2F),
     (0xFE52, 0xFE52), (0xFE55, 0xFE55), (0xFEFF, 0xFEFF), (0xFF07, 0xFF07), (0xFF0E, 0xFF0E),
     (0xFF1A, 0xFF1A), (0xFF3E, 0xFF3E), (0xFF40, 0xFF40), (0xFF70, 0xFF70), (0xFF9E, 0xFF9F),
     (0xFFE3, 0xFFE3), (0xFFF9, 0xFFFB), (0x101FD, 0x101FD), (0x102E0, 0x102E0),
     (0x10376, 0x1037A), (0x10780, 0x10785), (0x10787, 0x107B0), (0x107B2, 0x107BA),
     (0x10A01, 0x10A03), (0x10A05, 0x10A06), (0x10A0C, 0x10A0F), (0x10A38, 0x10A3A),
     (0x10A3F, 0x10A3F), (0x10AE5, 0x10AE6), (0x10D24, 0x10D27), (0x10EAB, 0x10EAC),
     (0x10F46, 0x10F50), (0x10F82, 0x10F85), (0x11001, 0x11001), (0x11038, 0x11046),
     (0x11070, 0x11070), (0x11073, 0x11074), (0x1107F, 0x11081), (0x110B3, 0x110B6),
     (0x110B9, 0x110BA), (0x110BD, 0x110BD), (0x110C2, 0x110C2), (0x110CD, 0x110CD),
     (0x11100, 0x11102), (0x11127, 0x1112B), (0x1112D, 0x11134), (0x11173, 0x11173),
     (0x11180, 0x11181), (0x111B6, 0x111BE), (0x111C9, 0x111CC), (0x111CF, 0x111CF),
     (0x1122F, 0x11231), (0x11234, 0x11234), (0x11236, 0x11237), (0x1123E, 0x1123E),
     (0x112DF, 0x112DF), (0x112E3, 0x112EA), (0x11300, 0x11301), (0x1133B, 0x1133C)]"

definition case_ignorable_ranges_6 :: "(pychar \<times> pychar) list" where
  "case_ignorable_ranges_6 =
    [(0x11340, 0x11340), (0x11366, 0x1136C), (0x11370, 0x11374), (0x11438, 0x1143F),
     (0x11442, 0x11444), (0x11446, 0x11446), (0x1145E, 0x1145E), (0x114B3, 0x114B8),
     (0x114BA, 0x114BA), (0x114BF, 0x114C0), (0x114C2, 0x114C3), (0x115B2, 0x115B5),
     (0x115BC, 0x115BD), (0x115BF, 0x115C0), (0x115DC, 0x115DD), (0x11633, 0x1163A),
     (0x1163D, 0x1163D), (0x1163F, 0x11640), (0x116AB, 0x116AB), (0x116AD, 0x116AD),
     (0x116B0, 0x116B5), (0x116B7, 0x116B7), (0x1171D, 0x1171F), (0x11722, 0x11725),
     (0x11727, 0x1172B), (0x1182F, 0x11837), (0x11839, 0x1183A), (0x1193B, 0x1193C),
     (0x1193E, 0x1193E), (0x11943, 0x11943), (0x119D4, 0x119D7), (0x119DA, 0x119DB),
     (0x119E0, 0x119E0), (0x11A01, 0x11A0A), (0x11A33, 0x11A38), (0x11A3B, 0x11A3E),
     (0x11A47, 0x11A47), (0x11A51, 0x11A56), (0x11A59, 0x11A5B), (0x11A8A, 0x11A96),
     (0x11A98, 0x11A99), (0x11C30, 0x11C36), (0x11C38, 0x11C3D), (0x11C3F, 0x11C3F),
     (0x11C92, 0x11CA7), (0x11CAA, 0x11CB0), (0x11CB2, 0x11CB3), (0x11CB5, 0x11CB6),
     (0x11D31, 0x11D36), (0x11D3A, 0x11D3A), (0x11D3C, 0x11D3D), (0x11D3F, 0x11D45),
     (0x11D47, 0x11D47), (0x11D90, 0x11D91), (0x11D95, 0x11D95), (0x11D97, 0x11D97),
     (0x11EF3, 0x11EF4), (0x13430, 0x13438), (0x16AF0, 0x16AF4), (0x16B30, 0x16B36),
     (0x16B40, 0x16B43), (0x16F4F, 0x16F4F), (0x16F8F, 0x16F9F), (0x16FE0, 0x16FE1)]"

definition case_ignorable_ranges_7 :: "(pychar \<times> pychar) list" where
  "case_ignorable_ranges_7 =
    [(0x16FE3, 0x16FE4), (0x1AFF0, 0x1AFF3), (0x1AFF5, 0x1AFFB), (0x1AFFD, 0x1AFFE),
     (0x1BC9D, 0x1BC9E), (0x1BCA0, 0x1BCA3), (0x1CF00, 0x1CF2D), (0x1CF30, 0x1CF46),
     (0x1D167, 0x1D169), (0x1D173, 0x1D182), (0x1D185, 0x1D18B), (0x1D1AA, 0x1D1AD),
     (0x1D242, 0x1D244), (0x1DA00, 0x1DA36), (0x1DA3B, 0x1DA6C), (0x1DA75, 0x1DA75),
     (0x1DA84, 0x1DA84), (0x1DA9B, 0x1DA9F), (0x1DAA1, 0x1DAAF), (0x1E000, 0x1E006),
     (0x1E008, 0x1E018), (0x1E01B, 0x1E021), (0x1E023, 0x1E024), (0x1E026, 0x1E02A),
     (0x1E130, 0x1E13D), (0x1E2AE, 0x1E2AE), (0x1E2EC, 0x1E2EF), (0x1E8D0, 0x1E8D6),
     (0x1E944, 0x1E94B), (0x1F3FB, 0x1F3FF), (0xE0001, 0xE0001), (0xE0020, 0xE007F),
     (0xE0100, 0xE01EF)]"

definition case_ignorable_ranges :: "(pychar \<times> pychar) list" where
  "case_ignorable_ranges = case_ignorable_ranges_1 @ case_ignorable_ranges_2 @ case_ignorable_ranges_3 @ case_ignorable_ranges_4 @ case_ignorable_ranges_5 @ case_ignorable_ranges_6 @ case_ignorable_ranges_7"

definition in_ranges :: "(pychar \<times> pychar) list \<Rightarrow> pychar \<Rightarrow> bool" where
  "in_ranges rs c = list_ex (\<lambda>(lo, hi). lo \<le> c \<and> c \<le> hi) rs"

definition is_cased :: "pychar \<Rightarrow> bool" where
  "is_cased c \<longleftrightarrow>
     (if c < 0x100
      then (0x41 \<le> c \<and> c \<le> 0x5A) \<or> (0x61 \<le> c \<and> c \<le> 0x7A) \<or> c = 0xAA \<or> c = 0xB5 \<or> c = 0xBA \<or>
           (0xC0 \<le> c \<and> c \<noteq> 0xD7 \<and> c \<noteq> 0xF7)
      else in_ranges cased_ranges c)"

definition is_case_ignorable :: "pychar \<Rightarrow> bool" where
  "is_case_ignorable c \<longleftrightarrow>
     (if c < 0x100
      then c \<in> set [0x27, 0x2E, 0x3A, 0x5E, 0x60, 0xA8, 0xAD, 0xAF, 0xB4, 0xB7, 0xB8]
      else in_ranges case_ignorable_ranges c)"

definition lower_char :: "pychar \<Rightarrow> pystr" where
  "lower_char c =
     (if c < 0x100
      then [if (0x41 \<le> c \<and> c \<le> 0x5A) \<or> (0xC0 \<le> c \<and> c \<le> 0xDE \<and> c \<noteq> 0xD7)
            then c + 0x20 else c]
      else case map_of lower_table c of Some l \<Rightarrow> l | None \<Rightarrow> [c])"

definition upper_char :: "pychar \<Rightarrow> pystr" where
  "upper_char c =
     (if c < 0x100
      then (if (0x61 \<le> c \<and> c \<le> 0x7A) \<or> (0xE0 \<le> c \<and> c \<le> 0xFE \<and> c \<noteq> 0xF7)
            then [c - 0x20]
            else if c = 0xDF then [0x53, 0x53]
            else if c = 0xB5 then [0x39C]
            else if c = 0xFF then [0x178]
            else [c])
      else case map_of upper_table c of Some u \<Rightarrow> u | None \<Rightarrow> [c])"

definition title_char :: "pychar \<Rightarrow> pystr" where
  "title_char c =
     (if c < 0x100
      then (if c = 0xDF then [0x53, 0x73] else upper_char c)
      else case map_of title_table c of Some t \<Rightarrow> t | None \<Rightarrow> upper_char c)"

text \<open>
  \<open>str.lower()\<close> maps every character to its lower-case form, except the capital sigma
  U+03A3, which becomes the final sigma U+03C2 when a cased character precedes it and
  none follows it, case-ignorable characters being skipped on both sides, and the small
  sigma U+03C3 otherwise. \<open>before\<close> holds the characters that precede, nearest first.
\<close>

definition handle_capital_sigma :: "pystr \<Rightarrow> pystr \<Rightarrow> pychar" where
  "handle_capital_sigma before after =
     (case dropWhile is_case_ignorable before of
        [] \<Rightarrow> 0x3C3
      | c # _ \<Rightarrow>
          if is_cased c
          then (case dropWhile is_case_ignorable after of
                  [] \<Rightarrow> 0x3C2
                | d # _ \<Rightarrow> if is_cased d then 0x3C3 else 0x3C2)
          else 0x3C3)"

definition lower_ucs4 :: "pystr \<Rightarrow> pychar \<Rightarrow> pystr \<Rightarrow> pystr" where
  "lower_ucs4 before c after =
     (if c = 0x3A3 then [handle_capital_sigma before after] else lower_char c)"

fun lower_loop :: "pystr \<Rightarrow> pystr \<Rightarrow> pystr" where
  "lower_loop before [] = []"
| "lower_loop before (c # cs) = lower_ucs4 before c cs @ lower_loop (c # before) cs"

definition str_lower :: "pystr \<Rightarrow> pystr" where
  "str_lower s = lower_loop [] s"

definition str_upper :: "pystr \<Rightarrow> pystr" where
  "str_upper s = concat (map upper_char s)"

text \<open>
  \<open>str.title()\<close>: a character that follows a cased character is lower-cased, as
  \<open>str.lower()\<close> does it, and any other character is title-cased.
\<close>

fun title_loop :: "bool \<Rightarrow> pystr \<Rightarrow> pystr \<Rightarrow> pystr" where
  "title_loop previous_is_cased before [] = []"
| "title_loop previous_is_cased before (c # cs) =
     (if previous_is_cased then lower_ucs4 before c cs else title_char c) @
     title_loop (is_cased c) (c # before) cs"

definition str_title :: "pystr \<Rightarrow> pystr" where
  "str_title s = title_loop False [] s"

definition isspace :: "pychar \<Rightarrow> bool" where
  "isspace c \<longleftrightarrow>
     (0x09 \<le> c \<and> c \<le> 0x0D) \<or> (0x1C \<le> c \<and> c \<le> 0x20) \<or> c = 0x85 \<or> c = 0xA0 \<or>
     c = 0x1680 \<or> (0x2000 \<le> c \<and> c \<le> 0x200A) \<or> c = 0x2028 \<or> c = 0x2029 \<or>
     c = 0x202F \<or> c = 0x205F \<or> c = 0x3000"

definition str_strip :: "pystr \<Rightarrow> pystr" where
  "str_strip s = rev (dropWhile isspace (rev (dropWhile isspace s)))"

text \<open>\<open>sep.join(xs)\<close>.\<close>

fun join :: "pystr \<Rightarrow> pystr list \<Rightarrow> pystr" where
  "join sep [] = []"
| "join sep [x] = x"
| "join sep (x # y # ys) = x @ sep @ join sep (y # ys)"

section \<open>Python dictionaries\<close>

text \<open>
  A \<open>dict\<close> keeps its keys in insertion order, and the fuzzy matcher iterates over the
  keys, so a dictionary is an association list with distinct keys: \<open>d[k] = v\<close> replaces
  the value of an existing key in place and appends a new key at the end.
\<close>

type_synonym ('k, 'v) dict = "('k \<times> 'v) list"

datatype py_error = KeyError string | IndexError | ValueError

definition dict_get :: "('k, 'v) dict \<Rightarrow> 'k \<Rightarrow> 'v option" where
  "dict_get d k = map_of d k"

fun dict_set :: "('k, 'v) dict \<Rightarrow> 'k \<Rightarrow> 'v \<Rightarrow> ('k, 'v) dict" where
  "dict_set [] k v = [(k, v)]"
| "dict_set ((k', v') # d) k v =
     (if k' = k then (k, v) # d else (k', v') # dict_set d k v)"

definition dict_keys :: "('k, 'v) dict \<Rightarrow> 'k list" where
  "dict_keys d = map fst d"

text \<open>A dictionary display \<open>{k1: v1, k2: v2, ...}\<close>: a repeated key keeps its last value.\<close>

definition dict_display :: "('k \<times> 'v) list \<Rightarrow> ('k, 'v) dict" where
  "dict_display kvs = foldl (\<lambda>d (k, v). dict_set d k v) [] kvs"

section \<open>\<open>difflib.get_close_matches\<close>\<close>

text \<open>
  The standard library's \<open>SequenceMatcher\<close>, as \<open>get_close_matches\<close> uses it: no junk
  predicate, \<open>autojunk\<close> on, sequence \<open>b\<close> the word and sequence \<open>a\<close> each candidate.
  Scores are the rational numbers \<open>2 * matches / length\<close>: the source computes them in
  floating point and compares them with the cutoffs \<open>0.6\<close> and \<open>0.5\<close>, and for strings
  shorter than \<open>2^24\<close> code points the rounded quotients compare with each other and with
  the rounded cutoffs as the exact quotients do with \<open>6/10\<close> and \<open>5/10\<close>.

  \<open>b2j b elt\<close> is \<open>b2j.get(elt, [])\<close> after \<open>__chain_b\<close>: the indices of \<open>elt\<close> in \<open>b\<close>,
  unless \<open>elt\<close> is popular (\<open>b\<close> has at least 200 elements and \<open>elt\<close> occurs more than
  \<open>len(b) // 100 + 1\<close> times).
\<close>

definition indices_of :: "pystr \<Rightarrow> pychar \<Rightarrow> nat list" where
  "indices_of b elt = filter (\<lambda>j. b ! j = elt) [0..<length b]"

definition bpopular :: "pystr \<Rightarrow> pychar \<Rightarrow> bool" where
  "bpopular b elt \<longleftrightarrow> length b \<ge> 200 \<and> length (indices_of b elt) > length b div 100 + 1"

definition b2j :: "pystr \<Rightarrow> pychar \<Rightarrow> nat list" where
  "b2j b elt = (if bpopular b elt then [] else indices_of b elt)"

text \<open>
  \<open>find_longest_match\<close>. \<open>j2len\<close> maps \<open>j\<close> to the length of the longest match ending
  with \<open>a[i-1]\<close> and \<open>b[j]\<close>; every stored length is positive, so the dictionary is a
  function with \<open>0\<close> for a missing key. \<open>prev_len\<close> is \<open>j2len.get(j-1, 0)\<close>, where the key
  \<open>-1\<close> is never present. \<open>match_row\<close> is the inner loop over \<open>b2j.get(a[i])\<close> with its
  \<open>continue\<close> and \<open>break\<close>, \<open>match_rows\<close> the outer loop over \<open>range(alo, ahi)\<close>;
  \<open>i-k+1\<close> and \<open>j-k+1\<close> are written \<open>i + 1 - k\<close> and \<open>j + 1 - k\<close> (\<open>k\<close> is at most
  \<open>i + 1\<close> and \<open>j + 1\<close>). \<open>extend_left\<close> and
  \<open>extend_right\<close> are the two \<open>while\<close> loops that extend the match by elements that are
  not junk; the two loops for junk elements never run, the junk set being empty.
\<close>

definition prev_len :: "(nat \<Rightarrow> nat) \<Rightarrow> nat \<Rightarrow> nat" where
  "prev_len j2len j = (if j = 0 then 0 else j2len (j - 1))"

fun match_row :: "nat \<Rightarrow> nat \<Rightarrow> nat \<Rightarrow> (nat \<Rightarrow> nat) \<Rightarrow> nat list \<Rightarrow>
    (nat \<Rightarrow> nat) \<times> nat \<times> nat \<times> nat \<Rightarrow> (nat \<Rightarrow> nat) \<times> nat \<times> nat \<times> nat" where
  "match_row i blo bhi j2len [] st = st"
| "match_row i blo bhi j2len (j # js) (newj2len, besti, bestj, bestsize) =
     (if j < blo then match_row i blo bhi j2len js (newj2len, besti, bestj, bestsize)
      else if j \<ge> bhi then (newj2len, besti, bestj, bestsize)
      else (let k = prev_len j2len j + 1
            in if k > bestsize
               then match_row i blo bhi j2len js (newj2len(j := k), i + 1 - k, j + 1 - k, k)
               else match_row i blo bhi j2len js (newj2len(j := k), besti, bestj, bestsize)))"

fun match_rows :: "pystr \<Rightarrow> pystr \<Rightarrow> nat \<Rightarrow> nat \<Rightarrow> nat list \<Rightarrow>
    (nat \<Rightarrow> nat) \<times> nat \<times> nat \<times> nat \<Rightarrow> nat \<times> nat \<times> nat" where
  "match_rows a b blo bhi [] (j2len, best) = best"
| "match_rows a b blo bhi (i # is) (j2len, best) =
     match_rows a b blo bhi is (match_row i blo bhi j2len (b2j b (a ! i)) (\<lambda>_. 0, best))"

function extend_left :: "pystr \<Rightarrow> pystr \<Rightarrow> nat \<Rightarrow> nat \<Rightarrow> nat \<times> nat \<times> nat \<Rightarrow> nat \<times> nat \<times> nat" where
  "extend_left a b alo blo (besti, bestj, bestsize) =
     (if besti > alo \<and> bestj > blo \<and> a ! (besti - 1) = b ! (bestj - 1)
      then extend_left a b alo blo (besti - 1, bestj - 1, bestsize + 1)
      else (besti, bestj, bestsize))"
  by pat_completeness auto
termination
  by (relation "measure (\<lambda>(a, b, alo, blo, besti, bestj, bestsize). besti)") auto

function extend_right :: "pystr \<Rightarrow> pystr \<Rightarrow> nat \<Rightarrow> nat \<Rightarrow> nat \<times> nat \<times> nat \<Rightarrow> nat \<times> nat \<times> nat" where
  "extend_right a b ahi bhi (besti, bestj, bestsize) =
     (if besti + bestsize < ahi \<and> bestj + bestsize < bhi \<and>
         a ! (besti + bestsize) = b ! (bestj + bestsize)
      then extend_right a b ahi bhi (besti, bestj, bestsize + 1)
      else (besti, bestj, bestsize))"
  by pat_completeness auto
termination
  by (relation "measure (\<lambda>(a, b, ahi, bhi, besti, bestj, bestsize). ahi - (besti + bestsize))") auto

definition find_longest_match :: "pystr \<Rightarrow> pystr \<Rightarrow> nat \<Rightarrow> nat \<Rightarrow> nat \<Rightarrow> nat \<Rightarrow> nat \<times> nat \<times> nat" where
  "find_longest_match a b alo ahi blo bhi =
     extend_right a b ahi bhi
       (extend_left a b alo blo
          (match_rows a b blo bhi [alo..<ahi] (\<lambda>_. 0, alo, blo, 0)))"


text \<open>
  The block found lies inside \<open>a[alo:ahi]\<close>; the loop of \<open>get_matching_blocks\<close> below
  terminates because of it.
\<close>

declare extend_left.simps [simp del] extend_right.simps [simp del]

lemma match_row_bounds:
  assumes "match_row i blo bhi j2len js (newj2len, besti, bestj, bestsize) = (nj', bi', bj', bs')"
    and "\<forall>j. j2len j \<le> i - alo" and "alo \<le> i"
    and "alo \<le> besti" and "besti + bestsize \<le> i + 1" and "\<forall>j. newj2len j \<le> i + 1 - alo"
  shows "alo \<le> bi' \<and> bi' + bs' \<le> i + 1 \<and> (\<forall>j. nj' j \<le> i + 1 - alo)"
  using assms
proof (induction js arbitrary: newj2len besti bestj bestsize)
  case Nil
  then show ?case by simp
next
  case (Cons j js)
  have k: "prev_len j2len j + 1 \<le> i + 1 - alo"
  proof -
    have "Suc i - alo = Suc (i - alo)" using Cons.prems(3) by simp
    then show ?thesis using Cons.prems(2) by (simp add: prev_len_def)
  qed
  show ?case
  proof (cases "j < blo")
    case True
    with Cons show ?thesis by simp
  next
    case False
    note nlt = this
    show ?thesis
    proof (cases "j \<ge> bhi")
      case True
      with nlt Cons.prems show ?thesis by simp
    next
      case False
      let ?k = "prev_len j2len j + 1"
      have upd: "\<forall>j'. (newj2len(j := ?k)) j' \<le> i + 1 - alo"
        using k Cons.prems(6) by simp
      show ?thesis
      proof (cases "?k > bestsize")
        case True
        have eq: "match_row i blo bhi j2len js (newj2len(j := ?k), i + 1 - ?k, j + 1 - ?k, ?k) = (nj', bi', bj', bs')"
          using Cons.prems(1) nlt False True by (simp add: Let_def)
        have "alo \<le> i + 1 - ?k" using k Cons.prems(3) by linarith
        moreover have "i + 1 - ?k + ?k \<le> i + 1" using k by linarith
        ultimately show ?thesis
          using Cons.IH[OF eq Cons.prems(2,3) _ _ upd] by blast
      next
        case nb: False
        have eq: "match_row i blo bhi j2len js (newj2len(j := ?k), besti, bestj, bestsize) = (nj', bi', bj', bs')"
          using Cons.prems(1) nlt False nb by (simp add: Let_def)
        show ?thesis
          using Cons.IH[OF eq Cons.prems(2,3,4,5) upd] by blast
      qed
    qed
  qed
qed

lemma match_rows_bounds:
  assumes "match_rows a b blo bhi [i0..<ahi] (j2len, besti, bestj, bestsize) = (bi', bj', bs')"
    and "\<forall>j. j2len j \<le> i0 - alo" and "alo \<le> i0" and "i0 \<le> ahi"
    and "alo \<le> besti" and "besti + bestsize \<le> i0"
  shows "alo \<le> bi' \<and> bi' + bs' \<le> ahi"
  using assms
proof (induction "ahi - i0" arbitrary: i0 j2len besti bestj bestsize)
  case 0
  then show ?case by simp
next
  case (Suc n)
  then have lt: "i0 < ahi" by linarith
  obtain nj bi bj bs where row:
    "match_row i0 blo bhi j2len (b2j b (a ! i0)) (\<lambda>_. 0, besti, bestj, bestsize) = (nj, bi, bj, bs)"
    by (metis prod_cases4)
  have inv: "alo \<le> bi \<and> bi + bs \<le> i0 + 1 \<and> (\<forall>j. nj j \<le> i0 + 1 - alo)"
    using match_row_bounds[OF row Suc.prems(2,3) Suc.prems(5)] Suc.prems(6) by simp
  have eq: "match_rows a b blo bhi [Suc i0..<ahi] (nj, bi, bj, bs) = (bi', bj', bs')"
    using Suc.prems(1) lt row by (simp add: upt_rec[of i0])
  have "n = ahi - Suc i0" using Suc.hyps(2) by simp
  from Suc.hyps(1)[OF this eq] inv Suc.prems(3) lt show ?case by simp
qed

lemma extend_left_bounds:
  "extend_left a b alo blo (besti, bestj, bestsize) = (bi', bj', bs') \<Longrightarrow>
   alo \<le> besti \<Longrightarrow> alo \<le> bi' \<and> bi' + bs' = besti + bestsize"
proof (induction a b alo blo "(besti, bestj, bestsize)" arbitrary: besti bestj bestsize rule: extend_left.induct)
  case (1 a b alo blo besti bestj bestsize)
  show ?case
  proof (cases "besti > alo \<and> bestj > blo \<and> a ! (besti - 1) = b ! (bestj - 1)")
    case True
    then have "extend_left a b alo blo (besti - 1, bestj - 1, bestsize + 1) = (bi', bj', bs')"
      using "1.prems"(1) by (simp add: extend_left.simps[of a b alo blo besti])
    moreover have "alo \<le> besti - 1" using True by linarith
    ultimately have "alo \<le> bi' \<and> bi' + bs' = besti - 1 + (bestsize + 1)"
      using "1.hyps"[OF True] by blast
    with True show ?thesis by simp
  next
    case False
    then show ?thesis using "1.prems" by (auto simp: extend_left.simps[of a b alo blo besti])
  qed
qed

lemma extend_right_bounds:
  "extend_right a b ahi bhi (besti, bestj, bestsize) = (bi', bj', bs') \<Longrightarrow>
   bi' = besti \<and> bestsize \<le> bs' \<and> (besti + bestsize \<le> ahi \<longrightarrow> bi' + bs' \<le> ahi) \<and> (bs' \<noteq> bestsize \<longrightarrow> bi' + bs' \<le> ahi)"
proof (induction a b ahi bhi "(besti, bestj, bestsize)" arbitrary: besti bestj bestsize rule: extend_right.induct)
  case (1 a b ahi bhi besti bestj bestsize)
  show ?case
  proof (cases "besti + bestsize < ahi \<and> bestj + bestsize < bhi \<and> a ! (besti + bestsize) = b ! (bestj + bestsize)")
    case True
    then have "extend_right a b ahi bhi (besti, bestj, bestsize + 1) = (bi', bj', bs')"
      using "1.prems"(1) by (simp add: extend_right.simps[of a b ahi bhi besti])
    from "1.hyps"[OF True this] True show ?thesis by auto
  next
    case False
    then show ?thesis using "1.prems" by (auto simp: extend_right.simps[of a b ahi bhi besti])
  qed
qed

lemma find_longest_match_bounds:
  assumes "find_longest_match a b alo ahi blo bhi = (i, j, k)" and "k \<noteq> 0"
  shows "alo \<le> i \<and> i + k \<le> ahi"
proof -
  obtain bi1 bj1 bs1 where r1: "match_rows a b blo bhi [alo..<ahi] (\<lambda>_. 0, alo, blo, 0) = (bi1, bj1, bs1)"
    by (metis prod_cases3)
  obtain bi2 bj2 bs2 where r2: "extend_left a b alo blo (bi1, bj1, bs1) = (bi2, bj2, bs2)"
    by (metis prod_cases3)
  have r3: "extend_right a b ahi bhi (bi2, bj2, bs2) = (i, j, k)"
    using assms(1) r1 r2 by (simp add: find_longest_match_def)
  show ?thesis
  proof (cases "alo \<le> ahi")
    case True
    have b1: "alo \<le> bi1 \<and> bi1 + bs1 \<le> ahi"
      using match_rows_bounds[where alo = alo, OF r1] True by simp
    have b2: "alo \<le> bi2 \<and> bi2 + bs2 = bi1 + bs1"
      using extend_left_bounds[OF r2] b1 by simp
    show ?thesis using extend_right_bounds[OF r3] b1 b2 by auto
  next
    case False
    then have "(bi1, bj1, bs1) = (alo, blo, 0)" using r1 by simp
    then have "(bi2, bj2, bs2) = (alo, blo, 0)"
      using r2 by (simp add: extend_left.simps[of a b alo blo alo])
    then show ?thesis using extend_right_bounds[OF r3] False assms(2) by auto
  qed
qed

text \<open>
  It also lies inside \<open>b[blo:bhi]\<close>, so every element that the loops read by index,
  in calls from \<open>get_matching_blocks\<close>, is an element of the two sequences.
\<close>

lemma match_row_bounds_b:
  assumes "match_row i blo bhi j2len js (newj2len, besti, bestj, bestsize) = (nj', bi', bj', bs')"
    and "\<forall>j. j2len j \<le> j + 1 - blo"
    and "blo \<le> bestj" and "bestj + bestsize \<le> bhi" and "\<forall>j. newj2len j \<le> j + 1 - blo"
  shows "blo \<le> bj' \<and> bj' + bs' \<le> bhi \<and> (\<forall>j. nj' j \<le> j + 1 - blo)"
  using assms
proof (induction js arbitrary: newj2len besti bestj bestsize)
  case Nil
  then show ?case by simp
next
  case (Cons j js)
  show ?case
  proof (cases "j < blo")
    case True
    with Cons show ?thesis by simp
  next
    case False
    note nlt = this
    show ?thesis
    proof (cases "j \<ge> bhi")
      case True
      with nlt Cons.prems show ?thesis by simp
    next
      case False
      let ?k = "prev_len j2len j + 1"
      have k: "?k \<le> j + 1 - blo"
      proof (cases "j = 0")
        case True
        then show ?thesis using nlt by (simp add: prev_len_def)
      next
        case jp: False
        have "j2len (j - 1) \<le> (j - 1) + 1 - blo" using Cons.prems(2) by blast
        then show ?thesis using jp nlt by (simp add: prev_len_def)
      qed
      have upd: "\<forall>j'. (newj2len(j := ?k)) j' \<le> j' + 1 - blo"
        using k Cons.prems(5) by simp
      show ?thesis
      proof (cases "?k > bestsize")
        case True
        have eq: "match_row i blo bhi j2len js (newj2len(j := ?k), i + 1 - ?k, j + 1 - ?k, ?k) = (nj', bi', bj', bs')"
          using Cons.prems(1) nlt False True by (simp add: Let_def)
        have "blo \<le> j + 1 - ?k" using k nlt by linarith
        moreover have "j + 1 - ?k + ?k \<le> bhi" using k False by linarith
        ultimately show ?thesis
          using Cons.IH[OF eq Cons.prems(2) _ _ upd] by blast
      next
        case nb: False
        have eq: "match_row i blo bhi j2len js (newj2len(j := ?k), besti, bestj, bestsize) = (nj', bi', bj', bs')"
          using Cons.prems(1) nlt False nb by (simp add: Let_def)
        show ?thesis
          using Cons.IH[OF eq Cons.prems(2,3,4) upd] by blast
      qed
    qed
  qed
qed

lemma match_rows_bounds_b:
  assumes "match_rows a b blo bhi rows (j2len, besti, bestj, bestsize) = (bi', bj', bs')"
    and "\<forall>j. j2len j \<le> j + 1 - blo"
    and "blo \<le> bestj" and "bestj + bestsize \<le> bhi"
  shows "blo \<le> bj' \<and> bj' + bs' \<le> bhi"
  using assms
proof (induction rows arbitrary: j2len besti bestj bestsize)
  case Nil
  then show ?case by simp
next
  case (Cons i rows)
  obtain nj bi bj bs where row:
    "match_row i blo bhi j2len (b2j b (a ! i)) (\<lambda>_. 0, besti, bestj, bestsize) = (nj, bi, bj, bs)"
    by (metis prod_cases4)
  have inv: "blo \<le> bj \<and> bj + bs \<le> bhi \<and> (\<forall>j. nj j \<le> j + 1 - blo)"
    using match_row_bounds_b[OF row Cons.prems(2,3,4)] by simp
  have eq: "match_rows a b blo bhi rows (nj, bi, bj, bs) = (bi', bj', bs')"
    using Cons.prems(1) row by simp
  from Cons.IH[OF eq] inv show ?case by blast
qed

lemma extend_left_bounds_b:
  "extend_left a b alo blo (besti, bestj, bestsize) = (bi', bj', bs') \<Longrightarrow>
   blo \<le> bestj \<Longrightarrow> blo \<le> bj' \<and> bj' + bs' = bestj + bestsize"
proof (induction a b alo blo "(besti, bestj, bestsize)" arbitrary: besti bestj bestsize rule: extend_left.induct)
  case (1 a b alo blo besti bestj bestsize)
  show ?case
  proof (cases "besti > alo \<and> bestj > blo \<and> a ! (besti - 1) = b ! (bestj - 1)")
    case True
    then have "extend_left a b alo blo (besti - 1, bestj - 1, bestsize + 1) = (bi', bj', bs')"
      using "1.prems"(1) by (simp add: extend_left.simps[of a b alo blo besti])
    moreover have "blo \<le> bestj - 1" using True by linarith
    ultimately have "blo \<le> bj' \<and> bj' + bs' = bestj - 1 + (bestsize + 1)"
      using "1.hyps"[OF True] by blast
    with True show ?thesis by simp
  next
    case False
    then show ?thesis using "1.prems" by (auto simp: extend_left.simps[of a b alo blo besti])
  qed
qed

lemma extend_right_bounds_b:
  "extend_right a b ahi bhi (besti, bestj, bestsize) = (bi', bj', bs') \<Longrightarrow>
   bj' = bestj \<and> (bestj + bestsize \<le> bhi \<longrightarrow> bj' + bs' \<le> bhi)"
proof (induction a b ahi bhi "(besti, bestj, bestsize)" arbitrary: besti bestj bestsize rule: extend_right.induct)
  case (1 a b ahi bhi besti bestj bestsize)
  show ?case
  proof (cases "besti + bestsize < ahi \<and> bestj + bestsize < bhi \<and> a ! (besti + bestsize) = b ! (bestj + bestsize)")
    case True
    then have "extend_right a b ahi bhi (besti, bestj, bestsize + 1) = (bi', bj', bs')"
      using "1.prems"(1) by (simp add: extend_right.simps[of a b ahi bhi besti])
    from "1.hyps"[OF True this] True show ?thesis by auto
  next
    case False
    then show ?thesis using "1.prems" by (auto simp: extend_right.simps[of a b ahi bhi besti])
  qed
qed

lemma find_longest_match_in_range:
  assumes "find_longest_match a b alo ahi blo bhi = (i, j, k)" and "alo \<le> ahi" and "blo \<le> bhi"
  shows "alo \<le> i \<and> i + k \<le> ahi \<and> blo \<le> j \<and> j + k \<le> bhi"
proof -
  obtain bi1 bj1 bs1 where r1: "match_rows a b blo bhi [alo..<ahi] (\<lambda>_. 0, alo, blo, 0) = (bi1, bj1, bs1)"
    by (metis prod_cases3)
  obtain bi2 bj2 bs2 where r2: "extend_left a b alo blo (bi1, bj1, bs1) = (bi2, bj2, bs2)"
    by (metis prod_cases3)
  have r3: "extend_right a b ahi bhi (bi2, bj2, bs2) = (i, j, k)"
    using assms(1) r1 r2 by (simp add: find_longest_match_def)
  have a1: "alo \<le> bi1 \<and> bi1 + bs1 \<le> ahi"
    using match_rows_bounds[where alo = alo, OF r1] assms(2) by simp
  have a2: "alo \<le> bi2 \<and> bi2 + bs2 = bi1 + bs1"
    using extend_left_bounds[OF r2] a1 by simp
  have b1: "blo \<le> bj1 \<and> bj1 + bs1 \<le> bhi"
    using match_rows_bounds_b[OF r1] assms(3) by simp
  have b2: "blo \<le> bj2 \<and> bj2 + bs2 = bj1 + bs1"
    using extend_left_bounds_b[OF r2] b1 by simp
  show ?thesis
    using extend_right_bounds[OF r3] extend_right_bounds_b[OF r3] a1 a2 b1 b2 by auto
qed

text \<open>
  The \<open>while queue\<close> loop of \<open>get_matching_blocks\<close>: \<open>queue.pop()\<close> takes the entry
  appended last, so the queue is a list with its last entry first. The source then sorts
  the blocks, merges adjacent ones and appends a block of size \<open>0\<close>; \<open>ratio\<close> only sums
  the sizes, which none of that changes.
\<close>

function matching_blocks_loop :: "pystr \<Rightarrow> pystr \<Rightarrow> (nat \<times> nat \<times> nat \<times> nat) list \<Rightarrow>
    (nat \<times> nat \<times> nat) list \<Rightarrow> (nat \<times> nat \<times> nat) list" where
  "matching_blocks_loop a b [] matching_blocks = matching_blocks"
| "matching_blocks_loop a b ((alo, ahi, blo, bhi) # queue) matching_blocks =
     (case find_longest_match a b alo ahi blo bhi of
        (i, j, k) \<Rightarrow>
          if k \<noteq> 0
          then matching_blocks_loop a b
                 ((if i + k < ahi \<and> j + k < bhi then [(i + k, ahi, j + k, bhi)] else []) @
                  (if alo < i \<and> blo < j then [(alo, i, blo, j)] else []) @ queue)
                 (matching_blocks @ [(i, j, k)])
          else matching_blocks_loop a b queue matching_blocks)"
  by pat_completeness auto
termination
proof (relation "measure (\<lambda>(a, b, queue, blocks). sum_list (map (\<lambda>(alo, ahi, blo, bhi). 2 * (ahi - alo) + 1) queue))", goal_cases)
  case 1
  then show ?case by simp
next
  case (2 a b alo ahi blo bhi queue matching_blocks i y j k)
  then have flm: "find_longest_match a b alo ahi blo bhi = (i, j, k)" by simp
  have kz: "0 < k" using 2 by simp
  then have "alo \<le> i \<and> i + k \<le> ahi" using find_longest_match_bounds[OF flm] by simp
  with kz show ?case by auto
next
  case 3
  then show ?case by simp
qed

definition get_matching_blocks :: "pystr \<Rightarrow> pystr \<Rightarrow> (nat \<times> nat \<times> nat) list" where
  "get_matching_blocks a b = matching_blocks_loop a b [(0, length a, 0, length b)] []"

definition calculate_ratio :: "nat \<Rightarrow> nat \<Rightarrow> rat" where
  "calculate_ratio matches len = (if len \<noteq> 0 then 2 * of_nat matches / of_nat len else 1)"

definition ratio :: "pystr \<Rightarrow> pystr \<Rightarrow> rat" where
  "ratio a b = calculate_ratio (sum_list (map (\<lambda>(i, j, k). k) (get_matching_blocks a b))) (length a + length b)"

text \<open>
  \<open>quick_ratio\<close> counts, for each element of \<open>a\<close> in turn, whether \<open>b\<close> still has an
  unused occurrence of it (\<open>avail\<close>, initialised on demand from \<open>fullbcount\<close>).
\<close>

fun quick_ratio_loop :: "pystr \<Rightarrow> pystr \<Rightarrow> (pychar \<rightharpoonup> int) \<Rightarrow> nat \<Rightarrow> nat" where
  "quick_ratio_loop b [] avail matches = matches"
| "quick_ratio_loop b (elt # as) avail matches =
     (let numb = (case avail elt of Some n \<Rightarrow> n | None \<Rightarrow> int (count_list b elt))
      in quick_ratio_loop b as (avail(elt \<mapsto> numb - 1)) (if numb > 0 then matches + 1 else matches))"

definition quick_ratio :: "pystr \<Rightarrow> pystr \<Rightarrow> rat" where
  "quick_ratio a b = calculate_ratio (quick_ratio_loop b a Map.empty 0) (length a + length b)"

definition real_quick_ratio :: "pystr \<Rightarrow> pystr \<Rightarrow> rat" where
  "real_quick_ratio a b = calculate_ratio (min (length a) (length b)) (length a + length b)"

text \<open>
  \<open>heapq.nlargest(n, result)\<close> on the pairs \<open>(score, x)\<close>: the \<open>n\<close> greatest pairs, greatest
  first, pairs compared by score and then by string.
\<close>

definition nlargest :: "nat \<Rightarrow> (rat \<times> pystr) list \<Rightarrow> (rat \<times> pystr) list" where
  "nlargest n xs = take n (rev (sort xs))"

text \<open>
  \<open>get_close_matches\<close>: \<open>scored_matches\<close> is the list \<open>result\<close> after the loop over the
  possibilities, the pairs \<open>(s.ratio(), x)\<close> of those that reach the cutoff in all three
  tests.
\<close>

definition scored_matches :: "pystr \<Rightarrow> rat \<Rightarrow> pystr list \<Rightarrow> (rat \<times> pystr) list" where
  "scored_matches word cutoff possibilities =
     map (\<lambda>x. (ratio x word, x))
       (filter (\<lambda>x. real_quick_ratio x word \<ge> cutoff \<and> quick_ratio x word \<ge> cutoff \<and>
                     ratio x word \<ge> cutoff) possibilities)"

definition get_close_matches :: "pystr \<Rightarrow> pystr list \<Rightarrow> int \<Rightarrow> rat \<Rightarrow> py_error + pystr list" where
  "get_close_matches word possibilities n cutoff =
     (if \<not> n > 0 then Inl ValueError
      else if \<not> (0 \<le> cutoff \<and> cutoff \<le> 1) then Inl ValueError
      else Inr (map snd (nlargest (nat n) (scored_matches word cutoff possibilities))))"

section \<open>The dataset\<close>

text \<open>
  One entry of \<open>data['brands']\<close> in \<open>data/brands.json\<close>. A key that may be missing
  is an \<open>option\<close>. \<open>b_id\<close> and the elements of \<open>b_codes\<close> hold \<open>str(brand['id'])\<close> and
  \<open>str(code)\<close>: the source converts both with \<open>str\<close> wherever it reads them.
\<close>

record details =
  d_description :: "pystr option"
  d_notes :: "pystr option"

record brand =
  b_id :: "pystr option"
  b_name :: "pystr option"
  b_codes :: "pystr list option"
  b_region :: "pystr option"
  b_style :: "pystr option"
  b_details :: "details option"

section \<open>The cog's state and its construction\<close>

record brand_info =
  bi_name :: pystr
  bi_details :: details
  bi_region :: pystr
  bi_style :: pystr

record cog_state =
  brands :: "(pystr, brand_info) dict"
  distillery_codes :: "(pystr, pystr set) dict"
  name_variants :: "(pystr, pystr) dict"

text \<open>\<open>brand.get('details', {})\<close>, \<open>brand.get('region', '')\<close>, \<open>brand.get('style', '')\<close>\<close>

definition get_details :: "brand \<Rightarrow> details" where
  "get_details b =
     (case b_details b of None \<Rightarrow> \<lparr>d_description = None, d_notes = None\<rparr> | Some d \<Rightarrow> d)"

definition get_text :: "pystr option \<Rightarrow> pystr" where
  "get_text v = (case v of None \<Rightarrow> [] | Some s \<Rightarrow> s)"

text \<open>The loop \<open>for code in brand['codes']\<close> of \<open>load_brands\<close>.\<close>

fun store_codes :: "brand \<Rightarrow> brand_info \<Rightarrow> pystr list \<Rightarrow> (pystr, brand_info) dict \<Rightarrow>
    (pystr, brand_info) dict" where
  "store_codes b info [] brs = brs"
| "store_codes b info (code # codes) brs =
     (let brs1 = dict_set brs code info;
          brs2 = (if b_id b = Some code
                  then dict_set brs1 code (info\<lparr>bi_details := get_details b\<rparr>)
                  else brs1)
      in store_codes b info codes brs2)"

text \<open>
  \<open>self.distillery_codes[distillery_name].add(str(brand['id']))\<close>, after the key has been
  given an empty set when it was new. The subscription is evaluated before the argument.
\<close>

definition add_id :: "(pystr, pystr set) dict \<Rightarrow> pystr \<Rightarrow> pystr option \<Rightarrow>
    py_error + (pystr, pystr set) dict" where
  "add_id dc distillery_name ident =
     (case dict_get dc distillery_name of
        None \<Rightarrow> Inl (KeyError ''distillery_name'')
      | Some s \<Rightarrow>
          (case ident of
             None \<Rightarrow> Inl (KeyError ''id'')
           | Some i \<Rightarrow> Inr (dict_set dc distillery_name (insert i s))))"

text \<open>
  \<open>load_brands\<close>, on the parsed \<open>data['brands']\<close>. The handler logs the exception and
  raises it again, so an exception in the loop is the result of the call.
\<close>

fun load_brands_loop :: "brand list \<Rightarrow> cog_state \<Rightarrow> py_error + cog_state" where
  "load_brands_loop [] st = Inr st"
| "load_brands_loop (b # rest) st =
     (case b_name b of
        None \<Rightarrow> Inl (KeyError ''name'')
      | Some name \<Rightarrow>
          (let brand_info = \<lparr>bi_name = name, bi_details = get_details b,
                             bi_region = get_text (b_region b), bi_style = get_text (b_style b)\<rparr>
           in case b_codes b of
                None \<Rightarrow> Inl (KeyError ''codes'')
              | Some codes \<Rightarrow>
                  (let brs = store_codes b brand_info codes (brands st);
                       distillery_name = str_lower name;
                       dc = (if distillery_name \<notin> set (dict_keys (distillery_codes st))
                             then dict_set (distillery_codes st) distillery_name {}
                             else distillery_codes st)
                   in case add_id dc distillery_name (b_id b) of
                        Inl err \<Rightarrow> Inl err
                      | Inr dc' \<Rightarrow>
                          load_brands_loop rest (st\<lparr>brands := brs, distillery_codes := dc'\<rparr>))))"

definition load_brands :: "brand list \<Rightarrow> cog_state \<Rightarrow> py_error + cog_state" where
  "load_brands data st = load_brands_loop data st"

text \<open>
  The dictionary display \<open>variants\<close> of \<open>initialize_name_variants\<close>: \<open>variants_display\<close>
  is its text, entry by entry (one key occurs twice), and \<open>variants\<close> the dictionary it
  denotes.
\<close>

definition variants_display :: "(pystr \<times> pystr list) list" where
  "variants_display =
     [
      (py ''inverleven'',
        [py ''leven'', py ''inver'']),
      (py ''old pulteney'',
        [py ''pulteney'', py ''pult'']),
      (py ''glasgow distillery'',
        [py ''glasgow distillery company'', py ''glasgow'']),
      (py ''few spirits'',
        [py ''few'']),
      (py ''isle of harris distillery'',
        [py ''hearach'']),
      (py ''nc'nean distillery'',
        [py ''nc'nean'']),
      (py ''st. george'' @ [0xE2, 0x20AC, 0x2122] @ py ''s (the english whisky co.)'',
        [py ''st. george'' @ [0xE2, 0x20AC, 0x2122] @ py ''s'', py ''the english whisky co.'', py ''the english whisky company'']),
      (py ''springbank (hazelburn)'',
        [py ''hazelburn'']),
      (py ''isle of arran'',
        [py ''arran'']),
      (py ''braeval (braes of glenlivet)'',
        [py ''braeval'', py ''braes of glenlivet'']),
      (py ''miltonduff (mosstowie)'',
        [py ''miltonduff'', py ''mosstowie'']),
      (py ''glenburgie (glencraig)'',
        [py ''glenburgie'', py ''glencraig'']),
      (py ''glenury / glenury royal'',
        [py ''glenury'', py ''glenury royal'']),
      (py ''tobermory'',
        [py ''ledaig'']),
      (py ''bruichladdich'',
        [py ''port charlotte'', py ''octomore'', py ''laddie'']),
      (py ''laphroaig'',
        [py ''frog'']),
      (py ''royal brackla'',
        [py ''brackla'']),
      (py ''royal lochnagar'',
        [py ''lochnagar'']),
      (py ''springbank (longrow)'',
        [py ''longrow'']),
      (py ''knockdhu (ancnoc)'',
        [py ''knockdhu'', py ''ancnoc'']),
      (py ''cooley (unpeated)'',
        [py ''cooley'']),
      (py ''cooley / connemara (peated)'',
        [py ''connemara'']),
      (py ''breuckelen distilling'',
        [py ''breuckelen'']),
      (py ''copperworks distilling Co.'',
        [py ''copperworks'']),
      (py ''high coast distillery'',
        [py ''high coast'']),
      (py ''sm'' @ [0xC3, 0xB6] @ py ''gen whisky ab'',
        [py ''smogen'']),
      (py ''west cork distillers'',
        [py ''west cork'']),
      (py ''mosgaard whisky'',
        [py ''mosgaard'']),
      (py ''milk & honey distillery'',
        [py ''milk & honey'', py ''milk and honey'']),
      (py ''distillerie de warenghem'',
        [py ''warenghem'', py ''armorik'']),
      (py ''mars shinshu'',
        [py ''shinshu'']),
      (py ''mars tsunuki:'',
        [py ''tsunuki'']),
      (py ''nc'nean distillery'',
        [py ''nc'nean'']),
      (py ''woodinville whiskey co.'',
        [py ''woodinville'']),
      (py ''finger lakes distilling'',
        [py ''finger lakes'']),
      (py ''new york distilling co.'',
        [py ''new york distilling'', py ''perry's tot'', py ''new york'']),
      (py ''peerless distillery'',
        [py ''peerless'']),
      (py ''kyr'' @ [0xC3, 0xB6] @ py '' distillery'',
        [py ''kyro'']),
      (py ''journeyman distillery'',
        [py ''journeyman'']),
      (py ''heaven hill distillery'',
        [py ''heaven hill'']),
      (py ''demerara distillers (el dorado)'',
        [py ''demerara'', py ''el dorado'']),
      (py ''trinidad distillers (angostura)'',
        [py ''trinidad'', py ''angostura'']),
      (py ''compa'' @ [0xC3, 0xB1] @ py ''ia licorera de nicaragua (flor de ca'' @ [0xC3, 0xB1] @ py ''a)'',
        [py ''flor de ca'' @ [0xC3, 0xB1] @ py ''a'']),
      (py ''varela hermanos (ron abuelo)'',
        [py ''ron abuelo'']),
      (py ''j. goudoulin (veuve goudoulin)'',
        [py ''goudoulin'']),
      (py ''the borders distillery'',
        [py ''borders'', py ''the borders'']),
      (py ''holyrood distillery'',
        [py ''holyrood'']),
      (py ''Isle of Raasay Distillery'',
        [py ''Raasay''])
     ]"

definition variants :: "(pystr, pystr list) dict" where
  "variants = dict_display variants_display"

text \<open>
  The two loops of \<open>initialize_name_variants\<close>: every variant, lower-cased, and then the
  main name, lower-cased, become keys of \<open>name_variants\<close> with the main name as value.
\<close>

fun add_variants :: "pystr \<Rightarrow> pystr list \<Rightarrow> (pystr, pystr) dict \<Rightarrow> (pystr, pystr) dict" where
  "add_variants main_name [] nv = nv"
| "add_variants main_name (variant # variant_list) nv =
     add_variants main_name variant_list (dict_set nv (str_lower variant) main_name)"

fun add_all_variants :: "(pystr \<times> pystr list) list \<Rightarrow> (pystr, pystr) dict \<Rightarrow> (pystr, pystr) dict" where
  "add_all_variants [] nv = nv"
| "add_all_variants ((main_name, variant_list) # items) nv =
     add_all_variants items
       (dict_set (add_variants main_name variant_list nv) (str_lower main_name) main_name)"

definition initialize_name_variants :: "cog_state \<Rightarrow> cog_state" where
  "initialize_name_variants st = st\<lparr>name_variants := add_all_variants variants (name_variants st)\<rparr>"

text \<open>
  \<open>BrandCommands.__init__\<close>: empty dictionaries, \<open>load_brands\<close>, then the name variants.
  An exception of \<open>load_brands\<close> is logged and raised again: no cog is constructed.
\<close>

definition init :: "brand list \<Rightarrow> py_error + cog_state" where
  "init data =
     (case load_brands data \<lparr>brands = [], distillery_codes = [], name_variants = []\<rparr> of
        Inl err \<Rightarrow> Inl err
      | Inr st \<Rightarrow> Inr (initialize_name_variants (st\<lparr>name_variants := []\<rparr>)))"

text \<open>An entry that \<open>load_brands\<close> can read: it has a name, a list of codes and an id.\<close>

definition valid_entry :: "brand \<Rightarrow> bool" where
  "valid_entry b \<longleftrightarrow> b_name b \<noteq> None \<and> b_codes b \<noteq> None \<and> b_id b \<noteq> None"

text \<open>The keys that \<open>initialize_name_variants\<close> registers for a list of entries.\<close>

definition variant_keys :: "(pystr \<times> pystr list) list \<Rightarrow> pystr list" where
  "variant_keys items = concat (map (\<lambda>(main_name, variant_list). map str_lower (variant_list @ [main_name])) items)"

section \<open>Name resolution\<close>

text \<open>
  \<open>find_distillery\<close>. The result \<open>(None, None)\<close> is \<open>None\<close>; the list made of a set of
  codes, whose order Python leaves open, is the set. \<open>k in d\<close> followed by \<open>d[k]\<close> is one
  \<open>dict_get\<close>; the subscription \<open>self.distillery_codes[closest_match]\<close> of the last stage
  stands alone.
\<close>

definition find_distillery :: "cog_state \<Rightarrow> pystr \<Rightarrow> py_error + (pystr \<times> pystr set) option" where
  "find_distillery st name =
     (let name_lower = str_lower name;
          by_variant =
            (case dict_get (name_variants st) name_lower of
               None \<Rightarrow> None
             | Some standardized_name \<Rightarrow>
                 (case dict_get (distillery_codes st) (str_lower standardized_name) of
                    None \<Rightarrow> None
                  | Some codes \<Rightarrow> Some (str_lower standardized_name, codes)))
      in case by_variant of
           Some found \<Rightarrow> Inr (Some found)
         | None \<Rightarrow>
             (case dict_get (distillery_codes st) name_lower of
                Some codes \<Rightarrow> Inr (Some (name_lower, codes))
              | None \<Rightarrow>
                  (case get_close_matches name_lower (dict_keys (distillery_codes st)) 1 (6 / 10) of
                     Inl err \<Rightarrow> Inl err
                   | Inr [] \<Rightarrow> Inr None
                   | Inr (closest_match # _) \<Rightarrow>
                       (case dict_get (distillery_codes st) closest_match of
                          None \<Rightarrow> Inl (KeyError ''closest_match'')
                        | Some codes \<Rightarrow> Inr (Some (closest_match, codes))))))"

text \<open>
  The first stage of \<open>find_distillery\<close> gives no result: the lower-cased name is no key
  of \<open>name_variants\<close>, or the name it stands for is no key of \<open>distillery_codes\<close>.
\<close>

definition alias_misses :: "cog_state \<Rightarrow> pystr \<Rightarrow> bool" where
  "alias_misses st name \<longleftrightarrow>
     (case dict_get (name_variants st) (str_lower name) of
        None \<Rightarrow> True
      | Some canonical \<Rightarrow> dict_get (distillery_codes st) (str_lower canonical) = None)"

section \<open>The \<open>/smws\<close> command: lookup by code\<close>

text \<open>
  What \<open>discord.Embed\<close> holds of the reply: the title, the description and the fields
  added with \<open>add_field\<close>, in order. \<open>embed_len\<close> is \<open>len(embed)\<close> of discord.py: the
  lengths of the title, the description and every field name and value (the embeds
  built here have no footer and no author).
\<close>

record embed_field =
  f_name :: pystr
  f_value :: pystr
  f_inline :: bool

record embed =
  e_title :: pystr
  e_description :: pystr
  e_fields :: "embed_field list"

definition embed_len :: "embed \<Rightarrow> nat" where
  "embed_len e =
     length (e_title e) + length (e_description e) +
     sum_list (map (\<lambda>f. length (f_name f) + length (f_value f)) (e_fields e))"

text \<open>What a command sends back: \<open>followup.send(embed=...)\<close> or an ephemeral text.\<close>

datatype response = SendEmbed embed | SendEphemeral pystr

text \<open>
  \<open>next((brand for brand in data['brands'] if str(brand['id']).upper() == lookup_code), None)\<close>:
  the first entry whose upper-cased id is the lookup code. \<open>brand['id']\<close> raises
  \<open>KeyError\<close> at an entry without an id that is reached before a match.
\<close>

fun find_brand_by_id :: "brand list \<Rightarrow> pystr \<Rightarrow> py_error + brand option" where
  "find_brand_by_id [] lookup_code = Inr None"
| "find_brand_by_id (b # bs) lookup_code =
     (case b_id b of
        None \<Rightarrow> Inl (KeyError ''id'')
      | Some i \<Rightarrow> if str_upper i = lookup_code then Inr (Some b)
                  else find_brand_by_id bs lookup_code)"

text \<open>
  \<open>if len(description) > 1024: description = description[:1021] + "..."\<close>, which the
  source writes once for the description and once for the notes.
\<close>

definition truncate_text :: "pystr \<Rightarrow> pystr" where
  "truncate_text s = (if length s > 1024 then take 1021 s @ py ''...'' else s)"

text \<open>\<open>[str(c) for c in brand['codes'] if str(c).upper() != lookup_code]\<close>\<close>

definition other_codes :: "pystr list \<Rightarrow> pystr \<Rightarrow> pystr list" where
  "other_codes codes lookup_code = filter (\<lambda>c. str_upper c \<noteq> lookup_code) codes"

text \<open>
  The embed of lines 206 to 250. A field is added only when its key is present and its
  value is truthy (a non-empty string, a non-empty list of other codes).
\<close>

definition text_field :: "string \<Rightarrow> bool \<Rightarrow> pystr option \<Rightarrow> (pystr \<Rightarrow> pystr) \<Rightarrow> embed_field list" where
  "text_field nm inl v f =
     (case v of
        None \<Rightarrow> []
      | Some s \<Rightarrow> if s = [] then []
                  else [\<lparr>f_name = py nm, f_value = f s, f_inline = inl\<rparr>])"

definition details_fields :: "details option \<Rightarrow> embed_field list" where
  "details_fields dt =
     (case dt of
        None \<Rightarrow> []
      | Some d \<Rightarrow>
          text_field ''Description'' False (d_description d) truncate_text @
          text_field ''Notes'' False (d_notes d) truncate_text)"

definition codes_field :: "pystr list option \<Rightarrow> pystr \<Rightarrow> embed_field list" where
  "codes_field cs lookup_code =
     (case cs of
        None \<Rightarrow> []
      | Some codes \<Rightarrow>
          (let others = other_codes codes lookup_code
           in if others = [] then []
              else [\<lparr>f_name = py ''Other SMWS Codes'',
                     f_value = join (py '', '') (take 25 others),
                     f_inline = False\<rparr>]))"

definition make_embed :: "pystr \<Rightarrow> pystr \<Rightarrow> pystr \<Rightarrow> brand \<Rightarrow> embed" where
  "make_embed code lookup_code name b =
     \<lparr>e_title = py ''SMWS Code '' @ code,
      e_description = name,
      e_fields =
        text_field ''Region'' True (b_region b) id @
        text_field ''Style'' True (b_style b) id @
        details_fields (b_details b) @
        codes_field (b_codes b) lookup_code\<rparr>"

text \<open>
  The command, on the parsed \<open>data['brands']\<close> and the code the user typed. A
  \<open>KeyError\<close> from a missing \<open>id\<close>, or from the missing \<open>name\<close> at the debug line after
  the lookup, reaches the outer handler.
\<close>

definition msg_processing_error :: pystr where
  "msg_processing_error = py ''An error occurred while processing your request.''"

definition msg_too_large :: pystr where
  "msg_too_large = py ''The response is too large. Please contact the bot administrator.''"

definition msg_not_found :: "pystr \<Rightarrow> pystr" where
  "msg_not_found code = py ''No distillery found with ID '' @ code"

definition smws :: "brand list \<Rightarrow> pystr \<Rightarrow> response" where
  "smws data code =
     (let lookup_code = str_upper (str_strip code)
      in case find_brand_by_id data lookup_code of
           Inl err \<Rightarrow> SendEphemeral msg_processing_error
         | Inr None \<Rightarrow> SendEphemeral (msg_not_found code)
         | Inr (Some b) \<Rightarrow>
             (case b_name b of
                None \<Rightarrow> SendEphemeral msg_processing_error
              | Some name \<Rightarrow>
                  (let e = make_embed code lookup_code name b
                   in if embed_len e > 6000 then SendEphemeral msg_too_large
                      else SendEmbed e)))"

text \<open>The values of the fields of an embed that carry a given name.\<close>

definition named_values :: "string \<Rightarrow> embed_field list \<Rightarrow> pystr list" where
  "named_values nm fs = map f_value (filter (\<lambda>f. f_name f = py nm) fs)"

definition field_values :: "string \<Rightarrow> embed \<Rightarrow> pystr list" where
  "field_values nm e = named_values nm (e_fields e)"

section \<open>The \<open>/distillery\<close> command: lookup by name\<close>

text \<open>
  What the command replies: \<open>ShowDistillery\<close> carries the embed handed to
  \<open>followup.send\<close>, \<open>Suggestions\<close> the names offered after
  \<open>Did you mean one of these?\<close>, before title-casing, \<open>NoCodesFound\<close> is the reply
  \<open>No SMWS codes found for distillery\<close>, and \<open>CommandFailed\<close> the reply of the handler
  of the command to an exception.
\<close>

datatype distillery_reply =
    ShowDistillery embed
  | Suggestions "pystr list"
  | NoCodesFound
  | CommandFailed

text \<open>\<open>[brand for brand in data['brands'] if str(brand['id']) in codes]\<close>\<close>

fun entries_with_id :: "brand list \<Rightarrow> pystr set \<Rightarrow> py_error + brand list" where
  "entries_with_id [] codes = Inr []"
| "entries_with_id (b # bs) codes =
     (case b_id b of
        None \<Rightarrow> Inl (KeyError ''id'')
      | Some i \<Rightarrow>
          (case entries_with_id bs codes of
             Inl err \<Rightarrow> Inl err
           | Inr es \<Rightarrow> Inr (if i \<in> codes then b # es else es)))"

text \<open>
  The fields of the embed of lines 316 to 351. \<open>Region\<close> and \<open>Style\<close> are added when the
  key is present in the first entry, whatever its value. The loop over the entries adds
  one field per entry that has details with a description: the description as it is,
  under the entry's id.
\<close>

definition key_field :: "string \<Rightarrow> bool \<Rightarrow> pystr option \<Rightarrow> embed_field list" where
  "key_field nm inl v =
     (case v of
        None \<Rightarrow> []
      | Some s \<Rightarrow> [\<lparr>f_name = py nm, f_value = s, f_inline = inl\<rparr>])"

fun description_fields :: "brand list \<Rightarrow> py_error + embed_field list" where
  "description_fields [] = Inr []"
| "description_fields (entry # entries) =
     (case b_details entry of
        None \<Rightarrow> description_fields entries
      | Some d \<Rightarrow>
          (case d_description d of
             None \<Rightarrow> description_fields entries
           | Some description \<Rightarrow>
               (case b_id entry of
                  None \<Rightarrow> Inl (KeyError ''id'')
                | Some code \<Rightarrow>
                    (case description_fields entries of
                       Inl err \<Rightarrow> Inl err
                     | Inr fs \<Rightarrow>
                         Inr (\<lparr>f_name = py ''Details for code '' @ code,
                               f_value = description, f_inline = False\<rparr> # fs)))))"

text \<open>
  The embed has a title and no description, which \<open>len(embed)\<close> counts as empty.
  \<open>sorted(codes)\<close> is the sorted list of the set of codes.
\<close>

definition distillery_embed :: "pystr \<Rightarrow> pystr set \<Rightarrow> brand \<Rightarrow> embed_field list \<Rightarrow> embed" where
  "distillery_embed distillery_name codes first_entry description_fs =
     \<lparr>e_title = py ''Distillery: '' @ str_title distillery_name,
      e_description = [],
      e_fields =
        key_field ''Region'' True (b_region first_entry) @
        key_field ''Style'' True (b_style first_entry) @
        [\<lparr>f_name = py ''SMWS Codes'',
          f_value = join (py '', '') (sorted_list_of_set codes),
          f_inline = False\<rparr>] @
        description_fs\<rparr>"

text \<open>
  The branch \<open>if not distillery_name or not codes\<close> is taken for \<open>(None, None)\<close>, for an
  empty name and for an empty list of codes. \<open>entries[0]\<close> raises \<open>IndexError\<close> on an
  empty list. \<open>show_distillery\<close> is the rest of the command once a name and its codes are
  resolved, lines 316 to 353, on the parsed \<open>data['brands']\<close>. The embed is sent as it is
  built: the command neither shortens a field nor measures the embed.
\<close>

definition suggest :: "cog_state \<Rightarrow> pystr \<Rightarrow> distillery_reply" where
  "suggest st name =
     (case get_close_matches (str_lower name) (dict_keys (distillery_codes st)) 3 (5 / 10) of
        Inl err \<Rightarrow> CommandFailed
      | Inr suggestions \<Rightarrow> if suggestions \<noteq> [] then Suggestions suggestions else NoCodesFound)"

definition show_distillery :: "brand list \<Rightarrow> pystr \<Rightarrow> pystr set \<Rightarrow> distillery_reply" where
  "show_distillery data distillery_name codes =
     (case entries_with_id data codes of
        Inl err \<Rightarrow> CommandFailed
      | Inr [] \<Rightarrow> CommandFailed
      | Inr (first_entry # entries) \<Rightarrow>
          (case description_fields (first_entry # entries) of
             Inl err \<Rightarrow> CommandFailed
           | Inr fs \<Rightarrow> ShowDistillery (distillery_embed distillery_name codes first_entry fs)))"

definition distillery :: "cog_state \<Rightarrow> brand list \<Rightarrow> pystr \<Rightarrow> distillery_reply" where
  "distillery st data name =
     (case find_distillery st name of
        Inl err \<Rightarrow> CommandFailed
      | Inr None \<Rightarrow> suggest st name
      | Inr (Some (distillery_name, codes)) \<Rightarrow>
          if distillery_name = [] \<or> codes = {} then suggest st name
          else show_distillery data distillery_name codes)"

section \<open>The resolution pipeline as specified\<close>

text \<open>
  The three stages in the words of the specification. Alias stage: look the case-folded
  name up in the alias map; if it is found and the canonical name has a non-empty entry
  in the canonical index, return it with its code set. Direct stage: look the case-folded
  name up in the canonical index. Fuzzy stage: among the keys of the canonical index at or
  above the similarity threshold 0.6, the single best match. Each stage is attempted only
  if the previous one produced no result.
\<close>

definition spec_alias_stage :: "cog_state \<Rightarrow> pystr \<Rightarrow> (pystr \<times> pystr set) option" where
  "spec_alias_stage st name =
     (case dict_get (name_variants st) (str_lower name) of
        None \<Rightarrow> None
      | Some canonical \<Rightarrow>
          (case dict_get (distillery_codes st) (str_lower canonical) of
             None \<Rightarrow> None
           | Some codes \<Rightarrow> if codes \<noteq> {} then Some (str_lower canonical, codes) else None))"

definition spec_direct_stage :: "cog_state \<Rightarrow> pystr \<Rightarrow> (pystr \<times> pystr set) option" where
  "spec_direct_stage st name =
     (case dict_get (distillery_codes st) (str_lower name) of
        None \<Rightarrow> None
      | Some codes \<Rightarrow> Some (str_lower name, codes))"

definition spec_fuzzy_stage :: "cog_state \<Rightarrow> pystr \<Rightarrow> (pystr \<times> pystr set) option" where
  "spec_fuzzy_stage st name =
     (case get_close_matches (str_lower name) (dict_keys (distillery_codes st)) 1 (6 / 10) of
        Inr (best # _) \<Rightarrow>
          (case dict_get (distillery_codes st) best of
             None \<Rightarrow> None
           | Some codes \<Rightarrow> Some (best, codes))
      | _ \<Rightarrow> None)"

definition spec_resolve :: "cog_state \<Rightarrow> pystr \<Rightarrow> (pystr \<times> pystr set) option" where
  "spec_resolve st name =
     (case spec_alias_stage st name of
        Some found \<Rightarrow> Some found
      | None \<Rightarrow>
          (case spec_direct_stage st name of
             Some found \<Rightarrow> Some found
           | None \<Rightarrow> spec_fuzzy_stage st name))"

section \<open>Example data\<close>

text \<open>An entry with an id, a name and codes, and nothing else.\<close>

definition mk_brand :: "string \<Rightarrow> string \<Rightarrow> string list \<Rightarrow> brand" where
  "mk_brand i n cs = \<lparr>b_id = Some (py i), b_name = Some (py n), b_codes = Some (map py cs),
     b_region = None, b_style = None, b_details = None\<rparr>"

text \<open>An entry whose description has 1100 characters.\<close>

definition long_text :: pystr where
  "long_text = replicate 1100 120"

definition brand_long :: brand where
  "brand_long = \<lparr>b_id = Some (py ''23''), b_name = Some (py ''Glenfarclas''), b_codes = Some [py ''23''],
     b_region = Some (py ''Speyside''), b_style = None,
     b_details = Some \<lparr>d_description = Some long_text, d_notes = Some (py ''Sherried'')\<rparr>\<rparr>"

text \<open>An entry whose name has 6000 characters.\<close>

definition brand_huge :: brand where
  "brand_huge = \<lparr>b_id = Some (py ''1''), b_name = Some (replicate 6000 120), b_codes = Some [py ''1''],
     b_region = None, b_style = None, b_details = None\<rparr>"

text \<open>Datasets of one and of two distilleries.\<close>

definition data_leven :: "brand list" where
  "data_leven = [mk_brand ''77'' ''Inverleven'' [''77''], mk_brand ''200'' ''Levens'' [''200'']]"

definition data_moray :: "brand list" where
  "data_moray = [mk_brand ''35'' ''Glen Moray'' [''35'']]"


definition data_inverleven :: "brand list" where
  "data_inverleven = [mk_brand ''77'' ''Inverleven'' [''77'']]"

definition data_glen :: "brand list" where
  "data_glen = [mk_brand ''35'' ''Glen Moray'' [''35''], mk_brand ''57'' ''Glen Mhor'' [''57'']]"

text \<open>
  The states that \<open>__init__\<close> constructs from these datasets: \<open>info_of\<close> is the
  \<open>brand_info\<close> of an entry that has only a name.
\<close>

definition info_of :: "string \<Rightarrow> brand_info" where
  "info_of n = \<lparr>bi_name = py n, bi_details = \<lparr>d_description = None, d_notes = None\<rparr>,
     bi_region = [], bi_style = []\<rparr>"

definition st_inverleven :: cog_state where
  "st_inverleven = \<lparr>brands = [(py ''77'', info_of ''Inverleven'')],
     distillery_codes = [(py ''inverleven'', {py ''77''})],
     name_variants = add_all_variants variants []\<rparr>"

definition st_glen :: cog_state where
  "st_glen = \<lparr>brands = [(py ''35'', info_of ''Glen Moray''), (py ''57'', info_of ''Glen Mhor'')],
     distillery_codes = [(py ''glen moray'', {py ''35''}), (py ''glen mhor'', {py ''57''})],
     name_variants = add_all_variants variants []\<rparr>"

definition st_leven :: cog_state where
  "st_leven = \<lparr>brands = [(py ''77'', info_of ''Inverleven''), (py ''200'', info_of ''Levens'')],
     distillery_codes = [(py ''inverleven'', {py ''77''}), (py ''levens'', {py ''200''})],
     name_variants = add_all_variants variants []\<rparr>"

definition st_moray :: cog_state where
  "st_moray = \<lparr>brands = [(py ''35'', info_of ''Glen Moray'')],
     distillery_codes = [(py ''glen moray'', {py ''35''})],
     name_variants = add_all_variants variants []\<rparr>"


text \<open>
  An entry with a description and nothing else, and the \<open>brand_info\<close> stored for it; a
  dataset whose only entry has a description of 1100 characters, and a dataset of six
  entries of one distillery, each with a description of 1024 characters; the states that
  \<open>__init__\<close> constructs from them.
\<close>

definition described :: "string \<Rightarrow> string \<Rightarrow> pystr \<Rightarrow> brand" where
  "described i n description = \<lparr>b_id = Some (py i), b_name = Some (py n), b_codes = Some [py i],
     b_region = None, b_style = None,
     b_details = Some \<lparr>d_description = Some description, d_notes = None\<rparr>\<rparr>"

definition info_described :: "string \<Rightarrow> pystr \<Rightarrow> brand_info" where
  "info_described n description = \<lparr>bi_name = py n,
     bi_details = \<lparr>d_description = Some description, d_notes = None\<rparr>, bi_region = [], bi_style = []\<rparr>"

definition data_long :: "brand list" where
  "data_long = [described ''77'' ''Inverleven'' long_text]"

definition st_long :: cog_state where
  "st_long = \<lparr>brands = [(py ''77'', info_described ''Inverleven'' long_text)],
     distillery_codes = [(py ''inverleven'', {py ''77''})],
     name_variants = add_all_variants variants []\<rparr>"

definition data_six :: "brand list" where
  "data_six = map (\<lambda>i. described i ''Inverleven'' (replicate 1024 120)) [''1'', ''2'', ''3'', ''4'', ''5'', ''6'']"

definition st_six :: cog_state where
  "st_six = \<lparr>brands = map (\<lambda>i. (py i, info_described ''Inverleven'' (replicate 1024 120)))
                 [''1'', ''2'', ''3'', ''4'', ''5'', ''6''],
     distillery_codes = [(py ''inverleven'', {py ''1'', py ''2'', py ''3'', py ''4'', py ''5'', py ''6''})],
     name_variants = add_all_variants variants []\<rparr>"

section \<open>Properties of the \<open>/smws\<close> command\<close>

text \<open>The case mappings on the code points that the examples use.\<close>

lemma lower_char_latin1:
  "c < 0x100 \<Longrightarrow> lower_char c =
     [if (0x41 \<le> c \<and> c \<le> 0x5A) \<or> (0xC0 \<le> c \<and> c \<le> 0xDE \<and> c \<noteq> 0xD7) then c + 0x20 else c]"
  by (simp add: lower_char_def)

lemma map_of_append_None:
  "map_of xs x = None \<Longrightarrow> map_of ys x = None \<Longrightarrow> map_of (xs @ ys) x = None"
  by simp

lemmas lower_table_defs =
  lower_table_1_def lower_table_2_def lower_table_3_def lower_table_4_def lower_table_5_def
  lower_table_6_def lower_table_7_def lower_table_8_def lower_table_9_def lower_table_10_def
  lower_table_11_def lower_table_12_def lower_table_13_def lower_table_14_def
  lower_table_15_def lower_table_16_def lower_table_17_def lower_table_18_def
  lower_table_19_def lower_table_20_def lower_table_21_def lower_table_22_def

lemma lower_table_misses: "map_of lower_table 0x20AC = None" "map_of lower_table 0x2122 = None"
  unfolding lower_table_def
  by (intro map_of_append_None; simp add: lower_table_defs)+

lemma lower_char_other: "lower_char 0x20AC = [0x20AC]" "lower_char 0x2122 = [0x2122]"
  by (simp_all add: lower_char_def lower_table_misses)

lemma upper_char_latin1:
  "c < 0x100 \<Longrightarrow> upper_char c =
     (if (0x61 \<le> c \<and> c \<le> 0x7A) \<or> (0xE0 \<le> c \<and> c \<le> 0xFE \<and> c \<noteq> 0xF7) then [c - 0x20]
      else if c = 0xDF then [0x53, 0x53] else if c = 0xB5 then [0x39C]
      else if c = 0xFF then [0x178] else [c])"
  by (simp add: upper_char_def)

lemma title_char_latin1:
  "c < 0x100 \<Longrightarrow> title_char c = (if c = 0xDF then [0x53, 0x73] else upper_char c)"
  by (simp add: title_char_def)

lemma is_cased_latin1:
  "c < 0x100 \<Longrightarrow> is_cased c \<longleftrightarrow>
     (0x41 \<le> c \<and> c \<le> 0x5A) \<or> (0x61 \<le> c \<and> c \<le> 0x7A) \<or> c = 0xAA \<or> c = 0xB5 \<or> c = 0xBA \<or>
     (0xC0 \<le> c \<and> c \<noteq> 0xD7 \<and> c \<noteq> 0xF7)"
  by (simp add: is_cased_def)

lemmas lower_eval = str_lower_def lower_ucs4_def lower_char_latin1 lower_char_other

lemmas upper_eval = str_upper_def upper_char_latin1

lemmas title_eval = str_title_def title_char_latin1 upper_char_latin1 is_cased_latin1
  lower_ucs4_def lower_char_latin1

lemma py_eq_iff: "py s = py t \<longleftrightarrow> s = t"
  by (simp add: py_def inj_map_eq_map inj_on_def)

lemma named_values_append: "named_values nm (xs @ ys) = named_values nm xs @ named_values nm ys"
  by (simp add: named_values_def)

lemma named_values_text_field:
  "named_values nm (text_field nm' inl v f) =
     (if nm = nm' then (case v of None \<Rightarrow> [] | Some s \<Rightarrow> if s = [] then [] else [f s]) else [])"
  by (auto simp: named_values_def text_field_def py_eq_iff split: option.splits)

lemma named_values_codes_field:
  "named_values nm (codes_field cs lc) =
     (if nm = ''Other SMWS Codes'' then map f_value (codes_field cs lc) else [])"
  by (auto simp: named_values_def codes_field_def Let_def py_eq_iff split: option.splits)

lemma named_values_details_fields:
  "named_values nm (details_fields dt) =
     (case dt of None \<Rightarrow> [] | Some d \<Rightarrow>
        named_values nm (text_field ''Description'' False (d_description d) truncate_text) @
        named_values nm (text_field ''Notes'' False (d_notes d) truncate_text))"
  by (auto simp: details_fields_def named_values_append named_values_def split: option.splits)

lemma field_values_make_embed:
  "field_values nm (make_embed code lc name b) =
     named_values nm (text_field ''Region'' True (b_region b) id) @
     named_values nm (text_field ''Style'' True (b_style b) id) @
     named_values nm (details_fields (b_details b)) @
     named_values nm (codes_field (b_codes b) lc)"
  by (simp add: field_values_def make_embed_def named_values_append)

lemma smws_SendEmbed:
  "smws data code = SendEmbed e \<Longrightarrow>
   \<exists>b name. find_brand_by_id data (str_upper (str_strip code)) = Inr (Some b) \<and> b_name b = Some name \<and>
     e = make_embed code (str_upper (str_strip code)) name b \<and> embed_len e \<le> 6000"
  by (auto simp: smws_def Let_def split: sum.splits option.splits if_splits)

lemma length_py: "length (py s) = length s"
  by (simp add: py_def)

lemma length_truncated: "1024 < length s \<Longrightarrow> length (take 1021 s @ py ''...'') = 1024"
  by (simp add: py_def)

text \<open>
  What \<open>/smws\<close> does with the free text of a record. When the reply to a code lookup is
  the embed of a record, a description that is present and not empty is rendered as
  exactly one \<open>Description\<close> field: unchanged when it has at most 1024 characters, and
  otherwise its first 1021 characters followed by \<open>...\<close>, 1024 characters in all. The
  same holds for the notes and the \<open>Notes\<close> field.
\<close>

lemma smws_truncates_description_and_notes:
  assumes "smws data code = SendEmbed e"
    and "find_brand_by_id data (str_upper (str_strip code)) = Inr (Some b)"
    and "b_details b = Some d"
  shows "(\<forall>s. d_description d = Some s \<and> s \<noteq> [] \<longrightarrow>
            field_values ''Description'' e = [if 1024 < length s then take 1021 s @ py ''...'' else s] \<and>
            (1024 < length s \<longrightarrow> length (take 1021 s @ py ''...'') = 1024)) \<and>
         (\<forall>s. d_notes d = Some s \<and> s \<noteq> [] \<longrightarrow>
            field_values ''Notes'' e = [if 1024 < length s then take 1021 s @ py ''...'' else s] \<and>
            (1024 < length s \<longrightarrow> length (take 1021 s @ py ''...'') = 1024))"
proof -
  from smws_SendEmbed[OF assms(1)] assms(2) obtain name where
    e: "e = make_embed code (str_upper (str_strip code)) name b" by auto
  show ?thesis
    unfolding e field_values_make_embed
    by (simp add: named_values_text_field named_values_details_fields named_values_codes_field
        assms(3) truncate_text_def length_py)
qed

lemma smws_brand_long:
  "smws [brand_long] (py ''23'') = SendEmbed (make_embed (py ''23'') (py ''23'') (py ''Glenfarclas'') brand_long)"
  by (simp add: smws_def Let_def brand_long_def make_embed_def embed_len_def text_field_def
      details_fields_def codes_field_def other_codes_def truncate_text_def long_text_def py_def
      upper_eval str_strip_def isspace_def)

lemma smws_truncates_example:
  "field_values ''Description'' (make_embed (py ''23'') (py ''23'') (py ''Glenfarclas'') brand_long) =
     [replicate 1021 120 @ py ''...''] \<and>
   length (replicate 1021 (120::nat) @ py ''...'') = 1024 \<and>
   field_values ''Notes'' (make_embed (py ''23'') (py ''23'') (py ''Glenfarclas'') brand_long) = [py ''Sherried'']"
proof -
  have f: "find_brand_by_id [brand_long] (str_upper (str_strip (py ''23''))) = Inr (Some brand_long)"
    by (simp add: brand_long_def py_def upper_eval str_strip_def isspace_def)
  have d: "b_details brand_long = Some \<lparr>d_description = Some long_text, d_notes = Some (py ''Sherried'')\<rparr>"
    by (simp add: brand_long_def)
  show ?thesis
    using smws_truncates_description_and_notes[OF smws_brand_long f d]
    by (simp add: long_text_def py_def)
qed


lemmas eval_defs = py_def upper_eval str_strip_def isspace_def
  smws_def Let_def make_embed_def embed_len_def text_field_def details_fields_def codes_field_def
  other_codes_def truncate_text_def mk_brand_def msg_not_found_def msg_too_large_def
  msg_processing_error_def

text \<open>
  What \<open>/smws\<close> does with the size of the embed. For a record found by its code, when
  the embed built for it is longer than 6000 characters the reply is the ephemeral
  message that the response is too large, and no embed is sent, whole or cut; when it is
  at most 6000 characters long, the reply is that embed as built.
\<close>

lemma smws_reports_oversized_embed:
  assumes "find_brand_by_id data (str_upper (str_strip code)) = Inr (Some b)"
    and "b_name b = Some name"
  shows "(6000 < embed_len (make_embed code (str_upper (str_strip code)) name b) \<longrightarrow>
            smws data code = SendEphemeral msg_too_large \<and> (\<forall>e. smws data code \<noteq> SendEmbed e)) \<and>
         (embed_len (make_embed code (str_upper (str_strip code)) name b) \<le> 6000 \<longrightarrow>
            smws data code = SendEmbed (make_embed code (str_upper (str_strip code)) name b))"
  using assms by (simp add: smws_def Let_def)

lemma smws_oversized_example:
  "smws [brand_huge] (py ''1'') = SendEphemeral msg_too_large"
proof -
  have f: "find_brand_by_id [brand_huge] (str_upper (str_strip (py ''1''))) = Inr (Some brand_huge)"
    by (simp add: brand_huge_def py_def upper_eval str_strip_def isspace_def)
  have n: "b_name brand_huge = Some (replicate 6000 120)"
    by (simp add: brand_huge_def)
  have l: "6000 < embed_len (make_embed (py ''1'') (str_upper (str_strip (py ''1''))) (replicate 6000 120) brand_huge)"
    by (simp add: embed_len_def make_embed_def py_def)
  show ?thesis
    using smws_reports_oversized_embed[OF f n] l by simp
qed

lemma named_values_Nil: "named_values nm [] = []"
  by (simp add: named_values_def)

lemma named_values_single:
  "named_values nm [f] = (if f_name f = py nm then [f_value f] else [])"
  by (simp add: named_values_def)

lemma subseq_take_self: "subseq (take n xs) xs"
  by (induction xs arbitrary: n) (auto simp: take_Cons split: nat.split)

text \<open>
  Claim C7, as the code has it. When the reply to a code lookup is the embed of a record
  with a list of codes, the field \<open>Other SMWS Codes\<close> is present exactly when some code
  of the record differs, upper-cased, from the normalised lookup code, and it joins with
  \<open>", "\<close> the first 25 of those codes: at most 25 entries, each a code of the record
  other than the one looked up, in the order of the record's list. Nothing sorts them.
\<close>

theorem other_codes_field_contents:
  assumes "smws data code = SendEmbed e"
    and "find_brand_by_id data (str_upper (str_strip code)) = Inr (Some b)"
    and "b_codes b = Some codes"
  shows "\<exists>shown. shown = take 25 (filter (\<lambda>c. str_upper c \<noteq> str_upper (str_strip code)) codes) \<and>
           field_values ''Other SMWS Codes'' e = (if shown = [] then [] else [join (py '', '') shown]) \<and>
           length shown \<le> 25 \<and> subseq shown codes \<and>
           (\<forall>c \<in> set shown. c \<in> set codes \<and> str_upper c \<noteq> str_upper (str_strip code))"
proof -
  let ?lc = "str_upper (str_strip code)"
  let ?shown = "take 25 (filter (\<lambda>c. str_upper c \<noteq> ?lc) codes)"
  from smws_SendEmbed[OF assms(1)] assms(2) obtain name where
    e: "e = make_embed code ?lc name b" by auto
  have cf: "named_values ''Other SMWS Codes'' (codes_field (Some codes) ?lc) =
      (if ?shown = [] then [] else [join (py '', '') ?shown])"
    by (simp add: codes_field_def other_codes_def Let_def named_values_Nil named_values_single)
  have fv: "field_values ''Other SMWS Codes'' e = (if ?shown = [] then [] else [join (py '', '') ?shown])"
    unfolding e field_values_make_embed assms(3) cf
    by (simp add: named_values_text_field named_values_details_fields split: option.splits)
  have sub: "subseq ?shown codes"
    by (rule subseq_order.order_trans[OF subseq_take_self subseq_filter_left])
  have mem: "\<forall>c \<in> set ?shown. c \<in> set codes \<and> str_upper c \<noteq> ?lc"
    by (auto dest: in_set_takeD)
  have len: "length ?shown \<le> 25" by simp
  show ?thesis
    by (rule exI[of _ ?shown]) (intro conjI refl fv sub mem len)
qed

theorem other_codes_field_contents_witness:
  "field_values ''Other SMWS Codes'' \<lparr>e_title = py ''SMWS Code 3'', e_description = py ''A'',
       e_fields = [\<lparr>f_name = py ''Other SMWS Codes'', f_value = py ''2, 1'', f_inline = False\<rparr>]\<rparr> = [py ''2, 1'']"
proof -
  have s: "smws [mk_brand ''3'' ''A'' [''2'', ''1'', ''3'']] (py ''3'') =
     SendEmbed \<lparr>e_title = py ''SMWS Code 3'', e_description = py ''A'',
       e_fields = [\<lparr>f_name = py ''Other SMWS Codes'', f_value = py ''2, 1'', f_inline = False\<rparr>]\<rparr>"
    by (simp add: eval_defs)
  have f: "find_brand_by_id [mk_brand ''3'' ''A'' [''2'', ''1'', ''3'']] (str_upper (str_strip (py ''3''))) =
     Inr (Some (mk_brand ''3'' ''A'' [''2'', ''1'', ''3'']))"
    by (simp add: eval_defs)
  have c: "b_codes (mk_brand ''3'' ''A'' [''2'', ''1'', ''3'']) = Some [py ''2'', py ''1'', py ''3'']"
    by (simp add: mk_brand_def)
  show ?thesis
    using other_codes_field_contents[OF s f c] by (simp add: py_def upper_eval str_strip_def isspace_def)
qed

text \<open>
  The record with id 3 and codes 2, 1, 3, looked up by 3, lists its other codes as
  \<open>2, 1\<close>, which is not sorted.
\<close>

theorem other_codes_not_sorted:
  "smws [mk_brand ''3'' ''A'' [''2'', ''1'', ''3'']] (py ''3'') =
     SendEmbed \<lparr>e_title = py ''SMWS Code 3'', e_description = py ''A'',
       e_fields = [\<lparr>f_name = py ''Other SMWS Codes'', f_value = py ''2, 1'', f_inline = False\<rparr>]\<rparr> \<and>
   \<not> sorted [py ''2'', py ''1'']"
  by (simp add: eval_defs)







section \<open>Properties of the construction\<close>

lemma dict_get_dict_set:
  "dict_get (dict_set d k v) k' = (if k' = k then Some v else dict_get d k')"
  by (induction d) (auto simp: dict_get_def)

lemma dict_keys_dict_set:
  "dict_keys (dict_set d k v) = (if k \<in> set (dict_keys d) then dict_keys d else dict_keys d @ [k])"
  by (induction d) (force simp: dict_keys_def)+

lemma dict_set_twice: "dict_set (dict_set d k v) k w = dict_set d k w"
  by (induction d) auto

lemma dict_get_None_iff: "dict_get d k = None \<longleftrightarrow> k \<notin> set (dict_keys d)"
  by (simp add: dict_get_def dict_keys_def map_of_eq_None_iff)

lemma load_step:
  assumes "b_name b = Some name" and "b_codes b = Some codes" and "b_id b = Some i"
  shows "load_brands_loop (b # rest) st =
     load_brands_loop rest (st\<lparr>brands := store_codes b
          \<lparr>bi_name = name, bi_details = get_details b, bi_region = get_text (b_region b),
             bi_style = get_text (b_style b)\<rparr> codes (brands st),
        distillery_codes := dict_set (distillery_codes st) (str_lower name)
          (insert i (case dict_get (distillery_codes st) (str_lower name) of None \<Rightarrow> {} | Some s \<Rightarrow> s))\<rparr>)"
proof (cases "dict_get (distillery_codes st) (str_lower name)")
  case None
  then have nk: "str_lower name \<notin> set (dict_keys (distillery_codes st))"
    by (simp add: dict_get_None_iff)
  show ?thesis
    using assms None nk by (simp add: Let_def add_id_def dict_get_dict_set dict_set_twice)
next
  case (Some s)
  then have k: "str_lower name \<in> set (dict_keys (distillery_codes st))"
    using dict_get_None_iff[of "distillery_codes st" "str_lower name"] by auto
  show ?thesis
    using assms Some k by (simp add: Let_def add_id_def)
qed

lemma load_fails_if_invalid:
  "\<exists>b \<in> set data. \<not> valid_entry b \<Longrightarrow> \<exists>err. load_brands_loop data st = Inl err"
proof (induction data arbitrary: st)
  case Nil
  then show ?case by simp
next
  case (Cons b rest)
  show ?case
  proof (cases "valid_entry b")
    case True
    then obtain name codes i where v: "b_name b = Some name" "b_codes b = Some codes" "b_id b = Some i"
      by (auto simp: valid_entry_def)
    from Cons.prems True have "\<exists>b \<in> set rest. \<not> valid_entry b" by auto
    from Cons.IH[OF this] show ?thesis unfolding load_step[OF v] .
  next
    case False
    then show ?thesis
      by (auto simp: valid_entry_def add_id_def Let_def split: option.splits sum.splits)
  qed
qed

lemma load_succeeds_if_valid:
  "\<forall>b \<in> set data. valid_entry b \<Longrightarrow> \<exists>st'. load_brands_loop data st = Inr st'"
proof (induction data arbitrary: st)
  case Nil
  then show ?case by simp
next
  case (Cons b rest)
  then obtain name codes i where v: "b_name b = Some name" "b_codes b = Some codes" "b_id b = Some i"
    by (auto simp: valid_entry_def)
  from Cons.prems have "\<forall>b \<in> set rest. valid_entry b" by auto
  from Cons.IH[OF this] show ?case unfolding load_step[OF v] .
qed

lemma load_keeps_codes:
  "load_brands_loop data st = Inr st' \<Longrightarrow> dict_get (distillery_codes st) k = Some cs \<Longrightarrow>
   \<exists>cs'. dict_get (distillery_codes st') k = Some cs' \<and> cs \<subseteq> cs'"
proof (induction data arbitrary: st cs)
  case Nil
  then show ?case by simp
next
  case (Cons b rest)
  from Cons.prems(1) obtain name codes i where v: "b_name b = Some name" "b_codes b = Some codes" "b_id b = Some i"
    by (auto simp: add_id_def Let_def split: option.splits sum.splits)
  let ?st = "st\<lparr>brands := store_codes b
          \<lparr>bi_name = name, bi_details = get_details b, bi_region = get_text (b_region b),
             bi_style = get_text (b_style b)\<rparr> codes (brands st),
        distillery_codes := dict_set (distillery_codes st) (str_lower name)
          (insert i (case dict_get (distillery_codes st) (str_lower name) of None \<Rightarrow> {} | Some s \<Rightarrow> s))\<rparr>"
  have r: "load_brands_loop rest ?st = Inr st'"
    using Cons.prems(1) unfolding load_step[OF v] .
  have "\<exists>cs1. dict_get (distillery_codes ?st) k = Some cs1 \<and> cs \<subseteq> cs1"
    using Cons.prems(2) by (auto simp: dict_get_dict_set split: option.splits)
  then obtain cs1 where c1: "dict_get (distillery_codes ?st) k = Some cs1" "cs \<subseteq> cs1"
    by blast
  from Cons.IH[OF r c1(1)] c1(2) show ?case by blast
qed

lemma load_records_every_entry:
  "load_brands_loop data st = Inr st' \<Longrightarrow> b \<in> set data \<Longrightarrow> b_name b = Some name \<Longrightarrow> b_id b = Some i \<Longrightarrow>
   \<exists>cs. dict_get (distillery_codes st') (str_lower name) = Some cs \<and> i \<in> cs"
proof (induction data arbitrary: st)
  case Nil
  then show ?case by simp
next
  case (Cons b0 rest)
  from Cons.prems(1) obtain name0 codes0 i0 where v: "b_name b0 = Some name0" "b_codes b0 = Some codes0" "b_id b0 = Some i0"
    by (auto simp: add_id_def Let_def split: option.splits sum.splits)
  let ?st = "st\<lparr>brands := store_codes b0
          \<lparr>bi_name = name0, bi_details = get_details b0, bi_region = get_text (b_region b0),
             bi_style = get_text (b_style b0)\<rparr> codes0 (brands st),
        distillery_codes := dict_set (distillery_codes st) (str_lower name0)
          (insert i0 (case dict_get (distillery_codes st) (str_lower name0) of None \<Rightarrow> {} | Some s \<Rightarrow> s))\<rparr>"
  have r: "load_brands_loop rest ?st = Inr st'"
    using Cons.prems(1) unfolding load_step[OF v] .
  show ?case
  proof (cases "b = b0")
    case True
    then have "\<exists>cs. dict_get (distillery_codes ?st) (str_lower name) = Some cs \<and> i \<in> cs"
      using v Cons.prems(3,4) by (simp add: dict_get_dict_set)
    then obtain cs where "dict_get (distillery_codes ?st) (str_lower name) = Some cs" "i \<in> cs" by blast
    with load_keeps_codes[OF r this(1)] show ?thesis by blast
  next
    case False
    then have "b \<in> set rest" using Cons.prems(2) by simp
    from Cons.IH[OF r this Cons.prems(3,4)] show ?thesis .
  qed
qed


lemma load_codes_nonempty:
  "load_brands_loop data st = Inr st' \<Longrightarrow>
   (\<forall>k cs. dict_get (distillery_codes st) k = Some cs \<longrightarrow> cs \<noteq> {}) \<Longrightarrow>
   dict_get (distillery_codes st') k = Some cs \<Longrightarrow> cs \<noteq> {}"
proof (induction data arbitrary: st)
  case Nil
  then show ?case by auto
next
  case (Cons b rest)
  from Cons.prems(1) obtain name codes i where v: "b_name b = Some name" "b_codes b = Some codes" "b_id b = Some i"
    by (auto simp: add_id_def Let_def split: option.splits sum.splits)
  let ?st = "st\<lparr>brands := store_codes b
          \<lparr>bi_name = name, bi_details = get_details b, bi_region = get_text (b_region b),
             bi_style = get_text (b_style b)\<rparr> codes (brands st),
        distillery_codes := dict_set (distillery_codes st) (str_lower name)
          (insert i (case dict_get (distillery_codes st) (str_lower name) of None \<Rightarrow> {} | Some s \<Rightarrow> s))\<rparr>"
  have r: "load_brands_loop rest ?st = Inr st'"
    using Cons.prems(1) unfolding load_step[OF v] .
  have inv: "\<forall>k cs. dict_get (distillery_codes ?st) k = Some cs \<longrightarrow> cs \<noteq> {}"
    using Cons.prems(2) by (auto simp: dict_get_dict_set)
  from Cons.IH[OF r inv Cons.prems(3)] show ?case .
qed

lemma load_codes_origin:
  "load_brands_loop data st = Inr st' \<Longrightarrow> dict_get (distillery_codes st') k = Some cs \<Longrightarrow> c \<in> cs \<Longrightarrow>
   (\<exists>cs0. dict_get (distillery_codes st) k = Some cs0 \<and> c \<in> cs0) \<or>
   (\<exists>b \<in> set data. \<exists>name. b_name b = Some name \<and> k = str_lower name \<and> b_id b = Some c)"
proof (induction data arbitrary: st)
  case Nil
  then show ?case by auto
next
  case (Cons b rest)
  from Cons.prems(1) obtain name codes i where v: "b_name b = Some name" "b_codes b = Some codes" "b_id b = Some i"
    by (auto simp: add_id_def Let_def split: option.splits sum.splits)
  let ?st = "st\<lparr>brands := store_codes b
          \<lparr>bi_name = name, bi_details = get_details b, bi_region = get_text (b_region b),
             bi_style = get_text (b_style b)\<rparr> codes (brands st),
        distillery_codes := dict_set (distillery_codes st) (str_lower name)
          (insert i (case dict_get (distillery_codes st) (str_lower name) of None \<Rightarrow> {} | Some s \<Rightarrow> s))\<rparr>"
  have r: "load_brands_loop rest ?st = Inr st'"
    using Cons.prems(1) unfolding load_step[OF v] .
  from Cons.IH[OF r Cons.prems(2,3)] show ?case
  proof
    assume "\<exists>cs0. dict_get (distillery_codes ?st) k = Some cs0 \<and> c \<in> cs0"
    then show ?thesis
      using v by (auto simp: dict_get_dict_set split: if_splits option.splits)
  next
    assume "\<exists>b \<in> set rest. \<exists>name. b_name b = Some name \<and> k = str_lower name \<and> b_id b = Some c"
    then show ?thesis by auto
  qed
qed

lemma init_Inr:
  "init data = Inr st \<Longrightarrow>
   \<exists>st0. load_brands_loop data \<lparr>brands = [], distillery_codes = [], name_variants = []\<rparr> = Inr st0 \<and>
         distillery_codes st = distillery_codes st0 \<and> brands st = brands st0 \<and>
         name_variants st = add_all_variants variants []"
  by (auto simp: init_def load_brands_def initialize_name_variants_def split: sum.splits)

text \<open>
  Claim C5, as the code has it. An entry without a name, without a list of codes or
  without an id makes the whole load fail: the exception is logged and raised again, no
  cog is constructed and no entry is loaded, whatever the other entries. When every entry
  has the three, the load succeeds, and the canonical index holds the id of every entry
  under its lower-cased name; this includes an entry with an empty list of codes, and
  the empty collection.
\<close>

theorem load_is_all_or_nothing:
  "((\<exists>b \<in> set data. b_name b = None \<or> b_codes b = None \<or> b_id b = None) \<longrightarrow>
      (\<exists>err. init data = Inl err)) \<and>
   ((\<forall>b \<in> set data. b_name b \<noteq> None \<and> b_codes b \<noteq> None \<and> b_id b \<noteq> None) \<longrightarrow>
      (\<exists>st. init data = Inr st \<and>
         (\<forall>b \<in> set data. \<forall>name i. b_name b = Some name \<and> b_id b = Some i \<longrightarrow>
            (\<exists>cs. dict_get (distillery_codes st) (str_lower name) = Some cs \<and> i \<in> cs))))"
proof (intro conjI impI)
  let ?st0 = "\<lparr>brands = [], distillery_codes = [], name_variants = []\<rparr>"
  assume "\<exists>b \<in> set data. b_name b = None \<or> b_codes b = None \<or> b_id b = None"
  then have "\<exists>b \<in> set data. \<not> valid_entry b" by (auto simp: valid_entry_def)
  from load_fails_if_invalid[OF this, of ?st0] show "\<exists>err. init data = Inl err"
    by (auto simp: init_def load_brands_def)
next
  let ?st0 = "\<lparr>brands = [], distillery_codes = [], name_variants = []\<rparr>"
  assume "\<forall>b \<in> set data. b_name b \<noteq> None \<and> b_codes b \<noteq> None \<and> b_id b \<noteq> None"
  then have "\<forall>b \<in> set data. valid_entry b" by (auto simp: valid_entry_def)
  from load_succeeds_if_valid[OF this, of ?st0] obtain st0 where
    l: "load_brands_loop data ?st0 = Inr st0" by blast
  let ?st = "initialize_name_variants (st0\<lparr>name_variants := []\<rparr>)"
  have i: "init data = Inr ?st" using l by (simp add: init_def load_brands_def)
  have d: "distillery_codes ?st = distillery_codes st0" by (simp add: initialize_name_variants_def)
  show "\<exists>st. init data = Inr st \<and>
         (\<forall>b \<in> set data. \<forall>name i. b_name b = Some name \<and> b_id b = Some i \<longrightarrow>
            (\<exists>cs. dict_get (distillery_codes st) (str_lower name) = Some cs \<and> i \<in> cs))"
    using i d load_records_every_entry[OF l] by (intro exI[of _ ?st]) auto
qed

theorem load_is_all_or_nothing_witness:
  "(\<exists>err. init [mk_brand ''1'' ''A'' [''1''], (mk_brand ''2'' ''B'' [''2''])\<lparr>b_name := None\<rparr>] = Inl err) \<and>
   (\<exists>st. init [mk_brand ''1'' ''A'' []] = Inr st \<and>
      (\<exists>cs. dict_get (distillery_codes st) (str_lower (py ''A'')) = Some cs \<and> py ''1'' \<in> cs))"
  using load_is_all_or_nothing[of "[mk_brand ''1'' ''A'' [''1''], (mk_brand ''2'' ''B'' [''2''])\<lparr>b_name := None\<rparr>]"]
    load_is_all_or_nothing[of "[mk_brand ''1'' ''A'' []]"]
  by (simp add: mk_brand_def)


text \<open>
  A valid entry followed by one without a name, or by one without an id: nothing is
  loaded. An entry with an empty list of codes, and the empty collection: the load
  succeeds.
\<close>

theorem invalid_entry_aborts_load:
  "init [mk_brand ''1'' ''A'' [''1''], (mk_brand ''2'' ''B'' [''2''])\<lparr>b_name := None\<rparr>] = Inl (KeyError ''name'') \<and>
   init [mk_brand ''1'' ''A'' [''1''], (mk_brand ''2'' ''B'' [''2''])\<lparr>b_id := None\<rparr>] = Inl (KeyError ''id'') \<and>
   init [mk_brand ''1'' ''A'' []] =
     Inr (initialize_name_variants \<lparr>brands = [], distillery_codes = [(py ''a'', {py ''1''})], name_variants = []\<rparr>) \<and>
   init [] = Inr (initialize_name_variants \<lparr>brands = [], distillery_codes = [], name_variants = []\<rparr>)"
  by (simp add: init_def load_brands_def mk_brand_def Let_def add_id_def dict_get_def dict_keys_def
      py_def lower_eval get_details_def get_text_def)


lemma load_valid:
  assumes "load_brands_loop data st = Inr st'"
  shows "\<forall>b \<in> set data. valid_entry b"
proof (rule ccontr)
  assume "\<not> (\<forall>b \<in> set data. valid_entry b)"
  then have "\<exists>b \<in> set data. \<not> valid_entry b" by blast
  from load_fails_if_invalid[OF this, of st] assms show False by auto
qed

lemma init_valid:
  assumes "init data = Inr st"
  shows "\<forall>b \<in> set data. b_id b \<noteq> None"
proof -
  from init_Inr[OF assms] obtain st0 where
    "load_brands_loop data \<lparr>brands = [], distillery_codes = [], name_variants = []\<rparr> = Inr st0" by blast
  from load_valid[OF this] show ?thesis by (simp add: valid_entry_def)
qed

section \<open>The alias table\<close>

lemma dict_set_same: "distinct (map fst d) \<Longrightarrow> (k, v) \<in> set d \<Longrightarrow> dict_set d k v = d"
  by (induction d) (auto simp: rev_image_eqI)

lemma dict_set_new: "k \<notin> fst ` set d \<Longrightarrow> dict_set d k v = d @ [(k, v)]"
  by (induction d) auto

lemma dict_display_snoc: "dict_display (kvs @ [(k, v)]) = dict_set (dict_display kvs) k v"
  by (simp add: dict_display_def)

lemma dict_display_distinct: "distinct (map fst kvs) \<Longrightarrow> dict_display kvs = kvs"
proof (induction kvs rule: rev_induct)
  case Nil
  then show ?case by (simp add: dict_display_def)
next
  case (snoc kv kvs)
  obtain k v where kv: "kv = (k, v)" by (cases kv)
  from snoc.prems have d: "distinct (map fst kvs)" and n: "k \<notin> fst ` set kvs"
    by (auto simp: kv)
  show ?case
    unfolding kv dict_display_snoc snoc.IH[OF d] by (rule dict_set_new[OF n])
qed

lemma foldl_dict_set_new:
  "distinct (map fst (d @ kvs)) \<Longrightarrow> foldl (\<lambda>d (k, v). dict_set d k v) d kvs = d @ kvs"
proof (induction kvs arbitrary: d)
  case Nil
  then show ?case by simp
next
  case (Cons kv kvs)
  obtain k v where kv: "kv = (k, v)" by (cases kv)
  from Cons.prems have n: "k \<notin> fst ` set d" by (auto simp: kv)
  from Cons.prems have "distinct (map fst ((d @ [(k, v)]) @ kvs))" by (simp add: kv)
  from Cons.IH[OF this] show ?case by (simp add: kv dict_set_new[OF n])
qed

lemma dict_display_repeated:
  assumes "distinct (map fst (xs @ ys))" and "(k, v) \<in> set xs"
  shows "dict_display (xs @ (k, v) # ys) = xs @ ys"
proof -
  from assms(1) have dx: "distinct (map fst xs)" by simp
  have "dict_display (xs @ (k, v) # ys) =
      foldl (\<lambda>d (k, v). dict_set d k v) (dict_set (dict_display xs) k v) ys"
    by (simp add: dict_display_def)
  also have "\<dots> = foldl (\<lambda>d (k, v). dict_set d k v) xs ys"
    by (simp add: dict_display_distinct[OF dx] dict_set_same[OF dx assms(2)])
  also have "\<dots> = xs @ ys" by (rule foldl_dict_set_new[OF assms(1)])
  finally show ?thesis .
qed

lemma dict_get_add_variants:
  "dict_get (add_variants m vl nv) key = (if key \<in> set (map str_lower vl) then Some m else dict_get nv key)"
  by (induction vl arbitrary: nv) (auto simp: dict_get_dict_set)

lemma dict_get_add_all_variants_other:
  "key \<notin> set (variant_keys items) \<Longrightarrow> dict_get (add_all_variants items nv) key = dict_get nv key"
  by (induction items arbitrary: nv)
    (auto simp: variant_keys_def dict_get_dict_set dict_get_add_variants)

lemma dict_get_add_all_variants:
  assumes "distinct (variant_keys items)" and "(m, vl) \<in> set items"
    and "key \<in> set (map str_lower (vl @ [m]))"
  shows "dict_get (add_all_variants items nv) key = Some m"
  using assms
proof (induction items arbitrary: nv)
  case Nil
  then show ?case by simp
next
  case (Cons item items)
  obtain m0 vl0 where item: "item = (m0, vl0)" by (cases item)
  from Cons.prems(1) have d: "distinct (variant_keys items)"
    and dj: "set (map str_lower (vl0 @ [m0])) \<inter> set (variant_keys items) = {}"
    by (auto simp: variant_keys_def item)
  show ?case
  proof (cases "(m, vl) \<in> set items")
    case True
    from Cons.IH[OF d True Cons.prems(3)] show ?thesis by (simp add: item)
  next
    case False
    then have e: "m0 = m" "vl0 = vl" using Cons.prems(2) by (auto simp: item)
    have "key \<notin> set (variant_keys items)" using dj Cons.prems(3) e by auto
    from dict_get_add_all_variants_other[OF this] Cons.prems(3) show ?thesis
      by (auto simp: item e dict_get_dict_set dict_get_add_variants)
  qed
qed

lemma variants_eval:
  "variants = take 32 variants_display @ drop 33 variants_display"
  "set variants = set variants_display"
proof -
  have len: "length variants_display = 48" by (simp add: variants_display_def)
  have sp: "variants_display = take 32 variants_display @ (variants_display ! 32) # drop 33 variants_display"
    using id_take_nth_drop[of 32 variants_display] len by simp
  obtain k v where kv: "variants_display ! 32 = (k, v)" by (cases "variants_display ! 32")
  have mem: "(k, v) \<in> set (take 32 variants_display)"
    unfolding kv[symmetric] by (simp add: variants_display_def)
  have dist: "distinct (map fst (take 32 variants_display @ drop 33 variants_display))"
    by (simp add: variants_display_def py_def)
  have "variants = dict_display (take 32 variants_display @ (k, v) # drop 33 variants_display)"
    unfolding variants_def kv[symmetric] using sp by simp
  then show v: "variants = take 32 variants_display @ drop 33 variants_display"
    by (simp add: dict_display_repeated[OF dist mem])
  have "set variants_display = set (take 32 variants_display) \<union> {(k, v)} \<union> set (drop 33 variants_display)"
    by (subst sp) (simp add: kv)
  then show "set variants = set variants_display"
    unfolding v using mem by auto
qed

lemma variant_keys_distinct: "distinct (variant_keys variants)"
  by (simp add: variants_eval(1) variants_display_def variant_keys_def py_def lower_eval)

lemma variants_main_lower:
  "\<forall>(main_name, variant_list) \<in> set variants_display.
     str_lower (str_lower main_name) = str_lower main_name"
  by (simp add: variants_display_def py_def lower_eval)

lemma name_variants_lookup:
  assumes "(m, vl) \<in> set variants_display" and "str_lower a \<in> str_lower ` set (m # vl)"
  shows "dict_get (add_all_variants variants nv) (str_lower a) = Some m"
proof -
  have "(m, vl) \<in> set variants" using assms(1) by (simp add: variants_eval(2))
  moreover have "str_lower a \<in> set (map str_lower (vl @ [m]))" using assms(2) by auto
  ultimately show ?thesis by (rule dict_get_add_all_variants[OF variant_keys_distinct])
qed

lemma glen_mor_no_variant: "py ''glen mor'' \<notin> set (variant_keys variants)"
  by (simp add: variants_eval(1) variants_display_def variant_keys_def py_def lower_eval)



section \<open>Properties of the similarity ratio\<close>

text \<open>
  The block that \<open>find_longest_match\<close> returns is a match: the elements of \<open>a\<close> and \<open>b\<close>
  agree along it. The blocks that \<open>get_matching_blocks\<close> collects lie in disjoint parts of
  both sequences, so their total size is at most the number of elements that the two
  sequences have in common, counted with multiplicity, which is what \<open>quick_ratio\<close>
  counts.
\<close>

lemma b2j_nth: "j \<in> set (b2j b elt) \<Longrightarrow> b ! j = elt"
  by (auto simp: b2j_def indices_of_def split: if_splits)

lemma match_row_matches:
  assumes "match_row i blo bhi j2len js (newj2len, besti, bestj, bestsize) = (nj', bi', bj', bs')"
    and "\<forall>j \<in> set js. b ! j = a ! i"
    and "\<forall>j. \<forall>t < j2len j. t < i \<and> t \<le> j \<and> a ! (i - 1 - t) = b ! (j - t)"
    and "\<forall>j. \<forall>t < newj2len j. t \<le> i \<and> t \<le> j \<and> a ! (i - t) = b ! (j - t)"
    and "\<forall>t < bestsize. a ! (besti + t) = b ! (bestj + t)"
  shows "(\<forall>j. \<forall>t < nj' j. t \<le> i \<and> t \<le> j \<and> a ! (i - t) = b ! (j - t)) \<and>
         (\<forall>t < bs'. a ! (bi' + t) = b ! (bj' + t))"
  using assms
proof (induction js arbitrary: newj2len besti bestj bestsize)
  case Nil
  then show ?case by simp
next
  case (Cons j js)
  let ?k = "prev_len j2len j + 1"
  have js: "\<forall>j \<in> set js. b ! j = a ! i" using Cons.prems(2) by simp
  have k: "\<forall>t < ?k. t \<le> i \<and> t \<le> j \<and> a ! (i - t) = b ! (j - t)"
  proof (intro allI impI)
    fix t assume t: "t < ?k"
    show "t \<le> i \<and> t \<le> j \<and> a ! (i - t) = b ! (j - t)"
    proof (cases t)
      case 0
      then show ?thesis using Cons.prems(2) by simp
    next
      case (Suc s)
      with t have p: "s < prev_len j2len j" by simp
      then have j0: "j \<noteq> 0" and s: "s < j2len (j - 1)" by (auto simp: prev_len_def split: if_splits)
      from Cons.prems(3) s have "s < i \<and> s \<le> j - 1 \<and> a ! (i - 1 - s) = b ! (j - 1 - s)" by blast
      then show ?thesis using Suc j0 by auto
    qed
  qed
  have upd: "\<forall>j'. \<forall>t < (newj2len(j := ?k)) j'. t \<le> i \<and> t \<le> j' \<and> a ! (i - t) = b ! (j' - t)"
    using k Cons.prems(4) by simp
  have nb: "\<forall>t < ?k. a ! (i + 1 - ?k + t) = b ! (j + 1 - ?k + t)"
  proof (intro allI impI)
    fix t assume t: "t < ?k"
    then have s: "?k - 1 - t < ?k" by simp
    from k s have f: "?k - 1 - t \<le> i" "?k - 1 - t \<le> j"
      "a ! (i - (?k - 1 - t)) = b ! (j - (?k - 1 - t))" by blast+
    have "?k - 1 < ?k" by simp
    with k have g: "?k - 1 \<le> i" "?k - 1 \<le> j" by blast+
    have "i - (?k - 1 - t) = i + 1 - ?k + t" using g(1) t by linarith
    moreover have "j - (?k - 1 - t) = j + 1 - ?k + t" using g(2) t by linarith
    ultimately show "a ! (i + 1 - ?k + t) = b ! (j + 1 - ?k + t)" using f(3) by simp
  qed
  show ?case
  proof (cases "j < blo")
    case True
    then have "match_row i blo bhi j2len js (newj2len, besti, bestj, bestsize) = (nj', bi', bj', bs')"
      using Cons.prems(1) by simp
    from Cons.IH[OF this js Cons.prems(3,4,5)] show ?thesis .
  next
    case False
    note nlt = this
    show ?thesis
    proof (cases "j \<ge> bhi")
      case True
      with nlt Cons.prems show ?thesis by simp
    next
      case False
      show ?thesis
      proof (cases "?k > bestsize")
        case True
        have eq: "match_row i blo bhi j2len js (newj2len(j := ?k), i + 1 - ?k, j + 1 - ?k, ?k) = (nj', bi', bj', bs')"
          using Cons.prems(1) nlt False True by (simp add: Let_def)
        from Cons.IH[OF eq js Cons.prems(3) upd nb] show ?thesis .
      next
        case nbig: False
        have eq: "match_row i blo bhi j2len js (newj2len(j := ?k), besti, bestj, bestsize) = (nj', bi', bj', bs')"
          using Cons.prems(1) nlt False nbig by (simp add: Let_def)
        from Cons.IH[OF eq js Cons.prems(3) upd Cons.prems(5)] show ?thesis .
      qed
    qed
  qed
qed

lemma match_rows_matches:
  assumes "match_rows a b blo bhi [i0..<ahi] (j2len, besti, bestj, bestsize) = (bi', bj', bs')"
    and "\<forall>j. \<forall>t < j2len j. t < i0 \<and> t \<le> j \<and> a ! (i0 - 1 - t) = b ! (j - t)"
    and "\<forall>t < bestsize. a ! (besti + t) = b ! (bestj + t)"
  shows "\<forall>t < bs'. a ! (bi' + t) = b ! (bj' + t)"
  using assms
proof (induction "ahi - i0" arbitrary: i0 j2len besti bestj bestsize)
  case 0
  then show ?case by simp
next
  case (Suc n)
  then have lt: "i0 < ahi" by linarith
  obtain nj bi bj bs where row:
    "match_row i0 blo bhi j2len (b2j b (a ! i0)) (\<lambda>_. 0, besti, bestj, bestsize) = (nj, bi, bj, bs)"
    by (metis prod_cases4)
  have inv: "(\<forall>j. \<forall>t < nj j. t \<le> i0 \<and> t \<le> j \<and> a ! (i0 - t) = b ! (j - t)) \<and>
         (\<forall>t < bs. a ! (bi + t) = b ! (bj + t))"
    by (rule match_row_matches[OF row _ Suc.prems(2) _ Suc.prems(3)]) (simp_all add: b2j_nth)
  then have j': "\<forall>j. \<forall>t < nj j. t < Suc i0 \<and> t \<le> j \<and> a ! (Suc i0 - 1 - t) = b ! (j - t)"
    by (simp add: less_Suc_eq_le)
  have eq: "match_rows a b blo bhi [Suc i0..<ahi] (nj, bi, bj, bs) = (bi', bj', bs')"
    using Suc.prems(1) lt row by (simp add: upt_rec[of i0])
  have "n = ahi - Suc i0" using Suc.hyps(2) by simp
  from Suc.hyps(1)[OF this eq j'] inv show ?case by blast
qed

lemma extend_left_matches:
  "extend_left a b alo blo (besti, bestj, bestsize) = (bi', bj', bs') \<Longrightarrow>
   \<forall>t < bestsize. a ! (besti + t) = b ! (bestj + t) \<Longrightarrow>
   \<forall>t < bs'. a ! (bi' + t) = b ! (bj' + t)"
proof (induction a b alo blo "(besti, bestj, bestsize)" arbitrary: besti bestj bestsize rule: extend_left.induct)
  case (1 a b alo blo besti bestj bestsize)
  show ?case
  proof (cases "besti > alo \<and> bestj > blo \<and> a ! (besti - 1) = b ! (bestj - 1)")
    case True
    then have e: "extend_left a b alo blo (besti - 1, bestj - 1, bestsize + 1) = (bi', bj', bs')"
      using "1.prems"(1) by (simp add: extend_left.simps[of a b alo blo besti])
    have "\<forall>t < bestsize + 1. a ! (besti - 1 + t) = b ! (bestj - 1 + t)"
    proof (intro allI impI)
      fix t assume "t < bestsize + 1"
      show "a ! (besti - 1 + t) = b ! (bestj - 1 + t)"
      proof (cases t)
        case 0
        then show ?thesis using True by simp
      next
        case (Suc s)
        then have "s < bestsize" using \<open>t < bestsize + 1\<close> by simp
        with "1.prems"(2) have "a ! (besti + s) = b ! (bestj + s)" by blast
        moreover have "besti - 1 + t = besti + s" "bestj - 1 + t = bestj + s" using True Suc by linarith+
        ultimately show ?thesis by simp
      qed
    qed
    from "1.hyps"[OF True e this] show ?thesis .
  next
    case False
    then show ?thesis using "1.prems" by (auto simp: extend_left.simps[of a b alo blo besti])
  qed
qed

lemma extend_right_matches:
  "extend_right a b ahi bhi (besti, bestj, bestsize) = (bi', bj', bs') \<Longrightarrow>
   \<forall>t < bestsize. a ! (besti + t) = b ! (bestj + t) \<Longrightarrow>
   \<forall>t < bs'. a ! (bi' + t) = b ! (bj' + t)"
proof (induction a b ahi bhi "(besti, bestj, bestsize)" arbitrary: besti bestj bestsize rule: extend_right.induct)
  case (1 a b ahi bhi besti bestj bestsize)
  show ?case
  proof (cases "besti + bestsize < ahi \<and> bestj + bestsize < bhi \<and> a ! (besti + bestsize) = b ! (bestj + bestsize)")
    case True
    then have e: "extend_right a b ahi bhi (besti, bestj, bestsize + 1) = (bi', bj', bs')"
      using "1.prems"(1) by (simp add: extend_right.simps[of a b ahi bhi besti])
    have "\<forall>t < bestsize + 1. a ! (besti + t) = b ! (bestj + t)"
      using "1.prems"(2) True by (auto simp: less_Suc_eq)
    from "1.hyps"[OF True e this] show ?thesis .
  next
    case False
    then show ?thesis using "1.prems" by (auto simp: extend_right.simps[of a b ahi bhi besti])
  qed
qed

lemma find_longest_match_matches:
  assumes "find_longest_match a b alo ahi blo bhi = (i, j, k)"
  shows "\<forall>t < k. a ! (i + t) = b ! (j + t)"
proof -
  obtain bi1 bj1 bs1 where r1: "match_rows a b blo bhi [alo..<ahi] (\<lambda>_. 0, alo, blo, 0) = (bi1, bj1, bs1)"
    by (metis prod_cases3)
  obtain bi2 bj2 bs2 where r2: "extend_left a b alo blo (bi1, bj1, bs1) = (bi2, bj2, bs2)"
    by (metis prod_cases3)
  have r3: "extend_right a b ahi bhi (bi2, bj2, bs2) = (i, j, k)"
    using assms(1) r1 r2 by (simp add: find_longest_match_def)
  have "\<forall>t < bs1. a ! (bi1 + t) = b ! (bj1 + t)"
    by (rule match_rows_matches[OF r1]) simp_all
  from extend_right_matches[OF r3 extend_left_matches[OF r2 this]] show ?thesis .
qed

lemma quick_ratio_loop_inter:
  assumes "\<forall>e. count R e = nat (case avail e of Some n \<Rightarrow> n | None \<Rightarrow> int (count_list b e))"
  shows "quick_ratio_loop b as avail m = m + size (mset as \<inter># R)"
  using assms
proof (induction as arbitrary: avail m R)
  case Nil
  then show ?case by simp
next
  case (Cons elt as)
  let ?numb = "case avail elt of Some n \<Rightarrow> n | None \<Rightarrow> int (count_list b elt)"
  show ?case
  proof (cases "?numb > 0")
    case True
    then have mem: "elt \<in># R" using Cons.prems[rule_format, of elt] by (simp add: count_greater_zero_iff[symmetric] del: count_greater_zero_iff)
    have rel: "\<forall>e. count (R - {#elt#}) e =
        nat (case (avail(elt \<mapsto> ?numb - 1)) e of Some n \<Rightarrow> n | None \<Rightarrow> int (count_list b e))"
      using Cons.prems True by auto
    have "quick_ratio_loop b (elt # as) avail m = quick_ratio_loop b as (avail(elt \<mapsto> ?numb - 1)) (m + 1)"
      using True by (simp add: Let_def)
    also have "\<dots> = m + 1 + size (mset as \<inter># (R - {#elt#}))"
      by (rule Cons.IH[OF rel])
    also have "\<dots> = m + size (mset (elt # as) \<inter># R)"
      using mem by (simp add: inter_add_left2)
    finally show ?thesis .
  next
    case False
    then have nmem: "\<not> elt \<in># R" using Cons.prems[rule_format, of elt] by (simp add: not_in_iff)
    have rel: "\<forall>e. count R e =
        nat (case (avail(elt \<mapsto> ?numb - 1)) e of Some n \<Rightarrow> n | None \<Rightarrow> int (count_list b e))"
      using Cons.prems False by auto
    have "quick_ratio_loop b (elt # as) avail m = quick_ratio_loop b as (avail(elt \<mapsto> ?numb - 1)) m"
      using False by (simp add: Let_def)
    also have "\<dots> = m + size (mset as \<inter># R)"
      by (rule Cons.IH[OF rel])
    also have "\<dots> = m + size (mset (elt # as) \<inter># R)"
      using nmem by (simp add: inter_add_left1)
    finally show ?thesis .
  qed
qed

lemma quick_ratio_matches: "quick_ratio_loop b a Map.empty 0 = size (mset a \<inter># mset b)"
  using quick_ratio_loop_inter[where R = "mset b" and avail = Map.empty and b = b and as = a and m = 0]
  by (simp add: count_mset)

lemma inter_three:
  "size (A1 \<inter># B1) + size M + size (A3 \<inter># B3) \<le> size ((A1 + M + A3) \<inter># (B1 + M + B3))"
proof -
  have "(A1 \<inter># B1) + M + (A3 \<inter># B3) \<subseteq># (A1 + M + A3) \<inter># (B1 + M + B3)"
    by (rule mset_subset_eqI) (simp, arith)
  from size_mset_mono[OF this] show ?thesis by simp
qed

lemma slice_split:
  assumes "lo \<le> i" and "i + k \<le> hi"
  shows "take (hi - lo) (drop lo xs) =
         take (i - lo) (drop lo xs) @ take k (drop i xs) @ take (hi - (i + k)) (drop (i + k) xs)"
proof -
  have h1: "hi - lo = (i - lo) + (hi - i)" and d1: "i - lo + lo = i" using assms by simp_all
  have 1: "take (hi - lo) (drop lo xs) = take (i - lo) (drop lo xs) @ take (hi - i) (drop i xs)"
    unfolding h1 take_add drop_drop d1 ..
  have h2: "hi - i = k + (hi - (i + k))" and d2: "k + i = i + k" using assms by simp_all
  have 2: "take (hi - i) (drop i xs) = take k (drop i xs) @ take (hi - (i + k)) (drop (i + k) xs)"
    unfolding h2 take_add drop_drop d2 ..
  show ?thesis unfolding 1 2 ..
qed

lemma slice_eq:
  assumes "\<forall>t < k. a ! (i + t) = b ! (j + t)" and "i + k \<le> length a" and "j + k \<le> length b"
  shows "take k (drop i a) = take k (drop j b)"
  using assms by (intro nth_equalityI) auto

lemma matching_blocks_loop_bound:
  assumes "\<forall>(alo, ahi, blo, bhi) \<in> set queue. alo \<le> ahi \<and> ahi \<le> length a \<and> blo \<le> bhi \<and> bhi \<le> length b"
  shows "sum_list (map (\<lambda>(i, j, k). k) (matching_blocks_loop a b queue acc)) \<le>
         sum_list (map (\<lambda>(i, j, k). k) acc) +
         sum_list (map (\<lambda>(alo, ahi, blo, bhi).
           size (mset (take (ahi - alo) (drop alo a)) \<inter># mset (take (bhi - blo) (drop blo b)))) queue)"
  using assms
proof (induction a b queue acc rule: matching_blocks_loop.induct)
  case (1 a b matching_blocks)
  then show ?case by simp
next
  case (2 a b alo ahi blo bhi queue matching_blocks)
  obtain i j k where flm: "find_longest_match a b alo ahi blo bhi = (i, j, k)"
    by (metis prod_cases3)
  have wf: "alo \<le> ahi" "ahi \<le> length a" "blo \<le> bhi" "bhi \<le> length b"
    and wfq: "\<forall>(alo, ahi, blo, bhi) \<in> set queue. alo \<le> ahi \<and> ahi \<le> length a \<and> blo \<le> bhi \<and> bhi \<le> length b"
    using "2.prems" by simp_all
  from find_longest_match_in_range[OF flm wf(1,3)]
  have rng: "alo \<le> i" "i + k \<le> ahi" "blo \<le> j" "j + k \<le> bhi" by simp_all
  let ?cap = "\<lambda>(alo, ahi, blo, bhi).
           size (mset (take (ahi - alo) (drop alo a)) \<inter># mset (take (bhi - blo) (drop blo b)))"
  show ?case
  proof (cases "k = 0")
    case True
    have "matching_blocks_loop a b ((alo, ahi, blo, bhi) # queue) matching_blocks =
          matching_blocks_loop a b queue matching_blocks"
      using flm True by simp
    moreover have "sum_list (map (\<lambda>(i, j, k). k) (matching_blocks_loop a b queue matching_blocks)) \<le>
         sum_list (map (\<lambda>(i, j, k). k) matching_blocks) + sum_list (map ?cap queue)"
    proof -
      have nk: "\<not> k \<noteq> 0" using True by simp
      show ?thesis using "2.IH"(2)[OF flm[symmetric] refl nk wfq] .
    qed
    ultimately show ?thesis by simp
  next
    case False
    let ?right = "if i + k < ahi \<and> j + k < bhi then [(i + k, ahi, j + k, bhi)] else []"
    let ?left = "if alo < i \<and> blo < j then [(alo, i, blo, j)] else []"
    have eq: "matching_blocks_loop a b ((alo, ahi, blo, bhi) # queue) matching_blocks =
          matching_blocks_loop a b (?right @ ?left @ queue) (matching_blocks @ [(i, j, k)])"
      using flm False by simp
    have wfn: "\<forall>(alo, ahi, blo, bhi) \<in> set (?right @ ?left @ queue).
        alo \<le> ahi \<and> ahi \<le> length a \<and> blo \<le> bhi \<and> bhi \<le> length b"
      using wf wfq rng by auto
    have ih: "sum_list (map (\<lambda>(i, j, k). k) (matching_blocks_loop a b (?right @ ?left @ queue) (matching_blocks @ [(i, j, k)]))) \<le>
         sum_list (map (\<lambda>(i, j, k). k) (matching_blocks @ [(i, j, k)])) + sum_list (map ?cap (?right @ ?left @ queue))"
      using "2.IH"(1)[OF flm[symmetric] refl False wfn] .
    have m: "take k (drop i a) = take k (drop j b)"
      by (rule slice_eq[OF find_longest_match_matches[OF flm]]) (use rng wf in simp_all)
    have lk: "size (mset (take k (drop i a))) = k" using rng wf by simp
    have "?cap (alo, i, blo, j) + k + ?cap (i + k, ahi, j + k, bhi) \<le> ?cap (alo, ahi, blo, bhi)"
      unfolding prod.case slice_split[OF rng(1,2), of a] slice_split[OF rng(3,4), of b] mset_append m[symmetric]
      using inter_three[of "mset (take (i - alo) (drop alo a))" "mset (take (j - blo) (drop blo b))"
          "mset (take k (drop i a))" "mset (take (ahi - (i + k)) (drop (i + k) a))"
          "mset (take (bhi - (j + k)) (drop (j + k) b))"] lk
      by (simp add: add.assoc)
    moreover have "sum_list (map ?cap ?right) \<le> ?cap (i + k, ahi, j + k, bhi)" by simp
    moreover have "sum_list (map ?cap ?left) \<le> ?cap (alo, i, blo, j)" by simp
    ultimately have "k + sum_list (map ?cap (?right @ ?left @ queue)) \<le> sum_list (map ?cap ((alo, ahi, blo, bhi) # queue))"
      by simp
    with ih show ?thesis unfolding eq by simp
  qed
qed

section \<open>Properties of \<open>get_close_matches\<close>\<close>

lemma nlargest_subset: "set (nlargest n zs) \<subseteq> set zs"
  by (auto simp: nlargest_def dest: in_set_takeD)

lemma nlargest_length: "length (nlargest n zs) \<le> n"
  by (simp add: nlargest_def)

lemma nlargest_sorted: "sorted (rev (nlargest n zs))"
  by (simp add: nlargest_def rev_take sorted_wrt_drop)

lemma sorted_le_last: "sorted (ys :: 'a :: linorder list) \<Longrightarrow> z \<in> set ys \<Longrightarrow> z \<le> last ys"
  by (induction ys) auto

lemma nlargest_hd:
  assumes "nlargest n zs = r # rs" and "z \<in> set zs"
  shows "z \<le> r"
proof -
  from assms(1) have ne: "sort zs \<noteq> []" by (auto simp: nlargest_def)
  from assms(1) have "r = hd (rev (sort zs))"
    by (cases "rev (sort zs)"; cases n) (auto simp: nlargest_def)
  then have "r = last (sort zs)" using ne by (simp add: hd_rev)
  moreover have "z \<le> last (sort zs)" using assms(2) by (intro sorted_le_last) auto
  ultimately show ?thesis by simp
qed

lemma gcm_eq:
  "0 < n \<Longrightarrow> 0 \<le> c \<Longrightarrow> c \<le> 1 \<Longrightarrow>
   get_close_matches w ps n c = Inr (map snd (nlargest (nat n) (scored_matches w c ps)))"
  by (simp add: get_close_matches_def scored_matches_def)

lemma gcm_Inr_D:
  "get_close_matches w ps n c = Inr xs \<Longrightarrow>
   0 < n \<and> xs = map snd (nlargest (nat n) (scored_matches w c ps))"
  by (auto simp: get_close_matches_def scored_matches_def split: if_splits)

lemma scored_matches_mem: "z \<in> set (scored_matches w c ps) \<Longrightarrow> z = (ratio (snd z) w, snd z) \<and> snd z \<in> set ps \<and> c \<le> ratio (snd z) w"
  by (auto simp: scored_matches_def)

lemma gcm_subset: "get_close_matches w ps n c = Inr xs \<Longrightarrow> set xs \<subseteq> set ps"
  using nlargest_subset scored_matches_mem by (fastforce dest!: gcm_Inr_D)

lemma gcm_length: "get_close_matches w ps n c = Inr xs \<Longrightarrow> length xs \<le> nat n"
  by (auto dest!: gcm_Inr_D simp: nlargest_length)

lemma gcm_cutoff: "get_close_matches w ps n c = Inr xs \<Longrightarrow> x \<in> set xs \<Longrightarrow> c \<le> ratio x w"
  using nlargest_subset scored_matches_mem by (fastforce dest!: gcm_Inr_D)

lemma gcm_ranked:
  assumes "get_close_matches w ps n c = Inr xs"
  shows "sorted (rev (map (\<lambda>x. (ratio x w, x)) xs))"
proof -
  let ?res = "nlargest (nat n) (scored_matches w c ps)"
  from assms have xs: "xs = map snd ?res" by (auto dest: gcm_Inr_D)
  have "map (\<lambda>x. (ratio x w, x)) xs = ?res"
    unfolding xs map_map
  proof (rule map_idI)
    fix z assume "z \<in> set ?res"
    then have "z \<in> set (scored_matches w c ps)" using nlargest_subset by blast
    from scored_matches_mem[OF this] show "((\<lambda>x. (ratio x w, x)) \<circ> snd) z = z" by simp
  qed
  then show ?thesis by (simp add: nlargest_sorted)
qed

lemma gcm_none:
  assumes "0 < n" "0 \<le> c" "c \<le> 1" and "\<forall>p \<in> set ps. ratio p w < c"
  shows "get_close_matches w ps n c = Inr []"
proof -
  have "scored_matches w c ps = []" using assms(4) by (auto simp: scored_matches_def filter_empty_conv)
  then show ?thesis using gcm_eq[OF assms(1,2,3)] by (simp add: nlargest_def)
qed

lemma gcm_best:
  assumes "get_close_matches w ps n c = Inr (x # xs)" and "p \<in> set ps"
    and "real_quick_ratio p w \<ge> c" "quick_ratio p w \<ge> c" "ratio p w \<ge> c"
  shows "(ratio p w, p) \<le> (ratio x w, x)"
proof -
  let ?res = "nlargest (nat n) (scored_matches w c ps)"
  from assms(1) have xs: "x # xs = map snd ?res" by (auto dest: gcm_Inr_D)
  then obtain r rs where r: "?res = r # rs" "snd r = x" by (cases ?res) auto
  then have "r \<in> set (scored_matches w c ps)" using nlargest_subset[of "nat n" "scored_matches w c ps"] by auto
  from scored_matches_mem[OF this] r(2) have req: "r = (ratio x w, x)" by simp
  have "(ratio p w, p) \<in> set (scored_matches w c ps)" using assms(2-5) by (auto simp: scored_matches_def)
  from nlargest_hd[OF r(1) this] req show ?thesis by simp
qed

lemma gcm_nonempty:
  assumes "0 < n" "0 \<le> c" "c \<le> 1" and "p \<in> set ps"
    and "c \<le> real_quick_ratio p w" "c \<le> quick_ratio p w" "c \<le> ratio p w"
  shows "\<exists>x xs. get_close_matches w ps n c = Inr (x # xs)"
proof -
  have "(ratio p w, p) \<in> set (scored_matches w c ps)"
    using assms(4-7) by (auto simp: scored_matches_def)
  then have ne: "scored_matches w c ps \<noteq> []" by auto
  have "length (sort (scored_matches w c ps)) = length (scored_matches w c ps)" by simp
  with ne have "sort (scored_matches w c ps) \<noteq> []" by (metis length_0_conv)
  then have "nlargest (nat n) (scored_matches w c ps) \<noteq> []"
    using assms(1) by (simp add: nlargest_def)
  then show ?thesis
    unfolding gcm_eq[OF assms(1,2,3)] by (cases "nlargest (nat n) (scored_matches w c ps)") auto
qed

lemma gcm_passes:
  assumes "get_close_matches w ps n c = Inr xs" and "x \<in> set xs"
  shows "c \<le> real_quick_ratio x w \<and> c \<le> quick_ratio x w \<and> c \<le> ratio x w"
proof -
  from gcm_Inr_D[OF assms(1)] assms(2) obtain z where
    "z \<in> set (nlargest (nat n) (scored_matches w c ps))" "x = snd z" by auto
  then have "z \<in> set (scored_matches w c ps)" using nlargest_subset by blast
  with \<open>x = snd z\<close> show ?thesis by (auto simp: scored_matches_def)
qed


lemma matches_le_quick:
  "sum_list (map (\<lambda>(i, j, k). k) (get_matching_blocks a b)) \<le> quick_ratio_loop b a Map.empty 0"
  unfolding get_matching_blocks_def quick_ratio_matches
  using matching_blocks_loop_bound[of "[(0, length a, 0, length b)]" a b "[]"] by simp

lemma calculate_ratio_mono: "m \<le> n \<Longrightarrow> calculate_ratio m l \<le> calculate_ratio n l"
  by (simp add: calculate_ratio_def divide_right_mono)

lemma ratio_le_quick_ratio: "ratio a b \<le> quick_ratio a b"
  unfolding ratio_def quick_ratio_def by (rule calculate_ratio_mono[OF matches_le_quick])

lemma quick_ratio_le_real_quick_ratio: "quick_ratio a b \<le> real_quick_ratio a b"
proof -
  have "size (mset a \<inter># mset b) \<le> size (mset a)" "size (mset a \<inter># mset b) \<le> size (mset b)"
    by (rule size_mset_mono, simp)+
  then have "quick_ratio_loop b a Map.empty 0 \<le> min (length a) (length b)"
    unfolding quick_ratio_matches by simp
  then show ?thesis
    unfolding quick_ratio_def real_quick_ratio_def by (rule calculate_ratio_mono)
qed

text \<open>
  The two quick tests of \<open>get_close_matches\<close> are upper bounds of the ratio, so a
  possibility passes the three tests exactly when its ratio reaches the cutoff.
\<close>

lemma scored_matches_ratio:
  "scored_matches word cutoff possibilities =
     map (\<lambda>x. (ratio x word, x)) (filter (\<lambda>x. cutoff \<le> ratio x word) possibilities)"
proof -
  have "\<And>x. (cutoff \<le> real_quick_ratio x word \<and> cutoff \<le> quick_ratio x word \<and> cutoff \<le> ratio x word) =
      (cutoff \<le> ratio x word)"
    using ratio_le_quick_ratio quick_ratio_le_real_quick_ratio by (meson order_trans)
  then show ?thesis by (simp add: scored_matches_def)
qed

lemma gcm_reaches:
  assumes "0 < n" "0 \<le> c" "c \<le> 1" and "p \<in> set ps" and "c \<le> ratio p w"
  shows "\<exists>x xs. get_close_matches w ps n c = Inr (x # xs)"
  using gcm_nonempty[OF assms(1-4) _ _ assms(5)] ratio_le_quick_ratio[of p w]
    quick_ratio_le_real_quick_ratio[of p w] assms(5) by (meson order_trans)

lemma gcm_greatest:
  assumes "get_close_matches w ps n c = Inr (x # xs)" and "p \<in> set ps"
  shows "(ratio p w, p) \<le> (ratio x w, x)"
proof (cases "c \<le> ratio p w")
  case True
  then have "c \<le> quick_ratio p w" "c \<le> real_quick_ratio p w"
    using ratio_le_quick_ratio[of p w] quick_ratio_le_real_quick_ratio[of p w] by (meson order_trans)+
  from gcm_best[OF assms this(2,1) True] show ?thesis .
next
  case False
  moreover have "c \<le> ratio x w" using gcm_cutoff[OF assms(1)] by simp
  ultimately have "ratio p w < ratio x w" by simp
  then show ?thesis by (simp add: less_eq_prod_def)
qed

lemma real_quick_ratio_Nil: "w \<noteq> [] \<Longrightarrow> real_quick_ratio [] w = 0"
  by (simp add: real_quick_ratio_def calculate_ratio_def)

lemma ratio_Nil:
  assumes "w \<noteq> []"
  shows "ratio [] w = 0"
proof -
  have "ratio [] w \<le> real_quick_ratio [] w"
    using ratio_le_quick_ratio quick_ratio_le_real_quick_ratio by (rule order_trans)
  then have "ratio [] w \<le> 0" by (simp add: real_quick_ratio_Nil[OF assms])
  moreover have "0 \<le> ratio [] w" by (simp add: ratio_def calculate_ratio_def)
  ultimately show ?thesis by simp
qed


section \<open>Properties of name resolution\<close>

lemma gcm_one: "\<exists>xs. get_close_matches w ps 1 (6 / 10) = Inr xs"
  by (simp add: get_close_matches_def)

lemma gcm_three: "\<exists>xs. get_close_matches w ps 3 (5 / 10) = Inr xs"
  by (simp add: get_close_matches_def)

lemma dict_get_Some_key: "dict_get d k = Some v \<Longrightarrow> k \<in> set (dict_keys d)"
  using dict_get_None_iff[of d k] by auto

lemma dict_key_get: "k \<in> set (dict_keys d) \<Longrightarrow> \<exists>v. dict_get d k = Some v"
  using dict_get_None_iff[of d k] by auto

text \<open>The result of \<open>find_distillery\<close>, stage by stage.\<close>

lemma find_distillery_alias:
  "dict_get (name_variants st) (str_lower name) = Some canonical \<Longrightarrow>
   dict_get (distillery_codes st) (str_lower canonical) = Some codes \<Longrightarrow>
   find_distillery st name = Inr (Some (str_lower canonical, codes))"
  by (simp add: find_distillery_def)

lemma alias_misses_by_variant:
  "alias_misses st name \<Longrightarrow>
   (case dict_get (name_variants st) (str_lower name) of
      None \<Rightarrow> None
    | Some standardized_name \<Rightarrow>
        (case dict_get (distillery_codes st) (str_lower standardized_name) of
           None \<Rightarrow> None
         | Some codes \<Rightarrow> Some (str_lower standardized_name, codes))) = None"
  by (cases "dict_get (name_variants st) (str_lower name)") (simp_all add: alias_misses_def)

lemma find_distillery_direct:
  "alias_misses st name \<Longrightarrow> dict_get (distillery_codes st) (str_lower name) = Some codes \<Longrightarrow>
   find_distillery st name = Inr (Some (str_lower name, codes))"
  by (simp add: find_distillery_def alias_misses_by_variant)

lemma find_distillery_fuzzy:
  "alias_misses st name \<Longrightarrow> dict_get (distillery_codes st) (str_lower name) = None \<Longrightarrow>
   find_distillery st name =
     (case get_close_matches (str_lower name) (dict_keys (distillery_codes st)) 1 (6 / 10) of
        Inl err \<Rightarrow> Inl err
      | Inr [] \<Rightarrow> Inr None
      | Inr (closest_match # _) \<Rightarrow>
          (case dict_get (distillery_codes st) closest_match of
             None \<Rightarrow> Inl (KeyError ''closest_match'')
           | Some codes \<Rightarrow> Inr (Some (closest_match, codes))))"
  by (simp add: find_distillery_def alias_misses_by_variant)

lemma find_distillery_fuzzy_hit:
  assumes "alias_misses st name" and "dict_get (distillery_codes st) (str_lower name) = None"
    and "get_close_matches (str_lower name) (dict_keys (distillery_codes st)) 1 (6 / 10) = Inr (best # rest)"
  shows "\<exists>codes. dict_get (distillery_codes st) best = Some codes \<and>
           find_distillery st name = Inr (Some (best, codes))"
proof -
  have "best \<in> set (dict_keys (distillery_codes st))"
    using gcm_subset[OF assms(3)] by simp
  from dict_key_get[OF this] obtain codes where c: "dict_get (distillery_codes st) best = Some codes" ..
  have "find_distillery st name = Inr (Some (best, codes))"
    unfolding find_distillery_fuzzy[OF assms(1,2)] assms(3) by (simp add: c)
  with c show ?thesis by blast
qed


lemma find_distillery_fuzzy_miss:
  assumes "alias_misses st name" and "dict_get (distillery_codes st) (str_lower name) = None"
    and "get_close_matches (str_lower name) (dict_keys (distillery_codes st)) 1 (6 / 10) = Inr []"
  shows "find_distillery st name = Inr None"
  unfolding find_distillery_fuzzy[OF assms(1,2)] assms(3) by simp

lemma spec_resolve_alias:
  assumes "dict_get (name_variants st) (str_lower name) = Some canonical"
    and "dict_get (distillery_codes st) (str_lower canonical) = Some codes" and "codes \<noteq> {}"
  shows "spec_resolve st name = Some (str_lower canonical, codes)"
  by (simp add: spec_resolve_def spec_alias_stage_def assms)

lemma spec_alias_stage_misses: "alias_misses st name \<Longrightarrow> spec_alias_stage st name = None"
  by (cases "dict_get (name_variants st) (str_lower name)")
    (simp_all add: alias_misses_def spec_alias_stage_def)

lemma spec_resolve_direct:
  assumes "alias_misses st name" and "dict_get (distillery_codes st) (str_lower name) = Some codes"
  shows "spec_resolve st name = Some (str_lower name, codes)"
  by (simp add: spec_resolve_def spec_alias_stage_misses[OF assms(1)] spec_direct_stage_def assms(2))

lemma spec_resolve_fuzzy:
  assumes "alias_misses st name" and "dict_get (distillery_codes st) (str_lower name) = None"
  shows "spec_resolve st name = spec_fuzzy_stage st name"
  by (simp add: spec_resolve_def spec_alias_stage_misses[OF assms(1)] spec_direct_stage_def assms(2))

lemma alias_hits:
  "\<not> alias_misses st name \<Longrightarrow>
   \<exists>canonical codes. dict_get (name_variants st) (str_lower name) = Some canonical \<and>
      dict_get (distillery_codes st) (str_lower canonical) = Some codes"
  by (cases "dict_get (name_variants st) (str_lower name)") (auto simp: alias_misses_def)

text \<open>
  Claim C3. In a state whose index entries are non-empty (as every constructed state's
  are), \<open>find_distillery\<close> computes the three-stage pipeline of the specification: the
  alias stage, else the direct stage, else the fuzzy stage, each attempted only when the
  earlier ones gave no result, and never an exception. In particular, when the
  lower-cased name is a registered alias of a name whose lower-cased form is a key of the
  canonical index, the result is that key with its codes, whatever the fuzzy matcher
  would find.
\<close>

theorem find_distillery_short_circuits:
  assumes "\<forall>k cs. dict_get (distillery_codes st) k = Some cs \<longrightarrow> cs \<noteq> {}"
  shows "find_distillery st name = Inr (spec_resolve st name) \<and>
         (\<forall>canonical codes.
            dict_get (name_variants st) (str_lower name) = Some canonical \<and>
            dict_get (distillery_codes st) (str_lower canonical) = Some codes \<longrightarrow>
            find_distillery st name = Inr (Some (str_lower canonical, codes)))"
proof (intro conjI allI impI)
  show "find_distillery st name = Inr (spec_resolve st name)"
  proof (cases "alias_misses st name")
    case False
    from alias_hits[OF False] obtain canonical codes where
      a: "dict_get (name_variants st) (str_lower name) = Some canonical"
         "dict_get (distillery_codes st) (str_lower canonical) = Some codes"
      by blast
    have "codes \<noteq> {}" using assms a(2) by blast
    from spec_resolve_alias[OF a this] find_distillery_alias[OF a] show ?thesis by simp
  next
    case True
    show ?thesis
    proof (cases "dict_get (distillery_codes st) (str_lower name)")
      case (Some codes)
      from find_distillery_direct[OF True Some] spec_resolve_direct[OF True Some]
      show ?thesis by simp
    next
      case None
      obtain xs where xs: "get_close_matches (str_lower name) (dict_keys (distillery_codes st)) 1 (6 / 10) = Inr xs"
        using gcm_one by blast
      show ?thesis
      proof (cases xs)
        case Nil
        have "spec_fuzzy_stage st name = None"
          unfolding spec_fuzzy_stage_def xs Nil by simp
        with find_distillery_fuzzy_miss[OF True None xs[unfolded Nil]] spec_resolve_fuzzy[OF True None]
        show ?thesis by simp
      next
        case (Cons best rest)
        from find_distillery_fuzzy_hit[OF True None xs[unfolded Cons]] obtain codes where
          c: "dict_get (distillery_codes st) best = Some codes"
          and f: "find_distillery st name = Inr (Some (best, codes))" by blast
        have "spec_fuzzy_stage st name = Some (best, codes)"
          unfolding spec_fuzzy_stage_def xs Cons by (simp add: c)
        with f spec_resolve_fuzzy[OF True None] show ?thesis by simp
      qed
    qed
  qed
next
  fix canonical codes
  assume "dict_get (name_variants st) (str_lower name) = Some canonical \<and>
          dict_get (distillery_codes st) (str_lower canonical) = Some codes"
  then show "find_distillery st name = Inr (Some (str_lower canonical, codes))"
    using find_distillery_alias by blast
qed

lemma find_distillery_Some_D:
  assumes "find_distillery st name = Inr (Some (n, cs))"
  shows "dict_get (distillery_codes st) n = Some cs"
proof (cases "alias_misses st name")
  case False
  from alias_hits[OF False] obtain canonical codes where
    a: "dict_get (name_variants st) (str_lower name) = Some canonical"
       "dict_get (distillery_codes st) (str_lower canonical) = Some codes"
    by blast
  from find_distillery_alias[OF a] assms a(2) show ?thesis by simp
next
  case True
  show ?thesis
  proof (cases "dict_get (distillery_codes st) (str_lower name)")
    case (Some codes)
    from find_distillery_direct[OF True Some] assms Some show ?thesis by simp
  next
    case None
    obtain xs where xs: "get_close_matches (str_lower name) (dict_keys (distillery_codes st)) 1 (6 / 10) = Inr xs"
      using gcm_one by blast
    show ?thesis
    proof (cases xs)
      case Nil
      from find_distillery_fuzzy_miss[OF True None xs[unfolded Nil]] assms show ?thesis by simp
    next
      case (Cons best rest)
      from find_distillery_fuzzy_hit[OF True None xs[unfolded Cons]] assms show ?thesis by auto
    qed
  qed
qed

lemma find_distillery_never_raises: "\<exists>r. find_distillery st name = Inr r"
proof (cases "alias_misses st name")
  case False
  from alias_hits[OF False] obtain canonical codes where
    a: "dict_get (name_variants st) (str_lower name) = Some canonical"
       "dict_get (distillery_codes st) (str_lower canonical) = Some codes"
    by blast
  from find_distillery_alias[OF a] show ?thesis by blast
next
  case True
  show ?thesis
  proof (cases "dict_get (distillery_codes st) (str_lower name)")
    case (Some codes)
    from find_distillery_direct[OF True Some] show ?thesis by blast
  next
    case None
    obtain xs where xs: "get_close_matches (str_lower name) (dict_keys (distillery_codes st)) 1 (6 / 10) = Inr xs"
      using gcm_one by blast
    show ?thesis
    proof (cases xs)
      case Nil
      from find_distillery_fuzzy_miss[OF True None xs[unfolded Nil]] show ?thesis by blast
    next
      case (Cons best rest)
      from find_distillery_fuzzy_hit[OF True None xs[unfolded Cons]] show ?thesis by blast
    qed
  qed
qed

text \<open>
  Claim C10. In a state constructed from a dataset, whenever \<open>find_distillery\<close> returns a
  pair \<open>(n, cs)\<close>, whichever stage produced it, \<open>n\<close> is a key of the canonical index,
  \<open>cs\<close> is the set stored under \<open>n\<close>, \<open>cs\<close> is not empty, and every code in \<open>cs\<close> is the
  id of a dataset entry whose lower-cased name is \<open>n\<close>.
\<close>

theorem find_distillery_result_in_index:
  assumes "init data = Inr st" and "find_distillery st name = Inr (Some (n, cs))"
  shows "dict_get (distillery_codes st) n = Some cs \<and> n \<in> set (dict_keys (distillery_codes st)) \<and>
         cs \<noteq> {} \<and>
         (\<forall>c \<in> cs. \<exists>b \<in> set data. \<exists>nm. b_name b = Some nm \<and> n = str_lower nm \<and> b_id b = Some c)"
proof -
  let ?st0 = "\<lparr>brands = [], distillery_codes = [], name_variants = []\<rparr>"
  from init_Inr[OF assms(1)] obtain st0 where
    l: "load_brands_loop data ?st0 = Inr st0" and d: "distillery_codes st = distillery_codes st0"
    by blast
  have g: "dict_get (distillery_codes st) n = Some cs" by (rule find_distillery_Some_D[OF assms(2)])
  then have g0: "dict_get (distillery_codes st0) n = Some cs" using d by simp
  have ne: "cs \<noteq> {}"
    by (rule load_codes_nonempty[OF l _ g0]) (simp add: dict_get_def)
  have orig: "\<forall>c \<in> cs. \<exists>b \<in> set data. \<exists>nm. b_name b = Some nm \<and> n = str_lower nm \<and> b_id b = Some c"
  proof
    fix c assume "c \<in> cs"
    from load_codes_origin[OF l g0 this] show "\<exists>b \<in> set data. \<exists>nm. b_name b = Some nm \<and> n = str_lower nm \<and> b_id b = Some c"
      by (simp add: dict_get_def)
  qed
  show ?thesis using g dict_get_Some_key[OF g] ne orig by blast
qed

lemma suggest_eq:
  assumes "get_close_matches (str_lower name) (dict_keys (distillery_codes st)) 3 (5 / 10) = Inr s"
  shows "suggest st name = (if s = [] then NoCodesFound else Suggestions s)"
  unfolding suggest_def assms by simp

lemma distillery_none:
  "find_distillery st name = Inr None \<Longrightarrow> distillery st data name = suggest st name"
  by (simp add: distillery_def)

text \<open>
  Claim C9. When no stage matches (the alias stage gives nothing, the lower-cased name is
  no key of the index, and no key has a similarity ratio of at least 0.6),
  \<open>find_distillery\<close> returns \<open>(None, None)\<close> without raising, and the command then computes
  its suggestions: at most 3 keys of the canonical index, each with a ratio of at least
  0.5, best first; it replies with them, or with the not-found message when there are
  none.
\<close>

theorem no_match_returns_none:
  assumes "alias_misses st name"
    and "dict_get (distillery_codes st) (str_lower name) = None"
    and "\<forall>k \<in> set (dict_keys (distillery_codes st)). ratio k (str_lower name) < 6 / 10"
  shows "find_distillery st name = Inr None \<and>
         (\<exists>s. get_close_matches (str_lower name) (dict_keys (distillery_codes st)) 3 (5 / 10) = Inr s \<and>
              length s \<le> 3 \<and> set s \<subseteq> set (dict_keys (distillery_codes st)) \<and>
              (\<forall>x \<in> set s. 5 / 10 \<le> ratio x (str_lower name)) \<and>
              sorted (rev (map (\<lambda>x. (ratio x (str_lower name), x)) s)) \<and>
              distillery st data name = (if s = [] then NoCodesFound else Suggestions s))"
proof -
  have g: "get_close_matches (str_lower name) (dict_keys (distillery_codes st)) 1 (6 / 10) = Inr []"
    by (rule gcm_none[OF _ _ _ assms(3)]) simp_all
  have f: "find_distillery st name = Inr None"
    by (rule find_distillery_fuzzy_miss[OF assms(1,2) g])
  obtain s where s: "get_close_matches (str_lower name) (dict_keys (distillery_codes st)) 3 (5 / 10) = Inr s"
    using gcm_three by blast
  have l: "length s \<le> 3" using gcm_length[OF s] by simp
  have c: "\<forall>x \<in> set s. 5 / 10 \<le> ratio x (str_lower name)" using gcm_cutoff[OF s] by blast
  have d: "distillery st data name = (if s = [] then NoCodesFound else Suggestions s)"
    using distillery_none[OF f] suggest_eq[OF s] by simp
  show ?thesis
    using f s l gcm_subset[OF s] c gcm_ranked[OF s] d by blast
qed

lemmas load_defs = init_def load_brands_def mk_brand_def Let_def add_id_def dict_get_def dict_keys_def
  py_def lower_eval get_details_def get_text_def initialize_name_variants_def
  info_of_def

lemma init_inverleven: "init data_inverleven = Inr st_inverleven"
  by (simp add: load_defs data_inverleven_def st_inverleven_def)

lemma init_glen: "init data_glen = Inr st_glen"
  by (simp add: load_defs data_glen_def st_glen_def)

text \<open>
  Claim C4. In a state constructed from any dataset, for every entry of the alias table
  and every name that is, up to case, one of its variants or its main name: if the
  lower-cased main name is a key of the canonical index, \<open>find_distillery\<close> returns that
  key with its codes, and this is also what it returns for the canonical name itself.
\<close>

theorem alias_resolves_as_canonical_name:
  assumes "init data = Inr st"
    and "(main_name, variant_list) \<in> set variants_display"
    and "str_lower a \<in> str_lower ` set (main_name # variant_list)"
    and "dict_get (distillery_codes st) (str_lower main_name) = Some codes"
  shows "find_distillery st a = Inr (Some (str_lower main_name, codes)) \<and>
         find_distillery st (str_lower main_name) = find_distillery st a"
proof -
  from init_Inr[OF assms(1)] have nv: "name_variants st = add_all_variants variants []" by blast
  have a: "dict_get (name_variants st) (str_lower a) = Some main_name"
    unfolding nv by (rule name_variants_lookup[OF assms(2,3)])
  have "str_lower (str_lower main_name) \<in> str_lower ` set (main_name # variant_list)"
    using variants_main_lower assms(2) by auto
  then have m: "dict_get (name_variants st) (str_lower (str_lower main_name)) = Some main_name"
    unfolding nv by (rule name_variants_lookup[OF assms(2)])
  from find_distillery_alias[OF a assms(4)] find_distillery_alias[OF m assms(4)]
  show ?thesis by simp
qed

lemma leven_entry: "(py ''inverleven'', [py ''leven'', py ''inver'']) \<in> set variants_display"
  by (simp add: variants_display_def)

lemma lower_Leven: "str_lower (py ''Leven'') = py ''leven''" "str_lower (py ''inverleven'') = py ''inverleven''"
  "str_lower (py ''leven'') = py ''leven''"
  by (simp_all add: py_def lower_eval)

text \<open>
  The scenario of the specification: the table maps \<open>leven\<close> to \<open>inverleven\<close>, and the
  dataset has Inverleven with code 77.
\<close>

theorem alias_resolves_as_canonical_name_witness:
  "find_distillery st_inverleven (py ''Leven'') = Inr (Some (py ''inverleven'', {py ''77''})) \<and>
   find_distillery st_inverleven (py ''inverleven'') = Inr (Some (py ''inverleven'', {py ''77''}))"
proof -
  have 3: "str_lower (py ''Leven'') \<in> str_lower ` set [py ''inverleven'', py ''leven'', py ''inver'']"
    by (simp add: lower_Leven)
  have 4: "dict_get (distillery_codes st_inverleven) (str_lower (py ''inverleven'')) = Some {py ''77''}"
    by (simp add: lower_Leven st_inverleven_def dict_get_def)
  from alias_resolves_as_canonical_name[OF init_inverleven leven_entry 3 4] show ?thesis by (simp add: lower_Leven)
qed

lemma gcm_leven: "get_close_matches (py ''leven'') [py ''inverleven'', py ''levens''] 1 (6 / 10) = Inr [py ''levens'']"
  by code_simp

lemma gcm_glen_mor_1: "get_close_matches (py ''glen mor'') [py ''glen moray'', py ''glen mhor''] 1 (6 / 10) = Inr [py ''glen mhor'']"
  by code_simp

lemma gcm_glen_mor_3: "get_close_matches (py ''glen mor'') [py ''glen moray'', py ''glen mhor''] 3 (6 / 10) = Inr [py ''glen mhor'', py ''glen moray'']"
  by code_simp

lemma ratio_moray: "ratio (py ''glen moray'') (py ''highland prak'') = 12 / 23"
  by code_simp

lemma gcm_prak: "get_close_matches (py ''highland prak'') [py ''glen moray''] 3 (5 / 10) = Inr [py ''glen moray'']"
  by code_simp

lemma lower_names: "str_lower (py ''Highland Prak'') = py ''highland prak''"
  "str_lower (py ''Glen Mor'') = py ''glen mor''"
  by (simp_all add: py_def lower_eval)

lemma init_leven: "init data_leven = Inr st_leven"
  by (simp add: load_defs data_leven_def st_leven_def)

lemma init_moray: "init data_moray = Inr st_moray"
  by (simp add: load_defs data_moray_def st_moray_def)

lemma highland_prak_no_variant: "py ''highland prak'' \<notin> set (variant_keys variants)"
  by (simp add: variants_eval(1) variants_display_def variant_keys_def py_def lower_eval)

theorem find_distillery_short_circuits_witness:
  "init data_leven = Inr st_leven \<and>
   find_distillery st_leven (py ''Leven'') = Inr (Some (py ''inverleven'', {py ''77''})) \<and>
   get_close_matches (py ''leven'') (dict_keys (distillery_codes st_leven)) 1 (6 / 10) = Inr [py ''levens'']"
proof -
  have h: "\<forall>k cs. dict_get (distillery_codes st_leven) k = Some cs \<longrightarrow> cs \<noteq> {}"
    by (auto simp: st_leven_def dict_get_def split: if_splits)
  have "str_lower (py ''Leven'') \<in> str_lower ` set [py ''inverleven'', py ''leven'', py ''inver'']"
    by (simp add: lower_Leven)
  from name_variants_lookup[OF leven_entry this]
  have a: "dict_get (name_variants st_leven) (str_lower (py ''Leven'')) = Some (py ''inverleven'')"
    by (simp add: st_leven_def)
  have c: "dict_get (distillery_codes st_leven) (str_lower (py ''inverleven'')) = Some {py ''77''}"
    by (simp add: lower_Leven st_leven_def dict_get_def)
  have k: "dict_keys (distillery_codes st_leven) = [py ''inverleven'', py ''levens'']"
    by (simp add: st_leven_def dict_keys_def)
  have g: "get_close_matches (py ''leven'') (dict_keys (distillery_codes st_leven)) 1 (6 / 10) = Inr [py ''levens'']"
    unfolding k by (rule gcm_leven)
  from find_distillery_short_circuits[OF h, of "py ''Leven''"] a c
  have "find_distillery st_leven (py ''Leven'') = Inr (Some (str_lower (py ''inverleven''), {py ''77''}))"
    by blast
  then have "find_distillery st_leven (py ''Leven'') = Inr (Some (py ''inverleven'', {py ''77''}))"
    by (simp add: lower_Leven)
  then show ?thesis using g by (intro conjI init_leven)
qed

lemma dict_get_Nil: "dict_get [] k = None"
  by (simp add: dict_get_def)

lemma glen_mor_alias_misses: "alias_misses st_glen (py ''Glen Mor'')"
proof -
  have "dict_get (name_variants st_glen) (str_lower (py ''Glen Mor'')) = None"
    unfolding lower_names st_glen_def
    by (simp add: dict_get_add_all_variants_other[OF glen_mor_no_variant] dict_get_Nil)
  then show ?thesis by (simp add: alias_misses_def)
qed

theorem no_match_returns_none_witness:
  "init data_moray = Inr st_moray \<and>
   find_distillery st_moray (py ''Highland Prak'') = Inr None \<and>
   distillery st_moray data_moray (py ''Highland Prak'') = Suggestions [py ''glen moray'']"
proof -
  have k: "dict_keys (distillery_codes st_moray) = [py ''glen moray'']"
    by (simp add: st_moray_def dict_keys_def)
  have "dict_get (name_variants st_moray) (str_lower (py ''Highland Prak'')) = None"
    unfolding lower_names st_moray_def
    by (simp add: dict_get_add_all_variants_other[OF highland_prak_no_variant] dict_get_Nil)
  then have a: "alias_misses st_moray (py ''Highland Prak'')"
    by (simp add: alias_misses_def)
  have d: "dict_get (distillery_codes st_moray) (str_lower (py ''Highland Prak'')) = None"
    unfolding lower_names by (simp add: st_moray_def dict_get_def py_def)
  have f: "\<forall>k \<in> set (dict_keys (distillery_codes st_moray)). ratio k (str_lower (py ''Highland Prak'')) < 6 / 10"
    unfolding k lower_names by (simp add: ratio_moray)
  from no_match_returns_none[OF a d f, of data_moray] obtain s where
    s: "get_close_matches (str_lower (py ''Highland Prak'')) (dict_keys (distillery_codes st_moray)) 3 (5 / 10) = Inr s"
    and r: "find_distillery st_moray (py ''Highland Prak'') = Inr None"
    and e: "distillery st_moray data_moray (py ''Highland Prak'') = (if s = [] then NoCodesFound else Suggestions s)"
    by blast
  from s have "s = [py ''glen moray'']" unfolding k lower_names gcm_prak by simp
  with r e init_moray show ?thesis by simp
qed

lemma glen_facts:
  "dict_keys (distillery_codes st_glen) = [py ''glen moray'', py ''glen mhor'']"
  "dict_get (distillery_codes st_glen) (py ''glen mor'') = None"
  "dict_get (distillery_codes st_glen) (py ''glen mhor'') = Some {py ''57''}"
  "\<forall>k cs. dict_get (distillery_codes st_glen) k = Some cs \<longrightarrow> cs \<noteq> {}"
  by (auto simp: st_glen_def dict_keys_def dict_get_def py_def split: if_splits)

lemma find_glen_mor: "find_distillery st_glen (py ''Glen Mor'') = Inr (Some (py ''glen mhor'', {py ''57''}))"
proof -
  have d: "dict_get (distillery_codes st_glen) (str_lower (py ''Glen Mor'')) = None"
    unfolding lower_names by (rule glen_facts(2))
  have g: "get_close_matches (str_lower (py ''Glen Mor'')) (dict_keys (distillery_codes st_glen)) 1 (6 / 10) = Inr [py ''glen mhor'']"
    unfolding lower_names glen_facts(1) by (rule gcm_glen_mor_1)
  from find_distillery_fuzzy_hit[OF glen_mor_alias_misses d g] glen_facts(3) show ?thesis by simp
qed

theorem find_distillery_result_in_index_witness:
  "dict_get (distillery_codes st_glen) (py ''glen mhor'') = Some {py ''57''} \<and>
   py ''glen mhor'' \<in> set (dict_keys (distillery_codes st_glen))"
  using find_distillery_result_in_index[OF init_glen find_glen_mor] by simp

section \<open>Properties of the \<open>/distillery\<close> command\<close>

lemma entries_with_id_eq:
  "\<forall>b \<in> set data. b_id b \<noteq> None \<Longrightarrow>
   entries_with_id data codes = Inr (filter (\<lambda>b. case b_id b of None \<Rightarrow> False | Some i \<Rightarrow> i \<in> codes) data)"
  by (induction data) (auto split: option.splits)

lemma description_fields_total:
  "\<forall>b \<in> set es. b_id b \<noteq> None \<Longrightarrow> \<exists>fs. description_fields es = Inr fs"
  by (induction es) (auto split: option.splits)

lemma description_fields_whole:
  "description_fields es = Inr fs \<Longrightarrow> b \<in> set es \<Longrightarrow> b_details b = Some d \<Longrightarrow>
   d_description d = Some s \<Longrightarrow> b_id b = Some c \<Longrightarrow>
   \<lparr>f_name = py ''Details for code '' @ c, f_value = s, f_inline = False\<rparr> \<in> set fs"
  by (induction es arbitrary: fs) (auto split: option.splits sum.splits)

lemma show_distillery_constructed:
  assumes "init data = Inr st" and "dict_get (distillery_codes st) n = Some cs"
  shows "\<exists>first_entry entries fs.
           first_entry # entries = filter (\<lambda>b. case b_id b of None \<Rightarrow> False | Some i \<Rightarrow> i \<in> cs) data \<and>
           description_fields (first_entry # entries) = Inr fs \<and>
           show_distillery data n cs = ShowDistillery (distillery_embed n cs first_entry fs)"
proof -
  let ?st0 = "\<lparr>brands = [], distillery_codes = [], name_variants = []\<rparr>"
  let ?es = "filter (\<lambda>b. case b_id b of None \<Rightarrow> False | Some i \<Rightarrow> i \<in> cs) data"
  from init_Inr[OF assms(1)] obtain st0 where
    l: "load_brands_loop data ?st0 = Inr st0" and d: "distillery_codes st = distillery_codes st0"
    by blast
  have g0: "dict_get (distillery_codes st0) n = Some cs" using assms(2) d by simp
  have "cs \<noteq> {}" by (rule load_codes_nonempty[OF l _ g0]) (simp add: dict_get_def)
  then obtain c where c: "c \<in> cs" by blast
  from load_codes_origin[OF l g0 c] obtain b where b: "b \<in> set data" "b_id b = Some c"
    by (auto simp: dict_get_def)
  then have "b \<in> set ?es" using c by simp
  then obtain first_entry entries where es: "?es = first_entry # entries"
    by (cases ?es) auto
  have v: "\<forall>b \<in> set data. b_id b \<noteq> None" by (rule init_valid[OF assms(1)])
  have e: "entries_with_id data cs = Inr (first_entry # entries)"
    using entries_with_id_eq[OF v, of cs] es by simp
  have "\<forall>b \<in> set (first_entry # entries). b_id b \<noteq> None"
    using v es[symmetric] by auto
  from description_fields_total[OF this] obtain fs where fs: "description_fields (first_entry # entries) = Inr fs" ..
  have "show_distillery data n cs = ShowDistillery (distillery_embed n cs first_entry fs)"
    by (simp add: show_distillery_def e fs del: description_fields.simps)
  with es fs show ?thesis by metis
qed

lemma distillery_found:
  "find_distillery st name = Inr (Some (n, cs)) \<Longrightarrow> n \<noteq> [] \<Longrightarrow> cs \<noteq> {} \<Longrightarrow>
   distillery st data name = show_distillery data n cs"
  by (simp add: distillery_def)

text \<open>
  Claim C2, as the code has it. In a state constructed from the dataset, when the alias
  stage and the direct stage give nothing, the fuzzy stage resolves by itself. If some
  key of the index has a similarity ratio of at least 0.6, \<open>find_distillery\<close> returns the
  best key (greatest ratio, then greatest string) with its codes, whether or not other
  keys reach the cutoff too, and the command sends the embed of that distillery, built
  from the dataset entries whose id is one of its codes: it offers no suggestions. If no
  key has a ratio of at least 0.6, \<open>find_distillery\<close> returns \<open>(None, None)\<close> and the command
  falls back to its suggestions.
\<close>

theorem fuzzy_stage_resolves_best_match:
  assumes "init data = Inr st"
    and "alias_misses st name"
    and "dict_get (distillery_codes st) (str_lower name) = None"
  shows "((\<exists>k \<in> set (dict_keys (distillery_codes st)). 6 / 10 \<le> ratio k (str_lower name)) \<longrightarrow>
          (\<exists>best codes first_entry entries fs.
             best \<in> set (dict_keys (distillery_codes st)) \<and>
             6 / 10 \<le> ratio best (str_lower name) \<and>
             (\<forall>k \<in> set (dict_keys (distillery_codes st)).
                (ratio k (str_lower name), k) \<le> (ratio best (str_lower name), best)) \<and>
             dict_get (distillery_codes st) best = Some codes \<and>
             find_distillery st name = Inr (Some (best, codes)) \<and>
             first_entry # entries =
               filter (\<lambda>b. case b_id b of None \<Rightarrow> False | Some i \<Rightarrow> i \<in> codes) data \<and>
             description_fields (first_entry # entries) = Inr fs \<and>
             distillery st data name = ShowDistillery (distillery_embed best codes first_entry fs))) \<and>
         ((\<forall>k \<in> set (dict_keys (distillery_codes st)). ratio k (str_lower name) < 6 / 10) \<longrightarrow>
            find_distillery st name = Inr None \<and> distillery st data name = suggest st name)"
proof (intro conjI impI)
  let ?w = "str_lower name"
  let ?keys = "dict_keys (distillery_codes st)"
  assume "\<exists>k \<in> set ?keys. 6 / 10 \<le> ratio k ?w"
  then obtain k where k: "k \<in> set ?keys" "6 / 10 \<le> ratio k ?w" by blast
  have "\<exists>best rest. get_close_matches ?w ?keys 1 (6 / 10) = Inr (best # rest)"
    by (rule gcm_reaches[OF _ _ _ k]) simp_all
  then obtain best rest where
    g: "get_close_matches ?w ?keys 1 (6 / 10) = Inr (best # rest)" by blast
  from find_distillery_fuzzy_hit[OF assms(2,3) g] obtain codes where
    c: "dict_get (distillery_codes st) best = Some codes"
    and f: "find_distillery st name = Inr (Some (best, codes))" by blast
  have bk: "best \<in> set ?keys" using gcm_subset[OF g] by simp
  have p: "6 / 10 \<le> ratio best ?w" using gcm_cutoff[OF g, of best] by simp
  have m: "\<forall>k \<in> set ?keys. (ratio k ?w, k) \<le> (ratio best ?w, best)"
    using gcm_greatest[OF g] by blast
  have "best \<noteq> ?w" using c assms(3) by auto
  have bn: "best \<noteq> []"
  proof
    assume e: "best = []"
    then have "?w \<noteq> []" using \<open>best \<noteq> ?w\<close> by simp
    from ratio_Nil[OF this] p e show False by simp
  qed
  from init_Inr[OF assms(1)] obtain st0 where
    l: "load_brands_loop data \<lparr>brands = [], distillery_codes = [], name_variants = []\<rparr> = Inr st0"
    and d: "distillery_codes st = distillery_codes st0" by blast
  have cn: "codes \<noteq> {}"
    by (rule load_codes_nonempty[OF l _ c[unfolded d]]) (simp add: dict_get_def)
  from show_distillery_constructed[OF assms(1) c] obtain first_entry entries fs where
    s: "first_entry # entries = filter (\<lambda>b. case b_id b of None \<Rightarrow> False | Some i \<Rightarrow> i \<in> codes) data"
       "description_fields (first_entry # entries) = Inr fs"
       "show_distillery data best codes = ShowDistillery (distillery_embed best codes first_entry fs)"
    by blast
  have r: "distillery st data name = ShowDistillery (distillery_embed best codes first_entry fs)"
    unfolding distillery_found[OF f bn cn] by (rule s(3))
  show "\<exists>best codes first_entry entries fs.
             best \<in> set ?keys \<and>
             6 / 10 \<le> ratio best ?w \<and>
             (\<forall>k \<in> set ?keys. (ratio k ?w, k) \<le> (ratio best ?w, best)) \<and>
             dict_get (distillery_codes st) best = Some codes \<and>
             find_distillery st name = Inr (Some (best, codes)) \<and>
             first_entry # entries =
               filter (\<lambda>b. case b_id b of None \<Rightarrow> False | Some i \<Rightarrow> i \<in> codes) data \<and>
             description_fields (first_entry # entries) = Inr fs \<and>
             distillery st data name = ShowDistillery (distillery_embed best codes first_entry fs)"
    using bk p m c f s(1,2) r by blast
next
  assume a: "\<forall>k \<in> set (dict_keys (distillery_codes st)). ratio k (str_lower name) < 6 / 10"
  have g: "get_close_matches (str_lower name) (dict_keys (distillery_codes st)) 1 (6 / 10) = Inr []"
    by (rule gcm_none[OF _ _ _ a]) simp_all
  show "find_distillery st name = Inr None"
    by (rule find_distillery_fuzzy_miss[OF assms(2,3) g])
  then show "distillery st data name = suggest st name"
    by (rule distillery_none)
qed

lemma init_long: "init data_long = Inr st_long"
  by (simp add: load_defs data_long_def st_long_def described_def info_described_def)

lemma init_six: "init data_six = Inr st_six"
  by (simp add: load_defs data_six_def st_six_def described_def info_described_def insert_commute)

lemma find_inverleven:
  assumes "name_variants st = add_all_variants variants []"
    and "dict_get (distillery_codes st) (py ''inverleven'') = Some cs"
  shows "find_distillery st (py ''Inverleven'') = Inr (Some (py ''inverleven'', cs))"
proof -
  have l: "str_lower (py ''Inverleven'') = py ''inverleven''"
    by (simp add: py_def lower_eval)
  have "str_lower (py ''Inverleven'') \<in> str_lower ` set [py ''inverleven'', py ''leven'', py ''inver'']"
    by (simp add: l lower_Leven)
  from name_variants_lookup[OF leven_entry this]
  have a: "dict_get (name_variants st) (str_lower (py ''Inverleven'')) = Some (py ''inverleven'')"
    by (simp add: assms(1))
  have c: "dict_get (distillery_codes st) (str_lower (py ''inverleven'')) = Some cs"
    by (simp add: lower_Leven assms(2))
  from find_distillery_alias[OF a c] show ?thesis by (simp add: lower_Leven)
qed

lemma title_inverleven: "str_title (py ''inverleven'') = py ''Inverleven''"
  by (simp add: py_def title_eval)

lemma sorted_six:
  "sorted_list_of_set {py ''1'', py ''2'', py ''3'', py ''4'', py ''5'', py ''6''} =
     [py ''1'', py ''2'', py ''3'', py ''4'', py ''5'', py ''6'']"
  by code_simp

lemma glen_mhor_reaches: "6 / 10 \<le> ratio (py ''glen mhor'') (py ''glen mor'')"
  by code_simp

lemma glen_ratios:
  "ratio (py ''glen mhor'') (py ''glen mor'') = 16 / 17"
  "ratio (py ''glen moray'') (py ''glen mor'') = 8 / 9"
  by code_simp+

lemma show_glen_mhor:
  "show_distillery data_glen (py ''glen mhor'') {py ''57''} =
     ShowDistillery \<lparr>e_title = py ''Distillery: Glen Mhor'', e_description = [],
       e_fields = [\<lparr>f_name = py ''SMWS Codes'', f_value = py ''57'', f_inline = False\<rparr>]\<rparr>"
  by (simp add: show_distillery_def data_glen_def mk_brand_def distillery_embed_def key_field_def
      py_def title_eval)

text \<open>
  With Glen Moray and Glen Mhor in the dataset, the name \<open>Glen Mor\<close> is neither an alias
  nor a key; both keys reach the cutoff 0.6, and the command presents Glen Mhor.
\<close>

theorem fuzzy_stage_auto_picks:
  "init data_glen = Inr st_glen \<and>
   get_close_matches (py ''glen mor'') (dict_keys (distillery_codes st_glen)) 3 (6 / 10) =
     Inr [py ''glen mhor'', py ''glen moray''] \<and>
   find_distillery st_glen (py ''Glen Mor'') = Inr (Some (py ''glen mhor'', {py ''57''})) \<and>
   distillery st_glen data_glen (py ''Glen Mor'') =
     ShowDistillery \<lparr>e_title = py ''Distillery: Glen Mhor'', e_description = [],
       e_fields = [\<lparr>f_name = py ''SMWS Codes'', f_value = py ''57'', f_inline = False\<rparr>]\<rparr>"
proof -
  have n: "py ''glen mhor'' \<noteq> []" by (simp add: py_def)
  have d: "distillery st_glen data_glen (py ''Glen Mor'') =
     ShowDistillery \<lparr>e_title = py ''Distillery: Glen Mhor'', e_description = [],
       e_fields = [\<lparr>f_name = py ''SMWS Codes'', f_value = py ''57'', f_inline = False\<rparr>]\<rparr>"
    unfolding distillery_found[OF find_glen_mor n insert_not_empty] by (rule show_glen_mhor)
  have g: "get_close_matches (py ''glen mor'') (dict_keys (distillery_codes st_glen)) 3 (6 / 10) =
     Inr [py ''glen mhor'', py ''glen moray'']"
    unfolding glen_facts(1) by (rule gcm_glen_mor_3)
  show ?thesis
    by (intro conjI init_glen g find_glen_mor d)
qed

theorem fuzzy_stage_resolves_best_match_witness:
  "find_distillery st_glen (py ''Glen Mor'') = Inr (Some (py ''glen mhor'', {py ''57''})) \<and>
   distillery st_glen data_glen (py ''Glen Mor'') =
     ShowDistillery \<lparr>e_title = py ''Distillery: Glen Mhor'', e_description = [],
       e_fields = [\<lparr>f_name = py ''SMWS Codes'', f_value = py ''57'', f_inline = False\<rparr>]\<rparr>"
proof -
  let ?w = "str_lower (py ''Glen Mor'')"
  let ?keys = "dict_keys (distillery_codes st_glen)"
  have d: "dict_get (distillery_codes st_glen) ?w = None"
    unfolding lower_names by (rule glen_facts(2))
  have mh: "py ''glen mhor'' \<in> set ?keys" by (simp add: glen_facts(1))
  have r: "6 / 10 \<le> ratio (py ''glen mhor'') ?w"
    unfolding lower_names by (rule glen_mhor_reaches)
  from mh r have ex: "\<exists>k \<in> set ?keys. 6 / 10 \<le> ratio k ?w" by blast
  from fuzzy_stage_resolves_best_match[OF init_glen glen_mor_alias_misses d, THEN conjunct1, rule_format, OF ex]
  obtain best codes first_entry entries fs where
    b: "best \<in> set ?keys"
    and m: "\<forall>k \<in> set ?keys. (ratio k ?w, k) \<le> (ratio best ?w, best)"
    and c: "dict_get (distillery_codes st_glen) best = Some codes"
    and f: "find_distillery st_glen (py ''Glen Mor'') = Inr (Some (best, codes))"
    and e: "first_entry # entries = filter (\<lambda>b. case b_id b of None \<Rightarrow> False | Some i \<Rightarrow> i \<in> codes) data_glen"
    and fs: "description_fields (first_entry # entries) = Inr fs"
    and s: "distillery st_glen data_glen (py ''Glen Mor'') = ShowDistillery (distillery_embed best codes first_entry fs)"
    by blast
  from m mh have le: "(ratio (py ''glen mhor'') ?w, py ''glen mhor'') \<le> (ratio best ?w, best)" by blast
  have best: "best = py ''glen mhor''"
  proof (rule ccontr)
    assume "best \<noteq> py ''glen mhor''"
    with b have "best = py ''glen moray''" by (simp add: glen_facts(1))
    with le show False unfolding lower_names by (simp add: glen_ratios less_eq_prod_def)
  qed
  have codes: "codes = {py ''57''}" using c glen_facts(3) unfolding best by simp
  have 1: "find_distillery st_glen (py ''Glen Mor'') = Inr (Some (py ''glen mhor'', {py ''57''}))"
    using f best codes by simp
  have fe: "first_entry # entries = [mk_brand ''57'' ''Glen Mhor'' [''57'']]"
    unfolding e codes by (simp add: data_glen_def mk_brand_def py_def)
  then have fe': "first_entry = mk_brand ''57'' ''Glen Mhor'' [''57'']" "entries = []" by simp_all
  have "fs = []" using fs unfolding fe' by (simp add: mk_brand_def)
  then have 2: "distillery st_glen data_glen (py ''Glen Mor'') =
     ShowDistillery \<lparr>e_title = py ''Distillery: Glen Mhor'', e_description = [],
       e_fields = [\<lparr>f_name = py ''SMWS Codes'', f_value = py ''57'', f_inline = False\<rparr>]\<rparr>"
    unfolding s best codes fe' by (simp add: mk_brand_def distillery_embed_def key_field_def py_def title_eval)
  from 1 2 show ?thesis by simp
qed

text \<open>
  Claim C6 fails on the name-lookup path. The dataset has one entry, Inverleven with id
  77 and a description of 1100 characters. \<open>/distillery Inverleven\<close> sends an embed whose
  field \<open>Details for code 77\<close> holds the description whole, all 1100 characters, where
  the claim has the first 1021 characters and the marker; the notes of an entry are not
  rendered on this path. \<open>/smws 77\<close>, on the same dataset, shortens the same description
  to 1021 characters and \<open>...\<close>.
\<close>

theorem distillery_description_not_truncated:
  "init data_long = Inr st_long \<and>
   distillery st_long data_long (py ''Inverleven'') =
     ShowDistillery \<lparr>e_title = py ''Distillery: Inverleven'', e_description = [],
       e_fields = [\<lparr>f_name = py ''SMWS Codes'', f_value = py ''77'', f_inline = False\<rparr>,
                   \<lparr>f_name = py ''Details for code 77'', f_value = long_text, f_inline = False\<rparr>]\<rparr> \<and>
   length long_text = 1100 \<and>
   smws data_long (py ''77'') =
     SendEmbed \<lparr>e_title = py ''SMWS Code 77'', e_description = py ''Inverleven'',
       e_fields = [\<lparr>f_name = py ''Description'', f_value = take 1021 long_text @ py ''...'', f_inline = False\<rparr>]\<rparr>"
proof -
  have f: "find_distillery st_long (py ''Inverleven'') = Inr (Some (py ''inverleven'', {py ''77''}))"
    by (rule find_inverleven) (simp_all add: st_long_def dict_get_def)
  have n: "py ''inverleven'' \<noteq> []" by (simp add: py_def)
  have s: "show_distillery data_long (py ''inverleven'') {py ''77''} =
     ShowDistillery \<lparr>e_title = py ''Distillery: Inverleven'', e_description = [],
       e_fields = [\<lparr>f_name = py ''SMWS Codes'', f_value = py ''77'', f_inline = False\<rparr>,
                   \<lparr>f_name = py ''Details for code 77'', f_value = long_text, f_inline = False\<rparr>]\<rparr>"
    by (simp add: show_distillery_def data_long_def described_def distillery_embed_def key_field_def
        title_inverleven) (simp add: py_def)
  have d: "distillery st_long data_long (py ''Inverleven'') =
     ShowDistillery \<lparr>e_title = py ''Distillery: Inverleven'', e_description = [],
       e_fields = [\<lparr>f_name = py ''SMWS Codes'', f_value = py ''77'', f_inline = False\<rparr>,
                   \<lparr>f_name = py ''Details for code 77'', f_value = long_text, f_inline = False\<rparr>]\<rparr>"
    unfolding distillery_found[OF f n insert_not_empty] by (rule s)
  have l: "length long_text = 1100" by (simp add: long_text_def)
  have w: "smws data_long (py ''77'') =
     SendEmbed \<lparr>e_title = py ''SMWS Code 77'', e_description = py ''Inverleven'',
       e_fields = [\<lparr>f_name = py ''Description'', f_value = take 1021 long_text @ py ''...'', f_inline = False\<rparr>]\<rparr>"
    by (simp add: eval_defs data_long_def described_def long_text_def)
  show ?thesis by (intro conjI init_long d l w)
qed

text \<open>
  Claim C8 fails on the name-lookup path. The dataset has six entries of the distillery
  Inverleven, with ids 1 to 6, each with a description of 1024 characters.
  \<open>/distillery Inverleven\<close> builds an embed of 6300 characters (no field longer than 1024)
  and sends it: the command never measures the embed and never reports that the response
  is too large. \<open>/smws\<close> measures its embed and answers with the too-large message when it
  exceeds 6000 characters.
\<close>

theorem distillery_embed_not_measured:
  "init data_six = Inr st_six \<and>
   distillery st_six data_six (py ''Inverleven'') =
     ShowDistillery \<lparr>e_title = py ''Distillery: Inverleven'', e_description = [],
       e_fields = \<lparr>f_name = py ''SMWS Codes'', f_value = py ''1, 2, 3, 4, 5, 6'', f_inline = False\<rparr> #
         map (\<lambda>i. \<lparr>f_name = py ''Details for code '' @ py i, f_value = replicate 1024 120, f_inline = False\<rparr>)
           [''1'', ''2'', ''3'', ''4'', ''5'', ''6'']\<rparr> \<and>
   embed_len \<lparr>e_title = py ''Distillery: Inverleven'', e_description = [],
       e_fields = \<lparr>f_name = py ''SMWS Codes'', f_value = py ''1, 2, 3, 4, 5, 6'', f_inline = False\<rparr> #
         map (\<lambda>i. \<lparr>f_name = py ''Details for code '' @ py i, f_value = replicate 1024 120, f_inline = False\<rparr>)
           [''1'', ''2'', ''3'', ''4'', ''5'', ''6'']\<rparr> = 6300 \<and>
   smws [brand_huge] (py ''1'') = SendEphemeral msg_too_large"
proof -
  let ?cs = "{py ''1'', py ''2'', py ''3'', py ''4'', py ''5'', py ''6''}"
  have f: "find_distillery st_six (py ''Inverleven'') = Inr (Some (py ''inverleven'', ?cs))"
    by (rule find_inverleven) (simp_all add: st_six_def dict_get_def)
  have n: "py ''inverleven'' \<noteq> []" by (simp add: py_def)
  have s: "show_distillery data_six (py ''inverleven'') ?cs =
     ShowDistillery \<lparr>e_title = py ''Distillery: Inverleven'', e_description = [],
       e_fields = \<lparr>f_name = py ''SMWS Codes'', f_value = py ''1, 2, 3, 4, 5, 6'', f_inline = False\<rparr> #
         map (\<lambda>i. \<lparr>f_name = py ''Details for code '' @ py i, f_value = replicate 1024 120, f_inline = False\<rparr>)
           [''1'', ''2'', ''3'', ''4'', ''5'', ''6'']\<rparr>"
    by (simp add: show_distillery_def data_six_def described_def distillery_embed_def key_field_def
        title_inverleven sorted_six) (simp add: py_def)
  have d: "distillery st_six data_six (py ''Inverleven'') =
     ShowDistillery \<lparr>e_title = py ''Distillery: Inverleven'', e_description = [],
       e_fields = \<lparr>f_name = py ''SMWS Codes'', f_value = py ''1, 2, 3, 4, 5, 6'', f_inline = False\<rparr> #
         map (\<lambda>i. \<lparr>f_name = py ''Details for code '' @ py i, f_value = replicate 1024 120, f_inline = False\<rparr>)
           [''1'', ''2'', ''3'', ''4'', ''5'', ''6'']\<rparr>"
    unfolding distillery_found[OF f n insert_not_empty] by (rule s)
  have l: "embed_len \<lparr>e_title = py ''Distillery: Inverleven'', e_description = [],
       e_fields = \<lparr>f_name = py ''SMWS Codes'', f_value = py ''1, 2, 3, 4, 5, 6'', f_inline = False\<rparr> #
         map (\<lambda>i. \<lparr>f_name = py ''Details for code '' @ py i, f_value = replicate 1024 120, f_inline = False\<rparr>)
           [''1'', ''2'', ''3'', ''4'', ''5'', ''6'']\<rparr> = 6300"
    by (simp add: embed_len_def py_def)
  show ?thesis by (intro conjI init_six d l smws_oversized_example)
qed

end
